theory Spec2Isabelle
  imports Complex_Main
begin

section \<open>The injector chain model (injector\_model.py), embedded\<close>

text \<open>
  The class \<open>InjectorChain\<close> of \<open>src/injector_model/injector_model.py\<close> is one mutable
  object whose methods read and assign attributes. Each method is embedded as a function
  from the object (a record of its attributes) to an error or the updated object.

  Numbers. Python and numpy floats are embedded as reals: rounding, overflow and
  underflow of IEEE arithmetic are not part of the model, and a decimal literal stands
  for its exact value.

  Outcomes. A method returns \<open>Inr\<close> of its value or \<open>Inl\<close> of the reason why the model
  has no value. \<open>ValueError\<close>, \<open>KeyError\<close>, \<open>FileNotFoundError\<close> and
  \<open>OverflowError\<close> are the exceptions of the code. The other three are not
  exceptions: they mark the point where the code goes on with a value that the
  model does not have. \<open>ZeroDivision\<close> is a division by zero (numpy yields \<open>inf\<close> or
  \<open>nan\<close> and warns; only a plain Python float raises \<open>ZeroDivisionError\<close>),
  \<open>NaN\<close> is \<open>np.sqrt\<close> of a negative number, \<open>Series\<close> is a table lookup that
  selects several rows, so that the attributes read from it are vectors. So \<open>Inr v\<close>
  is a run in which every number stayed finite and scalar, with the value the code
  computes, and \<open>Inl ZeroDivision\<close>, \<open>Inl NaN\<close> and \<open>Inl Series\<close> name the first
  operation that left these numbers: the code may still return from such a run (a
  dictionary holding \<open>inf\<close> or \<open>nan\<close>, an object holding vectors), and the model
  says nothing about what it returns.
\<close>

datatype py_error =
  ValueError | KeyError | FileNotFoundError | OverflowError | ZeroDivision | NaN | Series

subsection \<open>Input tables\<close>

text \<open>
  \<open>ion_data\<close> is a pandas DataFrame with one column per ion type; the rows read by
  \<open>init_ion\<close> are the fields of \<open>ion_column\<close>. The injection-energy table read from
  the CSV file is indexed by a key string and has the six gamma columns of
  \<open>ion_energy_row\<close>.
\<close>

record ion_column =
  col_mass_GeV :: real
  col_Z :: real
  col_A :: real
  col_Q_before_stripping :: real
  col_Linac3_current_uA :: real
  col_Linac3_pulse_length_us :: real
  col_LEIR_PS_Stripping_Efficiency :: real

record ion_energy_row =
  row_LEIR_gamma_inj :: real
  row_LEIR_gamma_extr :: real
  row_PS_gamma_inj :: real
  row_PS_gamma_extr :: real
  row_SPS_gamma_inj :: real
  row_SPS_gamma_extr :: real

type_synonym ion_table = "(string \<times> ion_column) list"
type_synonym energy_table = "(string \<times> ion_energy_row) list"

text \<open>
  Selecting a column by label, \<open>full_ion_data[ion_type]\<close>: a missing label raises
  KeyError. A label that occurs more than once selects a sub-frame, and reading a
  property from it by name (the sub-frame's columns are ion labels) raises KeyError as
  well.
\<close>

definition select_label :: "(string \<times> 'a) list \<Rightarrow> string \<Rightarrow> py_error + 'a" where
  "select_label tbl label =
     (case filter (\<lambda>p. fst p = label) tbl of
        [p] \<Rightarrow> Inr (snd p)
      | _ \<Rightarrow> Inl KeyError)"

text \<open>
  Selecting a row by key, \<open>ion_energy_data.loc[key]\<close>: a missing key raises KeyError.
  A key that occurs more than once selects a sub-frame of these rows, and reading a
  gamma column from it gives a vector (a pandas Series), with which the code goes on.
\<close>

definition loc_label :: "(string \<times> 'a) list \<Rightarrow> string \<Rightarrow> py_error + 'a" where
  "loc_label tbl label =
     (case filter (\<lambda>p. fst p = label) tbl of
        [] \<Rightarrow> Inl KeyError
      | [p] \<Rightarrow> Inr (snd p)
      | _ \<Rightarrow> Inl Series)"

subsection \<open>The object\<close>

text \<open>
  The attributes, grouped by the method that assigns them: the constructor's settings,
  the attributes of \<open>init_ion\<close> and \<open>load_ion_energy\<close>, those of
  \<open>ion0_referenceValues\<close>, and those of \<open>leir\<close>, \<open>ps\<close> and \<open>sps\<close>.
\<close>

record settings =
  full_ion_data :: ion_table
  LEIR_PS_strip :: bool
  higher_brho_LEIR :: bool
  use_gammas_ref :: bool
  ion_energy_data :: energy_table
  debug_mode :: bool
  account_for_SPS_transmission :: bool
  consider_PS_space_charge_limit :: bool
  nPulsesLEIR :: int
  LEIR_bunches :: int
  PS_splitting :: int
  ion_type_ref :: string
  save_path :: string
  use_Roderiks_gamma :: bool

record ion_attrs =
  ion_type :: string
  ion_data :: ion_column
  mass_GeV :: real
  Z :: real
  A :: real
  Q :: real
  linac3_current :: real
  linac3_pulseLength :: real
  LEIR_injection_efficiency :: real
  LEIR_transmission :: real
  LEIR_PS_stripping_efficiency :: real
  PS_transmission :: real
  PS_SPS_transmission_efficiency :: real
  PS_SPS_strip :: bool
  PS_SPS_stripping_efficiency :: real
  SPS_transmission :: real
  SPS_slipstacking_transmission :: real
  LEIR_gamma_inj_ref :: real
  LEIR_gamma_extr_ref :: real
  PS_gamma_inj_ref :: real
  PS_gamma_extr_ref :: real
  SPS_gamma_inj_ref :: real
  SPS_gamma_extr_ref :: real

record reference_attrs =
  E_kin_per_A_LEIR_inj :: real
  E_kin_per_A_LEIR_extr :: real
  E_kin_per_A_PS_inj :: real
  E_kin_per_A_PS_extr :: real
  E_kin_per_A_SPS_inj :: real
  E_kin_per_A_SPS_extr :: real
  m0_GeV :: real
  Z0 :: real
  Nq0_LEIR_extr :: real
  Q0_LEIR :: real
  Nb0_LEIR_extr :: real
  gamma0_LEIR_inj :: real
  gamma0_LEIR_extr :: real
  Nq0_PS_extr :: real
  Q0_PS :: real
  Nb0_PS_extr :: real
  gamma0_PS_inj :: real
  gamma0_PS_extr :: real
  Nb0_SPS_extr :: real
  Q0_SPS :: real
  Nq0_SPS_extr :: real
  gamma0_SPS_inj :: real
  gamma0_SPS_extr :: real

record stage_attrs =
  gamma_LEIR_inj :: real
  gamma_LEIR_extr :: real
  Nb_LEIR_extr :: real
  Nq_LEIR_extr :: real
  gamma_PS_inj :: real
  gamma_PS_extr :: real
  Nb_PS_extr :: real
  Nq_PS_extr :: real
  gamma_SPS_inj :: real
  gamma_SPS_extr :: real
  Nb_SPS_extr :: real
  Nq_SPS_extr :: real

record InjectorChain =
  cfg :: settings
  ion :: ion_attrs
  ref :: reference_attrs
  stage :: stage_attrs

subsection \<open>Helpers of the Python runtime\<close>

text \<open>\<open>int(x)\<close> on a float truncates towards zero.\<close>

definition py_int :: "real \<Rightarrow> int" where
  "py_int x = (if 0 \<le> x then \<lfloor>x\<rfloor> else \<lceil>x\<rceil>)"

text \<open>\<open>str(n)\<close> on an int: decimal digits, a minus sign for a negative number.\<close>

fun str_nat :: "nat \<Rightarrow> string" where
  "str_nat n =
     (if n < 10 then [char_of (48 + n)]
      else str_nat (n div 10) @ [char_of (48 + n mod 10)])"

declare str_nat.simps [simp del]

definition py_str :: "int \<Rightarrow> string" where
  "py_str i = (if i < 0 then CHR ''-'' # str_nat (nat (- i)) else str_nat (nat i))"

text \<open>\<open>scipy.constants.e\<close>, the elementary charge in coulomb.\<close>

definition e :: real where
  "e = 1602176634 / 10 ^ 28"

subsection \<open>beta and the linear intensity limit\<close>

text \<open>
  \<open>beta(gamma) = np.sqrt(1 - 1/gamma**2)\<close>: no check of gamma is made. At
  \<open>gamma = 0\<close> the division is by zero; where \<open>1 - 1/gamma**2\<close> is negative the root
  is \<open>nan\<close>.
\<close>

definition beta :: "real \<Rightarrow> py_error + real" where
  "beta gamma =
     (if gamma ^ 2 = 0 then Inl ZeroDivision
      else if 1 - 1 / gamma ^ 2 < 0 then Inl NaN
      else Inr (sqrt (1 - 1 / gamma ^ 2)))"

definition linearIntensityLimit ::
  "InjectorChain \<Rightarrow> real \<Rightarrow> real \<Rightarrow> real \<Rightarrow> real \<Rightarrow> real \<Rightarrow> real \<Rightarrow> bool \<Rightarrow> py_error + real" where
  "linearIntensityLimit self m gamma Nb_0 charge_0 m_0 gamma_0 fully_stripped =
     (let charge = (if fully_stripped then Z (ion self) else Q (ion self)) in
      case beta gamma_0 of
        Inl err \<Rightarrow> Inl err
      | Inr beta_0 \<Rightarrow>
          (case beta gamma of
             Inl err \<Rightarrow> Inl err
           | Inr beta' \<Rightarrow>
               if m_0 = 0 \<or> charge = 0 \<or> beta_0 = 0 \<or> gamma_0 = 0 then Inl ZeroDivision
               else
                 let linearIntensityFactor =
                       (m / m_0) * (charge_0 / charge) ^ 2 * (beta' / beta_0) * (gamma / gamma_0) ^ 2
                 in Inr (Nb_0 * linearIntensityFactor)))"

subsection \<open>Initialising an ion\<close>

text \<open>
  \<open>load_ion_energy\<close>: the key is \<open>str(int(Q)) + ion_type + str(int(A))\<close>.
\<close>

definition load_ion_energy :: "InjectorChain \<Rightarrow> py_error + InjectorChain" where
  "load_ion_energy self =
     (let key = py_str (py_int (Q (ion self))) @ ion_type (ion self) @ py_str (py_int (A (ion self))) in
      case loc_label (ion_energy_data (cfg self)) key of
        Inl err \<Rightarrow> Inl err
      | Inr ion_energy \<Rightarrow>
          Inr (self\<lparr>ion := (ion self)
                 \<lparr>LEIR_gamma_inj_ref := row_LEIR_gamma_inj ion_energy,
                  LEIR_gamma_extr_ref := row_LEIR_gamma_extr ion_energy,
                  PS_gamma_inj_ref := row_PS_gamma_inj ion_energy,
                  PS_gamma_extr_ref := row_PS_gamma_extr ion_energy,
                  SPS_gamma_inj_ref := row_SPS_gamma_inj ion_energy,
                  SPS_gamma_extr_ref := row_SPS_gamma_extr ion_energy\<rparr>\<rparr>))"

definition init_ion :: "InjectorChain \<Rightarrow> string \<Rightarrow> py_error + InjectorChain" where
  "init_ion self ion_type' =
     (case select_label (full_ion_data (cfg self)) ion_type' of
        Inl err \<Rightarrow> Inl err
      | Inr col \<Rightarrow>
          let self1 = self\<lparr>ion := (ion self)
                 \<lparr>ion_type := ion_type',
                  ion_data := col,
                  mass_GeV := col_mass_GeV col,
                  Z := col_Z col,
                  A := col_A col,
                  Q := col_Q_before_stripping col,
                  linac3_current := col_Linac3_current_uA col * (1 / 10 ^ 6),
                  linac3_pulseLength := col_Linac3_pulse_length_us col * (1 / 10 ^ 6),
                  LEIR_injection_efficiency := 5 / 10,
                  LEIR_transmission := 8 / 10,
                  LEIR_PS_stripping_efficiency := col_LEIR_PS_Stripping_Efficiency col,
                  PS_transmission := 9 / 10,
                  PS_SPS_transmission_efficiency := 1,
                  PS_SPS_strip := (\<not> LEIR_PS_strip (cfg self)),
                  PS_SPS_stripping_efficiency := 9 / 10,
                  SPS_transmission := 62 / 100,
                  SPS_slipstacking_transmission := 1\<rparr>\<rparr>
          in if use_gammas_ref (cfg self1) then load_ion_energy self1 else Inr self1)"

subsection \<open>Reference values\<close>

text \<open>
  \<open>ion0_referenceValues\<close>: the six kinetic energies per nucleon are assigned first;
  then, for the reference type \<open>'Pb'\<close>, the lead values; any other reference type
  raises ValueError. The only divisor that is not a literal is \<open>self.SPS_transmission\<close>.
\<close>

definition ion0_referenceValues :: "InjectorChain \<Rightarrow> py_error + InjectorChain" where
  "ion0_referenceValues self =
     (let E_LEIR_inj = 42 / 10 ^ 4;
          E_LEIR_extr = 722 / 10 ^ 4;
          E_PS_inj = 722 / 10 ^ 4;
          E_PS_extr = 59 / 10;
          E_SPS_inj = 59 / 10;
          E_SPS_extr = 1764 / 10
      in
      if ion_type_ref (cfg self) = ''Pb'' then
        let m0 = 193687 / 1000;
            Nq0_LEIR = 10 * 10 ^ 10;
            Nq0_PS = 6 * 10 ^ 10;
            SPS_transmission' =
              (if \<not> account_for_SPS_transmission (cfg self) then 1 else SPS_transmission (ion self))
        in
        if SPS_transmission' = 0 then Inl ZeroDivision
        else
          let Nb0_SPS = 221 * 10 ^ 6 / SPS_transmission' in
          Inr (self
            \<lparr>ion := (ion self)\<lparr>SPS_transmission := SPS_transmission'\<rparr>,
             ref := (ref self)
               \<lparr>E_kin_per_A_LEIR_inj := E_LEIR_inj,
                E_kin_per_A_LEIR_extr := E_LEIR_extr,
                E_kin_per_A_PS_inj := E_PS_inj,
                E_kin_per_A_PS_extr := E_PS_extr,
                E_kin_per_A_SPS_inj := E_SPS_inj,
                E_kin_per_A_SPS_extr := E_SPS_extr,
                m0_GeV := m0,
                Z0 := 82,
                Nq0_LEIR_extr := Nq0_LEIR,
                Q0_LEIR := 54,
                Nb0_LEIR_extr := Nq0_LEIR / 54,
                gamma0_LEIR_inj := (m0 + E_LEIR_inj * 208) / m0,
                gamma0_LEIR_extr := (m0 + E_LEIR_extr * 208) / m0,
                Nq0_PS_extr := Nq0_PS,
                Q0_PS := 54,
                Nb0_PS_extr := Nq0_PS / 54,
                gamma0_PS_inj := (m0 + E_PS_inj * 208) / m0,
                gamma0_PS_extr := (m0 + E_PS_extr * 208) / m0,
                Nb0_SPS_extr := Nb0_SPS,
                Q0_SPS := 82,
                Nq0_SPS_extr := Nb0_SPS * 82,
                gamma0_SPS_inj := (m0 + E_SPS_inj * 208) / m0,
                gamma0_SPS_extr := (m0 + E_SPS_extr * 208) / m0\<rparr>\<rparr>)
      else Inl ValueError)"

subsection \<open>The stages\<close>

text \<open>
  Each stage assigns its two gammas, from the loaded energies or from the kinetic energy
  per nucleon (a division by the ion's mass), then its extracted intensity through
  \<open>linearIntensityLimit\<close>. \<open>linac3\<close>, the two stripper foils and
  \<open>space_charge_tune_shift\<close> are \<open>pass\<close>.
\<close>

definition leir :: "InjectorChain \<Rightarrow> py_error + InjectorChain" where
  "leir self =
     (case (if use_gammas_ref (cfg self)
            then Inr (LEIR_gamma_inj_ref (ion self), LEIR_gamma_extr_ref (ion self))
            else if mass_GeV (ion self) = 0 then Inl ZeroDivision
            else Inr ((mass_GeV (ion self) + E_kin_per_A_LEIR_inj (ref self) * A (ion self)) / mass_GeV (ion self),
                      (mass_GeV (ion self) + E_kin_per_A_LEIR_extr (ref self) * A (ion self)) / mass_GeV (ion self))) of
        Inl err \<Rightarrow> Inl err
      | Inr (g_inj, g_extr) \<Rightarrow>
          (let self1 = self\<lparr>stage := (stage self)\<lparr>gamma_LEIR_inj := g_inj, gamma_LEIR_extr := g_extr\<rparr>\<rparr> in
           case linearIntensityLimit self1
                 (mass_GeV (ion self1))
                 (gamma_LEIR_extr (stage self1))
                 (Nb0_LEIR_extr (ref self1))
                 (Q0_LEIR (ref self1))
                 (m0_GeV (ref self1))
                 (gamma0_LEIR_extr (ref self1))
                 False of
            Inl err \<Rightarrow> Inl err
          | Inr Nb \<Rightarrow>
              Inr (self1\<lparr>stage := (stage self1)\<lparr>Nb_LEIR_extr := Nb, Nq_LEIR_extr := Nb * Q (ion self1)\<rparr>\<rparr>)))"

definition ps :: "InjectorChain \<Rightarrow> py_error + InjectorChain" where
  "ps self =
     (case (if use_gammas_ref (cfg self)
            then Inr (PS_gamma_inj_ref (ion self), PS_gamma_extr_ref (ion self))
            else if mass_GeV (ion self) = 0 then Inl ZeroDivision
            else Inr ((mass_GeV (ion self) + E_kin_per_A_PS_inj (ref self) * A (ion self)) / mass_GeV (ion self),
                      (mass_GeV (ion self) + E_kin_per_A_PS_extr (ref self) * A (ion self)) / mass_GeV (ion self))) of
        Inl err \<Rightarrow> Inl err
      | Inr (g_inj, g_extr) \<Rightarrow>
          (let self1 = self\<lparr>stage := (stage self)\<lparr>gamma_PS_inj := g_inj, gamma_PS_extr := g_extr\<rparr>\<rparr> in
           case linearIntensityLimit self1
                 (mass_GeV (ion self1))
                 (gamma_PS_extr (stage self1))
                 (Nb0_PS_extr (ref self1))
                 (Q0_PS (ref self1))
                 (m0_GeV (ref self1))
                 (gamma0_PS_extr (ref self1))
                 False of
            Inl err \<Rightarrow> Inl err
          | Inr Nb \<Rightarrow>
              Inr (self1\<lparr>stage := (stage self1)\<lparr>Nb_PS_extr := Nb, Nq_PS_extr := Nb * Q (ion self1)\<rparr>\<rparr>)))"

text \<open>
  \<open>sps\<close>: without the loaded energies and with \<open>use_Roderiks_gamma\<close>, the injection
  gamma is replaced by the one of equal magnetic rigidity at PS extraction. The
  divisor \<open>mass_GeV/m0_GeV\<close> needs a non-zero \<open>m0_GeV\<close> and is itself non-zero then
  (the mass is non-zero on this branch).
\<close>

definition sps :: "InjectorChain \<Rightarrow> py_error + InjectorChain" where
  "sps self =
     (case (if use_gammas_ref (cfg self)
            then Inr (SPS_gamma_inj_ref (ion self), SPS_gamma_extr_ref (ion self))
            else if mass_GeV (ion self) = 0 then Inl ZeroDivision
            else
              let g_inj = (mass_GeV (ion self) + E_kin_per_A_SPS_inj (ref self) * A (ion self)) / mass_GeV (ion self);
                  g_extr = (mass_GeV (ion self) + E_kin_per_A_SPS_extr (ref self) * A (ion self)) / mass_GeV (ion self)
              in
              if use_Roderiks_gamma (cfg self) then
                if m0_GeV (ref self) = 0 then Inl ZeroDivision
                else
                  let radicand =
                        1 + (((if LEIR_PS_strip (cfg self) then Z (ion self) else Q (ion self)) / 54)
                               / (mass_GeV (ion self) / m0_GeV (ref self))) ^ 2
                            * ((gamma0_SPS_inj (ref self)) ^ 2 - 1)
                  in if radicand < 0 then Inl NaN else Inr (sqrt radicand, g_extr)
              else Inr (g_inj, g_extr)) of
        Inl err \<Rightarrow> Inl err
      | Inr (g_inj, g_extr) \<Rightarrow>
          (let self1 = self\<lparr>stage := (stage self)\<lparr>gamma_SPS_inj := g_inj, gamma_SPS_extr := g_extr\<rparr>\<rparr> in
           case linearIntensityLimit self1
                 (mass_GeV (ion self1))
                 (gamma_SPS_inj (stage self1))
                 (Nb0_SPS_extr (ref self1))
                 (Q0_SPS (ref self1))
                 (m0_GeV (ref self1))
                 (gamma0_SPS_inj (ref self1))
                 True of
            Inl err \<Rightarrow> Inl err
          | Inr Nb \<Rightarrow>
              Inr (self1\<lparr>stage := (stage self1)\<lparr>Nb_SPS_extr := Nb, Nq_SPS_extr := Nb * Z (ion self1)\<rparr>\<rparr>)))"

definition simulate_injection_SpaceCharge_limit :: "InjectorChain \<Rightarrow> py_error + InjectorChain" where
  "simulate_injection_SpaceCharge_limit self =
     (case leir self of
        Inl err \<Rightarrow> Inl err
      | Inr self1 \<Rightarrow>
          (case ps self1 of
             Inl err \<Rightarrow> Inl err
           | Inr self2 \<Rightarrow> sps self2))"

subsection \<open>The chain for one ion\<close>

text \<open>
  The dictionary returned by \<open>calculate_LHC_bunch_intensity\<close>, one field per key. The
  key \<open>LEIR_PS_strippingEfficiency\<close> is present only with LEIR-PS stripping: its
  field is \<open>None\<close> when the key is absent.
\<close>

record chain_result =
  res_chargeBeforeStrip :: int
  res_atomicNumber :: int
  res_massNumber :: int
  res_Linac3_current_A :: real
  res_Linac3_pulse_length_s :: real
  res_Linac3_ionsPerPulse :: real
  res_LEIR_numberofPulses :: int
  res_LEIR_injection_efficiency :: real
  res_LEIR_maxIntensity :: real
  res_LEIR_space_charge_limit :: real
  res_LEIR_splitting :: int
  res_LEIR_gamma :: real
  res_LEIR_extractedIonPerBunch :: real
  res_LEIR_transmission :: real
  res_PS_space_charge_limit :: real
  res_PS_splitting :: int
  res_PS_transmission :: real
  res_PS_ionsExtractedPerBunch :: real
  res_gammaInjSPS :: real
  res_PS_SPS_stripping_efficiency :: real
  res_SPS_maxIntensityPerBunch :: real
  res_SPS_spaceChargeLimit :: real
  res_SPS_inj_gamma :: real
  res_SPS_accIntensity :: real
  res_SPS_transmission :: real
  res_LHC_ionsPerBunch :: real
  res_LHC_chargesPerBunch :: real
  res_Ion :: string
  res_LEIR_PS_strippingEfficiency :: "real option"

text \<open>
  \<open>calculate_LHC_bunch_intensity\<close> runs the stages, then the transmission chain.
  The divisors are \<open>Q * e\<close>, \<open>LEIR_bunches\<close> and \<open>PS_splitting\<close>, and the injected
  ions per pulse when the pulse count is chosen automatically (\<open>nPulsesLEIR == 0\<close>).
  With \<open>Q\<close>, \<open>LEIR_bunches\<close> or \<open>PS_splitting\<close> at 0 numpy divides by zero and the code
  returns a dictionary holding \<open>inf\<close> or \<open>nan\<close>: the model ends with
  \<open>ZeroDivision\<close> there. With no injected ions per pulse in the automatic mode the
  quotient is \<open>inf\<close>, or \<open>nan\<close> when the space charge limit is 0 as well, and
  \<open>math.ceil\<close> raises OverflowError, or ValueError. \<open>math.ceil\<close> is the ceiling
  of the real quotient. The message printed when the PS space charge limit is the
  smaller value is output only and is left out.
\<close>

definition calculate_LHC_bunch_intensity :: "InjectorChain \<Rightarrow> py_error + (chain_result \<times> InjectorChain)" where
  "calculate_LHC_bunch_intensity self0 =
     (case simulate_injection_SpaceCharge_limit self0 of
        Inl err \<Rightarrow> Inl err
      | Inr self \<Rightarrow>
          if Q (ion self) * e = 0 then Inl ZeroDivision
          else
            (let ionsPerPulseLinac3 =
                   (linac3_current (ion self) * linac3_pulseLength (ion self)) / (Q (ion self) * e) in
             case linearIntensityLimit self
                    (mass_GeV (ion self))
                    (gamma_LEIR_extr (stage self))
                    (Nb0_LEIR_extr (ref self))
                    (Q0_LEIR (ref self))
                    (m0_GeV (ref self))
                    (gamma0_LEIR_extr (ref self))
                    False of
               Inl err \<Rightarrow> Inl err
             | Inr spaceChargeLimitLEIR \<Rightarrow>
                 (case (if nPulsesLEIR (cfg self) = 0
                        then if ionsPerPulseLinac3 * LEIR_injection_efficiency (ion self) = 0
                             then Inl (if spaceChargeLimitLEIR = 0 then ValueError else OverflowError)
                             else Inr (min 7 \<lceil>spaceChargeLimitLEIR
                                                / (ionsPerPulseLinac3 * LEIR_injection_efficiency (ion self))\<rceil>)
                        else Inr (nPulsesLEIR (cfg self))) of
                    Inl err \<Rightarrow> Inl err
                  | Inr nPulsesLEIR' \<Rightarrow>
                      (let totalIntLEIR =
                             ionsPerPulseLinac3 * of_int nPulsesLEIR' * LEIR_injection_efficiency (ion self) in
                       if LEIR_bunches (cfg self) = 0 then Inl ZeroDivision
                       else
                         (let ionsPerBunchExtractedLEIR =
                                LEIR_transmission (ion self) * min totalIntLEIR spaceChargeLimitLEIR
                                  / of_int (LEIR_bunches (cfg self)) in
                          if PS_splitting (cfg self) = 0 then Inl ZeroDivision
                          else
                            (let ionsPerBunchExtractedPS =
                                   ionsPerBunchExtractedLEIR
                                     * (if LEIR_PS_strip (cfg self) then LEIR_PS_stripping_efficiency (ion self) else 1)
                                     * PS_transmission (ion self) / of_int (PS_splitting (cfg self)) in
                             case linearIntensityLimit self
                                    (mass_GeV (ion self))
                                    (gamma_PS_inj (stage self))
                                    (Nb0_PS_extr (ref self))
                                    (Q0_PS (ref self))
                                    (m0_GeV (ref self))
                                    (gamma0_PS_inj (ref self))
                                    (LEIR_PS_strip (cfg self)) of
                               Inl err \<Rightarrow> Inl err
                             | Inr spaceChargeLimitPS \<Rightarrow>
                                 (let ionsPerBunchPS =
                                        (if consider_PS_space_charge_limit (cfg self)
                                         then min spaceChargeLimitPS ionsPerBunchExtractedPS
                                         else ionsPerBunchExtractedPS);
                                      ionsPerBunchSPSinj =
                                        ionsPerBunchPS
                                          * (if Z (ion self) = Q (ion self) \<or> LEIR_PS_strip (cfg self)
                                             then PS_SPS_transmission_efficiency (ion self)
                                             else PS_SPS_stripping_efficiency (ion self)) in
                                  case linearIntensityLimit self
                                         (mass_GeV (ion self))
                                         (gamma_SPS_inj (stage self))
                                         (Nb0_SPS_extr (ref self))
                                         (Q0_SPS (ref self))
                                         (m0_GeV (ref self))
                                         (gamma0_SPS_inj (ref self))
                                         True of
                                    Inl err \<Rightarrow> Inl err
                                  | Inr spaceChargeLimitSPS \<Rightarrow>
                                      (let ionsPerBunchLHC =
                                             min spaceChargeLimitSPS ionsPerBunchSPSinj
                                               * SPS_transmission (ion self)
                                               * SPS_slipstacking_transmission (ion self) in
                                       Inr (\<lparr>res_chargeBeforeStrip = py_int (Q (ion self)),
                                             res_atomicNumber = py_int (Z (ion self)),
                                             res_massNumber = py_int (A (ion self)),
                                             res_Linac3_current_A = linac3_current (ion self),
                                             res_Linac3_pulse_length_s = linac3_pulseLength (ion self),
                                             res_Linac3_ionsPerPulse = ionsPerPulseLinac3,
                                             res_LEIR_numberofPulses = nPulsesLEIR',
                                             res_LEIR_injection_efficiency = LEIR_injection_efficiency (ion self),
                                             res_LEIR_maxIntensity = totalIntLEIR,
                                             res_LEIR_space_charge_limit = spaceChargeLimitLEIR,
                                             res_LEIR_splitting = LEIR_bunches (cfg self),
                                             res_LEIR_gamma = gamma_LEIR_inj (stage self),
                                             res_LEIR_extractedIonPerBunch = ionsPerBunchExtractedLEIR,
                                             res_LEIR_transmission = LEIR_transmission (ion self),
                                             res_PS_space_charge_limit = spaceChargeLimitPS,
                                             res_PS_splitting = PS_splitting (cfg self),
                                             res_PS_transmission = PS_transmission (ion self),
                                             res_PS_ionsExtractedPerBunch = ionsPerBunchExtractedPS,
                                             res_gammaInjSPS = gamma_SPS_inj (stage self),
                                             res_PS_SPS_stripping_efficiency = PS_SPS_stripping_efficiency (ion self),
                                             res_SPS_maxIntensityPerBunch = ionsPerBunchSPSinj,
                                             res_SPS_spaceChargeLimit = spaceChargeLimitSPS,
                                             res_SPS_inj_gamma = gamma_SPS_inj (stage self),
                                             res_SPS_accIntensity = min spaceChargeLimitSPS ionsPerBunchSPSinj,
                                             res_SPS_transmission = SPS_transmission (ion self),
                                             res_LHC_ionsPerBunch = ionsPerBunchLHC,
                                             res_LHC_chargesPerBunch = ionsPerBunchLHC * Z (ion self),
                                             res_Ion = ion_type (ion self),
                                             res_LEIR_PS_strippingEfficiency =
                                               (if LEIR_PS_strip (cfg self)
                                                then Some (LEIR_PS_stripping_efficiency (ion self))
                                                else None)\<rparr>,
                                            self)))))))))"

subsection \<open>All ion species of the table\<close>

text \<open>
  The loop of \<open>calculate_LHC_bunch_intensity_all_ion_species\<close> over the column labels:
  \<open>init_ion\<close>, then \<open>calculate_LHC_bunch_intensity\<close>, on the one object, the results
  appended in order. An exception ends the loop.
\<close>

fun all_ion_species_loop :: "InjectorChain \<Rightarrow> string list \<Rightarrow> py_error + (chain_result list \<times> InjectorChain)" where
  "all_ion_species_loop self [] = Inr ([], self)"
| "all_ion_species_loop self (ion_type' # rest) =
     (case init_ion self ion_type' of
        Inl err \<Rightarrow> Inl err
      | Inr self1 \<Rightarrow>
          (case calculate_LHC_bunch_intensity self1 of
             Inl err \<Rightarrow> Inl err
           | Inr (result, self2) \<Rightarrow>
               (case all_ion_species_loop self2 rest of
                  Inl err \<Rightarrow> Inl err
                | Inr (results, self3) \<Rightarrow> Inr (result # results, self3))))"

text \<open>
  The results are collected per key and turned into a DataFrame with one row per ion,
  indexed by the key \<open>Ion\<close>: the list of the result records, in order. With no column
  at all the frame has no key \<open>Ion\<close> and \<open>set_index\<close> raises KeyError. Saving the
  CSV file (\<open>save_csv\<close>, off by default) is left out.
\<close>

definition calculate_LHC_bunch_intensity_all_ion_species ::
  "InjectorChain \<Rightarrow> py_error + (chain_result list \<times> InjectorChain)" where
  "calculate_LHC_bunch_intensity_all_ion_species self =
     (case all_ion_species_loop self (map fst (full_ion_data (cfg self))) of
        Inl err \<Rightarrow> Inl err
      | Inr (full_result, self1) \<Rightarrow>
          if full_result = [] then Inl KeyError else Inr (full_result, self1))"

subsection \<open>The constructor\<close>

text \<open>
  The arguments of \<open>__init__\<close>. The CSV files of injection energies are an input of
  the constructor: \<open>read_csv\<close> maps a path to the table stored there, if any.
\<close>

record init_args =
  arg_ion_type :: string
  arg_ion_data :: ion_table
  arg_ion_type_ref :: string
  arg_nPulsesLEIR :: int
  arg_LEIR_bunches :: int
  arg_PS_splitting :: int
  arg_account_for_SPS_transmission :: bool
  arg_LEIR_PS_strip :: bool
  arg_consider_PS_space_charge_limit :: bool
  arg_use_gammas_ref :: bool
  arg_higher_brho_LEIR :: bool

text \<open>
  \<open>__init__(self, ...)\<close> assigns attributes of a fresh object \<open>self\<close>; the ones it
  does not assign (the stage attributes, and the loaded energies without
  \<open>use_gammas_ref\<close>) stay as they are in \<open>self\<close>. The order is the source's:
  \<open>init_ion\<close> runs before \<open>account_for_SPS_transmission\<close> and the reference type are
  stored, \<open>ion0_referenceValues\<close> after.
\<close>

definition InjectorChain_init ::
  "(string \<Rightarrow> energy_table option) \<Rightarrow> InjectorChain \<Rightarrow> init_args \<Rightarrow> py_error + InjectorChain" where
  "InjectorChain_init read_csv self args =
     (let brho_string = (if arg_higher_brho_LEIR args then ''_higher_brho_LEIR'' else []);
          path = (if arg_LEIR_PS_strip args
                  then ''../data/ion_injection_energies_LEIR_PS_strip'' @ brho_string @ ''.csv''
                  else ''../data/ion_injection_energies_PS_SPS_strip'' @ brho_string @ ''.csv'')
      in
      case read_csv path of
        None \<Rightarrow> Inl FileNotFoundError
      | Some energies \<Rightarrow>
          (case init_ion
                  (self\<lparr>cfg := (cfg self)
                     \<lparr>full_ion_data := arg_ion_data args,
                      LEIR_PS_strip := arg_LEIR_PS_strip args,
                      higher_brho_LEIR := arg_higher_brho_LEIR args,
                      use_gammas_ref := arg_use_gammas_ref args,
                      ion_energy_data := energies\<rparr>\<rparr>)
                  (arg_ion_type args) of
             Inl err \<Rightarrow> Inl err
           | Inr self1 \<Rightarrow>
               (case ion0_referenceValues
                       (self1\<lparr>cfg := (cfg self1)
                          \<lparr>debug_mode := False,
                           account_for_SPS_transmission := arg_account_for_SPS_transmission args,
                           consider_PS_space_charge_limit := arg_consider_PS_space_charge_limit args,
                           nPulsesLEIR := arg_nPulsesLEIR args,
                           LEIR_bunches := arg_LEIR_bunches args,
                           PS_splitting := arg_PS_splitting args,
                           ion_type_ref := arg_ion_type_ref args\<rparr>\<rparr>) of
                  Inl err \<Rightarrow> Inl err
                | Inr self2 \<Rightarrow>
                    Inr (self2\<lparr>cfg := (cfg self2)
                           \<lparr>save_path := ''../output'',
                            use_Roderiks_gamma := (\<not> arg_use_gammas_ref args)\<rparr>\<rparr>))))"

subsection \<open>Objects the methods can produce\<close>

text \<open>
  The states of an object in use: the constructor has returned, and then any of
  \<open>init_ion\<close>, \<open>leir\<close>, \<open>ps\<close> and \<open>sps\<close> has returned, in any order and number.
  (\<open>simulate_injection_SpaceCharge_limit\<close> and the two calculations are sequences of
  these.)
\<close>

inductive reachable :: "InjectorChain \<Rightarrow> bool" where
  reach_init: "InjectorChain_init read_csv self0 args = Inr self \<Longrightarrow> reachable self"
| reach_init_ion: "reachable self \<Longrightarrow> init_ion self ion_type' = Inr self' \<Longrightarrow> reachable self'"
| reach_leir: "reachable self \<Longrightarrow> leir self = Inr self' \<Longrightarrow> reachable self'"
| reach_ps: "reachable self \<Longrightarrow> ps self = Inr self' \<Longrightarrow> reachable self'"
| reach_sps: "reachable self \<Longrightarrow> sps self = Inr self' \<Longrightarrow> reachable self'"

subsection \<open>Well-formed input\<close>

text \<open>
  The ion of the object as the data model has it: positive mass, mass number and
  pre-stripping charge, \<open>Q \<le> Z\<close>, a source current and pulse length that are not
  negative, a stripping efficiency in \<open>[0, 1]\<close>; with loaded energies, gammas above 1.
  The counts of the settings: a pulse count that is not negative (0 chooses it
  automatically, which divides by the ions per pulse), at least one bunch and a
  splitting of at least one.
\<close>

definition ion_well_formed :: "InjectorChain \<Rightarrow> bool" where
  "ion_well_formed self \<longleftrightarrow>
     0 < mass_GeV (ion self) \<and> 0 < A (ion self) \<and> 0 < Q (ion self) \<and> Q (ion self) \<le> Z (ion self) \<and>
     0 \<le> linac3_current (ion self) \<and> 0 \<le> linac3_pulseLength (ion self) \<and>
     0 \<le> LEIR_PS_stripping_efficiency (ion self) \<and> LEIR_PS_stripping_efficiency (ion self) \<le> 1 \<and>
     (\<not> use_gammas_ref (cfg self) \<or>
        1 < LEIR_gamma_extr_ref (ion self) \<and> 1 < PS_gamma_inj_ref (ion self) \<and>
        1 < PS_gamma_extr_ref (ion self) \<and> 1 < SPS_gamma_inj_ref (ion self))"

definition counts_well_formed :: "InjectorChain \<Rightarrow> bool" where
  "counts_well_formed self \<longleftrightarrow>
     0 \<le> nPulsesLEIR (cfg self) \<and> 0 < LEIR_bunches (cfg self) \<and> 0 < PS_splitting (cfg self) \<and>
     (nPulsesLEIR (cfg self) \<noteq> 0 \<or> 0 < linac3_current (ion self) * linac3_pulseLength (ion self))"

subsection \<open>Example data\<close>

text \<open>
  An object with nothing assigned yet, a table of two ions (lead and oxygen), and the
  arguments of a constructor call with the defaults of the source.
\<close>

definition fresh_object :: InjectorChain where
  "fresh_object =
     \<lparr>cfg = \<lparr>full_ion_data = [], LEIR_PS_strip = False, higher_brho_LEIR = False,
              use_gammas_ref = False, ion_energy_data = [], debug_mode = False,
              account_for_SPS_transmission = False, consider_PS_space_charge_limit = False,
              nPulsesLEIR = 0, LEIR_bunches = 0, PS_splitting = 0, ion_type_ref = [],
              save_path = [], use_Roderiks_gamma = False\<rparr>,
      ion = \<lparr>ion_type = [],
              ion_data = \<lparr>col_mass_GeV = 0, col_Z = 0, col_A = 0, col_Q_before_stripping = 0,
                           col_Linac3_current_uA = 0, col_Linac3_pulse_length_us = 0,
                           col_LEIR_PS_Stripping_Efficiency = 0\<rparr>,
              mass_GeV = 0, Z = 0, A = 0, Q = 0, linac3_current = 0, linac3_pulseLength = 0,
              LEIR_injection_efficiency = 0, LEIR_transmission = 0,
              LEIR_PS_stripping_efficiency = 0, PS_transmission = 0,
              PS_SPS_transmission_efficiency = 0, PS_SPS_strip = False,
              PS_SPS_stripping_efficiency = 0, SPS_transmission = 0,
              SPS_slipstacking_transmission = 0, LEIR_gamma_inj_ref = 0,
              LEIR_gamma_extr_ref = 0, PS_gamma_inj_ref = 0, PS_gamma_extr_ref = 0,
              SPS_gamma_inj_ref = 0, SPS_gamma_extr_ref = 0\<rparr>,
      ref = \<lparr>E_kin_per_A_LEIR_inj = 0, E_kin_per_A_LEIR_extr = 0, E_kin_per_A_PS_inj = 0,
              E_kin_per_A_PS_extr = 0, E_kin_per_A_SPS_inj = 0, E_kin_per_A_SPS_extr = 0,
              m0_GeV = 0, Z0 = 0, Nq0_LEIR_extr = 0, Q0_LEIR = 0, Nb0_LEIR_extr = 0,
              gamma0_LEIR_inj = 0, gamma0_LEIR_extr = 0, Nq0_PS_extr = 0, Q0_PS = 0,
              Nb0_PS_extr = 0, gamma0_PS_inj = 0, gamma0_PS_extr = 0, Nb0_SPS_extr = 0,
              Q0_SPS = 0, Nq0_SPS_extr = 0, gamma0_SPS_inj = 0, gamma0_SPS_extr = 0\<rparr>,
      stage = \<lparr>gamma_LEIR_inj = 0, gamma_LEIR_extr = 0, Nb_LEIR_extr = 0, Nq_LEIR_extr = 0,
                gamma_PS_inj = 0, gamma_PS_extr = 0, Nb_PS_extr = 0, Nq_PS_extr = 0,
                gamma_SPS_inj = 0, gamma_SPS_extr = 0, Nb_SPS_extr = 0, Nq_SPS_extr = 0\<rparr>\<rparr>"

definition Pb_column :: ion_column where
  "Pb_column =
     \<lparr>col_mass_GeV = 193687 / 1000, col_Z = 82, col_A = 208, col_Q_before_stripping = 54,
      col_Linac3_current_uA = 20, col_Linac3_pulse_length_us = 200,
      col_LEIR_PS_Stripping_Efficiency = 1\<rparr>"

definition O_column :: ion_column where
  "O_column =
     \<lparr>col_mass_GeV = 14895 / 1000, col_Z = 8, col_A = 16, col_Q_before_stripping = 4,
      col_Linac3_current_uA = 50, col_Linac3_pulse_length_us = 200,
      col_LEIR_PS_Stripping_Efficiency = 1\<rparr>"

definition example_ion_data :: ion_table where
  "example_ion_data = [(''Pb'', Pb_column), (''O'', O_column)]"

definition example_read_csv :: "string \<Rightarrow> energy_table option" where
  "example_read_csv path = Some []"

definition example_args :: init_args where
  "example_args =
     \<lparr>arg_ion_type = ''Pb'', arg_ion_data = example_ion_data, arg_ion_type_ref = ''Pb'',
      arg_nPulsesLEIR = 1, arg_LEIR_bunches = 1, arg_PS_splitting = 1,
      arg_account_for_SPS_transmission = True, arg_LEIR_PS_strip = False,
      arg_consider_PS_space_charge_limit = True, arg_use_gammas_ref = False,
      arg_higher_brho_LEIR = False\<rparr>"

text \<open>The object the constructor returns for these arguments.\<close>

definition example_chain :: "init_args \<Rightarrow> InjectorChain" where
  "example_chain args =
     (case InjectorChain_init example_read_csv fresh_object args of
        Inr self \<Rightarrow> self
      | Inl err \<Rightarrow> fresh_object)"

subsection \<open>The claims' formulas, as the specification words them\<close>

text \<open>
  The scaling law of the specification:
  \<open>factor = (mass/refMass) * (refCharge/charge)^2 * (beta(gamma)/beta(refGamma)) * (gamma/refGamma)^2\<close>
  with \<open>beta(g) = sqrt(1 - 1/g^2)\<close>, and \<open>result = refIntensity * factor\<close>.
\<close>

definition spec_beta :: "real \<Rightarrow> real" where
  "spec_beta g = sqrt (1 - 1 / g ^ 2)"

definition spec_scaleIntensity :: "real \<Rightarrow> real \<Rightarrow> real \<Rightarrow> real \<Rightarrow> real \<Rightarrow> real \<Rightarrow> real \<Rightarrow> real" where
  "spec_scaleIntensity mass gamma refIntensity refCharge refMass refGamma charge =
     refIntensity * ((mass / refMass) * (refCharge / charge) ^ 2
                       * (spec_beta gamma / spec_beta refGamma) * (gamma / refGamma) ^ 2)"

subsection \<open>What holds of every object in use\<close>

text \<open>
  The reference constants as \<open>ion0_referenceValues\<close> assigns them for lead, the
  transmission rules as \<open>init_ion\<close> assigns them, and the two settings the constructor
  fixes. The reference intensity of the SPS is \<open>2.21e8\<close> over the SPS transmission at
  the time of the constructor's call: 0.62, or 1.0 without
  \<open>account_for_SPS_transmission\<close>.
\<close>

definition reference_is_Pb :: "InjectorChain \<Rightarrow> bool" where
  "reference_is_Pb self \<longleftrightarrow>
     E_kin_per_A_LEIR_inj (ref self) = 42 / 10 ^ 4 \<and>
     E_kin_per_A_LEIR_extr (ref self) = 722 / 10 ^ 4 \<and>
     E_kin_per_A_PS_inj (ref self) = 722 / 10 ^ 4 \<and>
     E_kin_per_A_PS_extr (ref self) = 59 / 10 \<and>
     E_kin_per_A_SPS_inj (ref self) = 59 / 10 \<and>
     E_kin_per_A_SPS_extr (ref self) = 1764 / 10 \<and>
     m0_GeV (ref self) = 193687 / 1000 \<and>
     Z0 (ref self) = 82 \<and>
     Nq0_LEIR_extr (ref self) = 10 * 10 ^ 10 \<and>
     Q0_LEIR (ref self) = 54 \<and>
     Nb0_LEIR_extr (ref self) = 10 * 10 ^ 10 / 54 \<and>
     gamma0_LEIR_inj (ref self) = (193687 / 1000 + 42 / 10 ^ 4 * 208) / (193687 / 1000) \<and>
     gamma0_LEIR_extr (ref self) = (193687 / 1000 + 722 / 10 ^ 4 * 208) / (193687 / 1000) \<and>
     Nq0_PS_extr (ref self) = 6 * 10 ^ 10 \<and>
     Q0_PS (ref self) = 54 \<and>
     Nb0_PS_extr (ref self) = 6 * 10 ^ 10 / 54 \<and>
     gamma0_PS_inj (ref self) = (193687 / 1000 + 722 / 10 ^ 4 * 208) / (193687 / 1000) \<and>
     gamma0_PS_extr (ref self) = (193687 / 1000 + 59 / 10 * 208) / (193687 / 1000) \<and>
     Nb0_SPS_extr (ref self) =
       221 * 10 ^ 6 / (if account_for_SPS_transmission (cfg self) then 62 / 100 else 1) \<and>
     Q0_SPS (ref self) = 82 \<and>
     Nq0_SPS_extr (ref self) = Nb0_SPS_extr (ref self) * 82 \<and>
     gamma0_SPS_inj (ref self) = (193687 / 1000 + 59 / 10 * 208) / (193687 / 1000) \<and>
     gamma0_SPS_extr (ref self) = (193687 / 1000 + 1764 / 10 * 208) / (193687 / 1000)"

definition transmission_rules :: "InjectorChain \<Rightarrow> bool" where
  "transmission_rules self \<longleftrightarrow>
     LEIR_injection_efficiency (ion self) = 5 / 10 \<and>
     LEIR_transmission (ion self) = 8 / 10 \<and>
     PS_transmission (ion self) = 9 / 10 \<and>
     PS_SPS_transmission_efficiency (ion self) = 1 \<and>
     PS_SPS_strip (ion self) = (\<not> LEIR_PS_strip (cfg self)) \<and>
     PS_SPS_stripping_efficiency (ion self) = 9 / 10 \<and>
     (SPS_transmission (ion self) = 62 / 100 \<or>
      SPS_transmission (ion self) = 1 \<and> \<not> account_for_SPS_transmission (cfg self)) \<and>
     SPS_slipstacking_transmission (ion self) = 1"

definition chain_inv :: "InjectorChain \<Rightarrow> bool" where
  "chain_inv self \<longleftrightarrow>
     reference_is_Pb self \<and> transmission_rules self \<and>
     ion_type_ref (cfg self) = ''Pb'' \<and>
     use_Roderiks_gamma (cfg self) = (\<not> use_gammas_ref (cfg self))"

section \<open>beta and linearIntensityLimit\<close>

lemma inverse_above_one_lt: "1 < (x::real) \<Longrightarrow> 1 / x < 1"
  by simp

lemma inverse_above_one_le: "1 \<le> (x::real) \<Longrightarrow> 1 / x \<le> 1"
  by simp

lemma beta_gt_one:
  assumes "1 < g"
  shows "beta g = Inr (sqrt (1 - 1 / g ^ 2))" and "0 < sqrt (1 - 1 / g ^ 2)"
proof -
  have sq: "1 < g ^ 2" using assms by (simp add: one_less_power)
  have lt: "1 / g ^ 2 < 1" by (rule inverse_above_one_lt [OF sq])
  then show "0 < sqrt (1 - 1 / g ^ 2)" by simp
  from sq have "g ^ 2 \<noteq> 0" by linarith
  with lt show "beta g = Inr (sqrt (1 - 1 / g ^ 2))"
    by (simp add: beta_def)
qed

lemma beta_abs_ge_one:
  assumes "1 \<le> \<bar>g\<bar>"
  shows "beta g = Inr (sqrt (1 - 1 / g ^ 2))"
proof -
  have sq: "1 \<le> g ^ 2" using assms abs_le_square_iff [of 1 g] by simp
  have le: "1 / g ^ 2 \<le> 1" by (rule inverse_above_one_le [OF sq])
  from sq have "g ^ 2 \<noteq> 0" by linarith
  with le show ?thesis by (simp add: beta_def)
qed

lemma beta_Inr_nonneg: "beta g = Inr b \<Longrightarrow> 0 \<le> b"
  by (auto simp: beta_def split: if_splits)

lemma beta_abs_lt_one:
  assumes "\<bar>g\<bar> < 1"
  shows "beta g = (if g = 0 then Inl ZeroDivision else Inl NaN)"
proof (cases "g = 0")
  case True
  then show ?thesis by (simp add: beta_def)
next
  case False
  have "g ^ 2 < 1" using assms by (simp add: abs_square_less_1)
  moreover have pos: "0 < g ^ 2" using False by simp
  ultimately have "1 < 1 / g ^ 2" by simp
  then show ?thesis using pos False by (simp add: beta_def)
qed

lemma linearIntensityLimit_nonneg:
  assumes "linearIntensityLimit self m g Nb_0 c0 m_0 g0 fs = Inr v"
    and "0 \<le> m" and "0 \<le> Nb_0" and "0 \<le> m_0"
  shows "0 \<le> v"
  using assms
  by (auto simp: linearIntensityLimit_def Let_def split: sum.splits if_splits dest!: beta_Inr_nonneg)

lemma linearIntensityLimit_total:
  assumes "1 \<le> \<bar>g\<bar>" and "1 < g0" and "m_0 \<noteq> 0"
    and "(if fs then Z (ion self) else Q (ion self)) \<noteq> 0"
  shows "\<exists>v. linearIntensityLimit self m g Nb_0 c0 m_0 g0 fs = Inr v"
proof -
  have "0 < sqrt (1 - 1 / g0 ^ 2)" by (rule beta_gt_one(2) [OF \<open>1 < g0\<close>])
  then have nz: "sqrt (1 - 1 / g0 ^ 2) \<noteq> 0" by linarith
  have b0: "beta g0 = Inr (sqrt (1 - 1 / g0 ^ 2))" by (rule beta_gt_one(1) [OF \<open>1 < g0\<close>])
  have b: "beta g = Inr (sqrt (1 - 1 / g ^ 2))" by (rule beta_abs_ge_one [OF \<open>1 \<le> \<bar>g\<bar>\<close>])
  from \<open>1 < g0\<close> have "g0 \<noteq> 0" by linarith
  with nz assms(3,4) show ?thesis
    unfolding linearIntensityLimit_def Let_def b0 b by (simp del: real_sqrt_eq_zero_cancel_iff)
qed

text \<open>The limit reads the object's \<open>Z\<close> and \<open>Q\<close> only.\<close>

lemma linearIntensityLimit_cong:
  assumes "Z (ion self) = Z (ion self')" and "Q (ion self) = Q (ion self')"
  shows "linearIntensityLimit self m g Nb_0 c0 m_0 g0 fs = linearIntensityLimit self' m g Nb_0 c0 m_0 g0 fs"
  using assms by (simp add: linearIntensityLimit_def)

text \<open>
  C1. For masses and charges above 0 and gammas above 1, \<open>linearIntensityLimit\<close>
  returns the reference intensity times the scaling factor of the specification,
  \<open>Nb_0 * (m/m_0) * (charge_0/charge)^2 * (beta(gamma)/beta(gamma_0)) * (gamma/gamma_0)^2\<close>
  with \<open>beta(g) = sqrt(1 - 1/g^2)\<close>, where the charge is the object's \<open>Z\<close> for a fully
  stripped ion and its \<open>Q\<close> otherwise, and the reference charge is the argument
  \<open>charge_0\<close> as passed.
\<close>

theorem linearIntensityLimit_formula:
  assumes "0 < m" and "0 < m_0" and "0 < charge_0"
    and "0 < (if fully_stripped then Z (ion self) else Q (ion self))"
    and "1 < gamma" and "1 < gamma_0"
  shows "linearIntensityLimit self m gamma Nb_0 charge_0 m_0 gamma_0 fully_stripped =
           Inr (spec_scaleIntensity m gamma Nb_0 charge_0 m_0 gamma_0
                  (if fully_stripped then Z (ion self) else Q (ion self)))"
proof -
  have "0 < sqrt (1 - 1 / gamma_0 ^ 2)" by (rule beta_gt_one(2) [OF \<open>1 < gamma_0\<close>])
  then have nz: "sqrt (1 - 1 / gamma_0 ^ 2) \<noteq> 0" by linarith
  have b0: "beta gamma_0 = Inr (sqrt (1 - 1 / gamma_0 ^ 2))"
    by (rule beta_gt_one(1) [OF \<open>1 < gamma_0\<close>])
  have b: "beta gamma = Inr (sqrt (1 - 1 / gamma ^ 2))"
    by (rule beta_gt_one(1) [OF \<open>1 < gamma\<close>])
  from \<open>1 < gamma_0\<close> have g0: "gamma_0 \<noteq> 0" by linarith
  from \<open>0 < m_0\<close> have m0: "m_0 \<noteq> 0" by linarith
  from assms(4) have c: "(if fully_stripped then Z (ion self) else Q (ion self)) \<noteq> 0" by linarith
  from nz g0 m0 c show ?thesis
    unfolding linearIntensityLimit_def Let_def b0 b spec_scaleIntensity_def spec_beta_def
    by (simp del: real_sqrt_eq_zero_cancel_iff)
qed

theorem linearIntensityLimit_formula_witness:
  "(0::real) < 14895 / 1000 \<and> (0::real) < 193687 / 1000 \<and> (0::real) < 82 \<and>
   0 < (if True then Z (ion (fresh_object\<lparr>ion := (ion fresh_object)\<lparr>Z := 8, Q := 4\<rparr>\<rparr>))
        else Q (ion (fresh_object\<lparr>ion := (ion fresh_object)\<lparr>Z := 8, Q := 4\<rparr>\<rparr>))) \<and>
   (1::real) < 3 \<and> (1::real) < 2 \<and>
   linearIntensityLimit (fresh_object\<lparr>ion := (ion fresh_object)\<lparr>Z := 8, Q := 4\<rparr>\<rparr>)
       (14895 / 1000) 3 (221 * 10 ^ 6) 82 (193687 / 1000) 2 True =
     Inr (spec_scaleIntensity (14895 / 1000) 3 (221 * 10 ^ 6) 82 (193687 / 1000) 2 8)"
  using linearIntensityLimit_formula
    [of "14895 / 1000" "193687 / 1000" 82 True
        "fresh_object\<lparr>ion := (ion fresh_object)\<lparr>Z := 8, Q := 4\<rparr>\<rparr>" 3 2 "221 * 10 ^ 6"]
  by simp

text \<open>
  C8, as stated, fails: \<open>beta\<close> makes no check of gamma. At \<open>gamma = 1\<close> it returns 0
  and at \<open>gamma = -2\<close> it returns \<open>sqrt 3 / 2\<close>, ordinary numbers, and
  \<open>linearIntensityLimit\<close> at \<open>gamma = 1\<close> returns the intensity 0.
\<close>

theorem beta_gamma_le_one_counterexample:
  "beta 1 = Inr 0 \<and> beta (- 2) = Inr (sqrt 3 / 2) \<and>
   linearIntensityLimit (fresh_object\<lparr>ion := (ion fresh_object)\<lparr>Z := 82, Q := 54\<rparr>\<rparr>)
       (193687 / 1000) 1 (10 ^ 11 / 54) 54 (193687 / 1000) 2 False = Inr 0"
  by (simp add: beta_def linearIntensityLimit_def real_sqrt_divide)

text \<open>
  C8, amended. For every gamma strictly between -1 and 1, \<open>beta\<close> gives no number:
  NaN, the root of a negative number (at 0, the division by zero before it), and
  \<open>linearIntensityLimit\<close> called with such a gamma, or such a reference gamma, returns
  no number either. For every other gamma, \<open>1 \<le> |gamma|\<close>, \<open>beta\<close> returns the number
  \<open>sqrt(1 - 1/gamma^2)\<close>.
\<close>

theorem beta_no_number_inside_unit_interval:
  "(\<bar>g\<bar> < 1 \<longrightarrow>
      (g \<noteq> 0 \<longrightarrow> beta g = Inl NaN) \<and> (g = 0 \<longrightarrow> beta g = Inl ZeroDivision) \<and>
      (\<exists>err. linearIntensityLimit self m g Nb_0 charge_0 m_0 gamma_0 fs = Inl err) \<and>
      (\<exists>err. linearIntensityLimit self m gamma Nb_0 charge_0 m_0 g fs = Inl err)) \<and>
   (1 \<le> \<bar>g\<bar> \<longrightarrow> beta g = Inr (sqrt (1 - 1 / g ^ 2)))"
proof (intro conjI impI)
  assume "1 \<le> \<bar>g\<bar>"
  then show "beta g = Inr (sqrt (1 - 1 / g ^ 2))" by (rule beta_abs_ge_one)
next
  assume "\<bar>g\<bar> < 1" and "g \<noteq> 0"
  then show "beta g = Inl NaN" by (simp add: beta_abs_lt_one)
next
  assume "\<bar>g\<bar> < 1" and "g = 0"
  then show "beta g = Inl ZeroDivision" by (simp add: beta_abs_lt_one)
next
  assume "\<bar>g\<bar> < 1"
  then have bad: "\<exists>err. beta g = Inl err" by (simp add: beta_abs_lt_one)
  then show "\<exists>err. linearIntensityLimit self m g Nb_0 charge_0 m_0 gamma_0 fs = Inl err"
    by (auto simp: linearIntensityLimit_def Let_def split: sum.splits)
  from bad show "\<exists>err. linearIntensityLimit self m gamma Nb_0 charge_0 m_0 g fs = Inl err"
    by (auto simp: linearIntensityLimit_def Let_def split: sum.splits)
qed

theorem beta_no_number_inside_unit_interval_witness:
  "\<bar>1 / 2 :: real\<bar> < 1 \<and> (1 / 2 :: real) \<noteq> 0 \<and> beta (1 / 2) = Inl NaN \<and>
   \<bar>0 :: real\<bar> < 1 \<and> beta 0 = Inl ZeroDivision \<and>
   (\<exists>err. linearIntensityLimit (fresh_object\<lparr>ion := (ion fresh_object)\<lparr>Z := 82, Q := 54\<rparr>\<rparr>)
             (193687 / 1000) (1 / 2) (10 ^ 11 / 54) 54 (193687 / 1000) 2 False = Inl err) \<and>
   (\<exists>err. linearIntensityLimit (fresh_object\<lparr>ion := (ion fresh_object)\<lparr>Z := 82, Q := 54\<rparr>\<rparr>)
             (193687 / 1000) 2 (10 ^ 11 / 54) 54 (193687 / 1000) (1 / 2) False = Inl err) \<and>
   (1::real) \<le> \<bar>3\<bar> \<and> beta 3 = Inr (sqrt (1 - 1 / 3 ^ 2))"
  using beta_no_number_inside_unit_interval
      [of "1 / 2" "fresh_object\<lparr>ion := (ion fresh_object)\<lparr>Z := 82, Q := 54\<rparr>\<rparr>"
          "193687 / 1000" "10 ^ 11 / 54" 54 "193687 / 1000" 2 False 2]
    beta_no_number_inside_unit_interval
      [of 0 "fresh_object\<lparr>ion := (ion fresh_object)\<lparr>Z := 82, Q := 54\<rparr>\<rparr>"
          "193687 / 1000" "10 ^ 11 / 54" 54 "193687 / 1000" 2 False 2]
    beta_no_number_inside_unit_interval
      [of 3 "fresh_object\<lparr>ion := (ion fresh_object)\<lparr>Z := 82, Q := 54\<rparr>\<rparr>"
          "193687 / 1000" "10 ^ 11 / 54" 54 "193687 / 1000" 2 False 2]
  by simp

section \<open>What each method changes\<close>

lemma load_ion_energy_frame:
  assumes "load_ion_energy self = Inr self'"
  shows "cfg self' = cfg self" "ref self' = ref self" "stage self' = stage self"
  using assms by (auto simp: load_ion_energy_def Let_def split: sum.splits)

lemma init_ion_frame:
  assumes "init_ion self t = Inr self'"
  shows "cfg self' = cfg self" "ref self' = ref self" "stage self' = stage self"
  using assms
  by (auto simp: init_ion_def Let_def split: sum.splits if_splits dest: load_ion_energy_frame)

lemma leir_frame:
  assumes "leir self = Inr self'"
  shows "cfg self' = cfg self" "ion self' = ion self" "ref self' = ref self"
  using assms by (auto simp: leir_def Let_def split: sum.splits if_splits prod.splits)

lemma ps_frame:
  assumes "ps self = Inr self'"
  shows "cfg self' = cfg self" "ion self' = ion self" "ref self' = ref self"
  using assms by (auto simp: ps_def Let_def split: sum.splits if_splits prod.splits)

lemma sps_frame:
  assumes "sps self = Inr self'"
  shows "cfg self' = cfg self" "ion self' = ion self" "ref self' = ref self"
  using assms by (auto simp: sps_def Let_def split: sum.splits if_splits prod.splits)

lemma load_ion_energy_ion:
  assumes "load_ion_energy self = Inr self'"
  shows "transmission_rules self' = transmission_rules self"
    and "mass_GeV (ion self') = mass_GeV (ion self)"
    and "Z (ion self') = Z (ion self)" and "A (ion self') = A (ion self)"
    and "Q (ion self') = Q (ion self)"
    and "linac3_current (ion self') = linac3_current (ion self)"
    and "linac3_pulseLength (ion self') = linac3_pulseLength (ion self)"
    and "LEIR_PS_stripping_efficiency (ion self') = LEIR_PS_stripping_efficiency (ion self)"
    and "ion_type (ion self') = ion_type (ion self)"
    and "SPS_transmission (ion self') = SPS_transmission (ion self)"
  using assms
  by (auto simp: load_ion_energy_def transmission_rules_def Let_def split: sum.splits)

lemma init_ion_rules:
  assumes "init_ion self t = Inr self'"
  shows "LEIR_injection_efficiency (ion self') = 5 / 10"
    and "LEIR_transmission (ion self') = 8 / 10"
    and "PS_transmission (ion self') = 9 / 10"
    and "PS_SPS_transmission_efficiency (ion self') = 1"
    and "PS_SPS_strip (ion self') = (\<not> LEIR_PS_strip (cfg self))"
    and "PS_SPS_stripping_efficiency (ion self') = 9 / 10"
    and "SPS_transmission (ion self') = 62 / 100"
    and "SPS_slipstacking_transmission (ion self') = 1"
    and "ion_type (ion self') = t"
  using assms
  by (auto simp: init_ion_def load_ion_energy_def Let_def split: sum.splits if_splits)

lemma init_ion_column:
  assumes "init_ion self t = Inr self'"
  shows "\<exists>col. select_label (full_ion_data (cfg self)) t = Inr col \<and>
           mass_GeV (ion self') = col_mass_GeV col \<and> Z (ion self') = col_Z col \<and>
           A (ion self') = col_A col \<and> Q (ion self') = col_Q_before_stripping col \<and>
           linac3_current (ion self') = col_Linac3_current_uA col * (1 / 10 ^ 6) \<and>
           linac3_pulseLength (ion self') = col_Linac3_pulse_length_us col * (1 / 10 ^ 6) \<and>
           LEIR_PS_stripping_efficiency (ion self') = col_LEIR_PS_Stripping_Efficiency col"
  using assms
  by (auto simp: init_ion_def load_ion_energy_def Let_def split: sum.splits if_splits)

lemma init_ion_transmission_rules:
  assumes "init_ion self t = Inr self'"
  shows "transmission_rules self'"
  using init_ion_rules [OF assms] init_ion_frame(1) [OF assms]
  by (simp add: transmission_rules_def)

lemma ion0_referenceValues_frame:
  assumes "ion0_referenceValues self = Inr self'"
  shows "cfg self' = cfg self" and "stage self' = stage self"
    and "ion self' = (ion self)\<lparr>SPS_transmission :=
           (if \<not> account_for_SPS_transmission (cfg self) then 1 else SPS_transmission (ion self))\<rparr>"
    and "ion_type_ref (cfg self) = ''Pb''"
  using assms
  by (auto simp: ion0_referenceValues_def Let_def split: if_splits)

lemma ion0_referenceValues_ref:
  assumes "ion0_referenceValues self = Inr self'"
    and "SPS_transmission (ion self) = 62 / 100"
  shows "reference_is_Pb self'"
  using assms(1) unfolding ion0_referenceValues_def reference_is_Pb_def Let_def assms(2)
  by (auto split: if_splits)


lemma InjectorChain_init_parts:
  assumes "InjectorChain_init read_csv self0 args = Inr self"
  obtains energies self1 self2 where
    "init_ion (self0\<lparr>cfg := (cfg self0)
                     \<lparr>full_ion_data := arg_ion_data args,
                      LEIR_PS_strip := arg_LEIR_PS_strip args,
                      higher_brho_LEIR := arg_higher_brho_LEIR args,
                      use_gammas_ref := arg_use_gammas_ref args,
                      ion_energy_data := energies\<rparr>\<rparr>) (arg_ion_type args) = Inr self1"
    and "ion0_referenceValues
                       (self1\<lparr>cfg := (cfg self1)
                          \<lparr>debug_mode := False,
                           account_for_SPS_transmission := arg_account_for_SPS_transmission args,
                           consider_PS_space_charge_limit := arg_consider_PS_space_charge_limit args,
                           nPulsesLEIR := arg_nPulsesLEIR args,
                           LEIR_bunches := arg_LEIR_bunches args,
                           PS_splitting := arg_PS_splitting args,
                           ion_type_ref := arg_ion_type_ref args\<rparr>\<rparr>) = Inr self2"
    and "self = self2\<lparr>cfg := (cfg self2)
                           \<lparr>save_path := ''../output'',
                            use_Roderiks_gamma := (\<not> arg_use_gammas_ref args)\<rparr>\<rparr>"
  using assms
  by (auto simp: InjectorChain_init_def Let_def split: option.splits sum.splits)


lemma InjectorChain_init_settings:
  assumes "InjectorChain_init read_csv self0 args = Inr self"
  shows "full_ion_data (cfg self) = arg_ion_data args"
    and "LEIR_PS_strip (cfg self) = arg_LEIR_PS_strip args"
    and "use_gammas_ref (cfg self) = arg_use_gammas_ref args"
    and "account_for_SPS_transmission (cfg self) = arg_account_for_SPS_transmission args"
    and "consider_PS_space_charge_limit (cfg self) = arg_consider_PS_space_charge_limit args"
    and "nPulsesLEIR (cfg self) = arg_nPulsesLEIR args"
    and "LEIR_bunches (cfg self) = arg_LEIR_bunches args"
    and "PS_splitting (cfg self) = arg_PS_splitting args"
    and "ion_type_ref (cfg self) = arg_ion_type_ref args"
    and "use_Roderiks_gamma (cfg self) = (\<not> arg_use_gammas_ref args)"
    and "arg_ion_type_ref args = ''Pb''"
proof -
  from assms obtain energies self1 self2 where
    i: "init_ion (self0\<lparr>cfg := (cfg self0)
                     \<lparr>full_ion_data := arg_ion_data args,
                      LEIR_PS_strip := arg_LEIR_PS_strip args,
                      higher_brho_LEIR := arg_higher_brho_LEIR args,
                      use_gammas_ref := arg_use_gammas_ref args,
                      ion_energy_data := energies\<rparr>\<rparr>) (arg_ion_type args) = Inr self1"
    and r: "ion0_referenceValues
                       (self1\<lparr>cfg := (cfg self1)
                          \<lparr>debug_mode := False,
                           account_for_SPS_transmission := arg_account_for_SPS_transmission args,
                           consider_PS_space_charge_limit := arg_consider_PS_space_charge_limit args,
                           nPulsesLEIR := arg_nPulsesLEIR args,
                           LEIR_bunches := arg_LEIR_bunches args,
                           PS_splitting := arg_PS_splitting args,
                           ion_type_ref := arg_ion_type_ref args\<rparr>\<rparr>) = Inr self2"
    and s: "self = self2\<lparr>cfg := (cfg self2)
                           \<lparr>save_path := ''../output'',
                            use_Roderiks_gamma := (\<not> arg_use_gammas_ref args)\<rparr>\<rparr>"
    by (rule InjectorChain_init_parts)
  note c1 = init_ion_frame(1) [OF i]
  note c2 = ion0_referenceValues_frame(1) [OF r]
  note pb = ion0_referenceValues_frame(4) [OF r]
  show "full_ion_data (cfg self) = arg_ion_data args"
    and "LEIR_PS_strip (cfg self) = arg_LEIR_PS_strip args"
    and "use_gammas_ref (cfg self) = arg_use_gammas_ref args"
    and "account_for_SPS_transmission (cfg self) = arg_account_for_SPS_transmission args"
    and "consider_PS_space_charge_limit (cfg self) = arg_consider_PS_space_charge_limit args"
    and "nPulsesLEIR (cfg self) = arg_nPulsesLEIR args"
    and "LEIR_bunches (cfg self) = arg_LEIR_bunches args"
    and "PS_splitting (cfg self) = arg_PS_splitting args"
    and "ion_type_ref (cfg self) = arg_ion_type_ref args"
    and "use_Roderiks_gamma (cfg self) = (\<not> arg_use_gammas_ref args)"
    and "arg_ion_type_ref args = ''Pb''"
    using pb by (simp_all add: s c2 c1)
qed


lemma InjectorChain_init_inv:
  assumes "InjectorChain_init read_csv self0 args = Inr self"
  shows "chain_inv self"
proof -
  from assms obtain energies self1 self2 where
    i: "init_ion (self0\<lparr>cfg := (cfg self0)
                     \<lparr>full_ion_data := arg_ion_data args,
                      LEIR_PS_strip := arg_LEIR_PS_strip args,
                      higher_brho_LEIR := arg_higher_brho_LEIR args,
                      use_gammas_ref := arg_use_gammas_ref args,
                      ion_energy_data := energies\<rparr>\<rparr>) (arg_ion_type args) = Inr self1"
    and r: "ion0_referenceValues
                       (self1\<lparr>cfg := (cfg self1)
                          \<lparr>debug_mode := False,
                           account_for_SPS_transmission := arg_account_for_SPS_transmission args,
                           consider_PS_space_charge_limit := arg_consider_PS_space_charge_limit args,
                           nPulsesLEIR := arg_nPulsesLEIR args,
                           LEIR_bunches := arg_LEIR_bunches args,
                           PS_splitting := arg_PS_splitting args,
                           ion_type_ref := arg_ion_type_ref args\<rparr>\<rparr>) = Inr self2"
    and s: "self = self2\<lparr>cfg := (cfg self2)
                           \<lparr>save_path := ''../output'',
                            use_Roderiks_gamma := (\<not> arg_use_gammas_ref args)\<rparr>\<rparr>"
    by (rule InjectorChain_init_parts)
  note rules = init_ion_rules [OF i]
  note c1 = init_ion_frame(1) [OF i]
  note c2 = ion0_referenceValues_frame(1) [OF r]
  note i2 = ion0_referenceValues_frame(3) [OF r]
  have "reference_is_Pb self2"
    by (rule ion0_referenceValues_ref [OF r]) (simp add: rules)
  then have "reference_is_Pb self"
    by (simp add: reference_is_Pb_def s)
  moreover have "transmission_rules self"
    using rules by (simp add: transmission_rules_def s i2 c2 c1)
  ultimately show ?thesis
    using InjectorChain_init_settings [OF assms] by (simp add: chain_inv_def)
qed

lemma reference_is_Pb_frame:
  assumes "ref self' = ref self" and "cfg self' = cfg self"
  shows "reference_is_Pb self' = reference_is_Pb self"
  by (simp add: reference_is_Pb_def assms)

lemma transmission_rules_frame:
  assumes "ion self' = ion self" and "cfg self' = cfg self"
  shows "transmission_rules self' = transmission_rules self"
  by (simp add: transmission_rules_def assms)

lemma chain_inv_stage_frame:
  assumes "chain_inv self" and "cfg self' = cfg self" and "ion self' = ion self" and "ref self' = ref self"
  shows "chain_inv self'"
  using assms(1)
  by (simp add: chain_inv_def assms(2) reference_is_Pb_frame [OF assms(4) assms(2)]
      transmission_rules_frame [OF assms(3) assms(2)])

lemma reachable_inv: "reachable self \<Longrightarrow> chain_inv self"
proof (induction rule: reachable.induct)
  case (reach_init read_csv self0 args self)
  then show ?case by (rule InjectorChain_init_inv)
next
  case (reach_init_ion self ion_type' self')
  note fr = init_ion_frame [OF reach_init_ion.hyps(2)]
  from reach_init_ion.hyps(2) have "transmission_rules self'"
    by (rule init_ion_transmission_rules)
  with reach_init_ion.IH show ?case
    by (simp add: chain_inv_def fr(1) reference_is_Pb_frame [OF fr(2) fr(1)])
next
  case (reach_leir self self')
  note fr = leir_frame [OF reach_leir.hyps(2)]
  show ?case by (rule chain_inv_stage_frame [OF reach_leir.IH fr])
next
  case (reach_ps self self')
  note fr = ps_frame [OF reach_ps.hyps(2)]
  show ?case by (rule chain_inv_stage_frame [OF reach_ps.IH fr])
next
  case (reach_sps self self')
  note fr = sps_frame [OF reach_sps.hyps(2)]
  show ?case by (rule chain_inv_stage_frame [OF reach_sps.IH fr])
qed


section \<open>The stages\<close>

lemma linearIntensityLimit_stage_update [simp]:
  "linearIntensityLimit (self\<lparr>stage := st\<rparr>) = linearIntensityLimit self"
  by (simp add: fun_eq_iff linearIntensityLimit_def)

lemma chain_inv_reference:
  assumes "chain_inv self"
  shows "m0_GeV (ref self) = 193687 / 1000"
    and "1 < gamma0_LEIR_extr (ref self)" and "1 < gamma0_PS_inj (ref self)"
    and "1 < gamma0_PS_extr (ref self)" and "1 < gamma0_SPS_inj (ref self)"
    and "0 < Nb0_LEIR_extr (ref self)" and "0 < Nb0_PS_extr (ref self)"
    and "0 < Nb0_SPS_extr (ref self)"
    and "0 < E_kin_per_A_LEIR_inj (ref self)" and "0 < E_kin_per_A_LEIR_extr (ref self)"
    and "0 < E_kin_per_A_PS_inj (ref self)" and "0 < E_kin_per_A_PS_extr (ref self)"
    and "0 < E_kin_per_A_SPS_inj (ref self)" and "0 < E_kin_per_A_SPS_extr (ref self)"
    and "Q0_LEIR (ref self) = 54" and "Q0_PS (ref self) = 54" and "Q0_SPS (ref self) = 82"
  using assms by (simp_all add: chain_inv_def reference_is_Pb_def)

lemma chain_inv_rules:
  assumes "chain_inv self"
  shows "LEIR_injection_efficiency (ion self) = 5 / 10"
    and "LEIR_transmission (ion self) = 8 / 10"
    and "PS_transmission (ion self) = 9 / 10"
    and "PS_SPS_transmission_efficiency (ion self) = 1"
    and "PS_SPS_stripping_efficiency (ion self) = 9 / 10"
    and "SPS_transmission (ion self) = 62 / 100 \<or> SPS_transmission (ion self) = 1"
    and "SPS_slipstacking_transmission (ion self) = 1"
    and "use_Roderiks_gamma (cfg self) = (\<not> use_gammas_ref (cfg self))"
  using assms by (auto simp: chain_inv_def transmission_rules_def)

lemma kinematic_gamma_gt_one:
  assumes "0 < (m::real)" and "0 < a" and "0 < E"
  shows "1 < (m + E * a) / m"
proof -
  have "0 < E * a" using assms by simp
  then have "m < m + E * a" by simp
  with \<open>0 < m\<close> show ?thesis by (simp add: less_divide_eq)
qed

lemma rigidity_gamma_gt_one:
  assumes "0 < (x::real)" and "1 < g0"
  shows "1 < sqrt (1 + x ^ 2 * (g0 ^ 2 - 1))" and "\<not> 1 + x ^ 2 * (g0 ^ 2 - 1) < 0"
proof -
  have "1 < g0 ^ 2" using assms(2) by (simp add: one_less_power)
  then have "0 < g0 ^ 2 - 1" by simp
  moreover have "0 < x ^ 2" using assms(1) by simp
  ultimately have pos: "0 < x ^ 2 * (g0 ^ 2 - 1)" by (rule mult_pos_pos [rotated])
  then have "1 < 1 + x ^ 2 * (g0 ^ 2 - 1)" by simp
  then have "sqrt 1 < sqrt (1 + x ^ 2 * (g0 ^ 2 - 1))" by (simp only: real_sqrt_less_iff)
  then show "1 < sqrt (1 + x ^ 2 * (g0 ^ 2 - 1))" by simp
  from pos show "\<not> 1 + x ^ 2 * (g0 ^ 2 - 1) < 0" by linarith
qed

text \<open>What a stage assigns, and what it leaves.\<close>

lemma leir_stage:
  assumes "leir self = Inr self'"
  shows "linearIntensityLimit self (mass_GeV (ion self)) (gamma_LEIR_extr (stage self'))
           (Nb0_LEIR_extr (ref self)) (Q0_LEIR (ref self)) (m0_GeV (ref self))
           (gamma0_LEIR_extr (ref self)) False = Inr (Nb_LEIR_extr (stage self'))"
    and "Nq_LEIR_extr (stage self') = Nb_LEIR_extr (stage self') * Q (ion self)"
    and "gamma_LEIR_extr (stage self') =
           (if use_gammas_ref (cfg self) then LEIR_gamma_extr_ref (ion self)
            else (mass_GeV (ion self) + E_kin_per_A_LEIR_extr (ref self) * A (ion self)) / mass_GeV (ion self))"
    and "gamma_LEIR_inj (stage self') =
           (if use_gammas_ref (cfg self) then LEIR_gamma_inj_ref (ion self)
            else (mass_GeV (ion self) + E_kin_per_A_LEIR_inj (ref self) * A (ion self)) / mass_GeV (ion self))"
    and "use_gammas_ref (cfg self) \<or> mass_GeV (ion self) \<noteq> 0"
    and "gamma_PS_inj (stage self') = gamma_PS_inj (stage self)"
    and "gamma_PS_extr (stage self') = gamma_PS_extr (stage self)"
    and "Nb_PS_extr (stage self') = Nb_PS_extr (stage self)"
    and "Nq_PS_extr (stage self') = Nq_PS_extr (stage self)"
    and "gamma_SPS_inj (stage self') = gamma_SPS_inj (stage self)"
    and "gamma_SPS_extr (stage self') = gamma_SPS_extr (stage self)"
    and "Nb_SPS_extr (stage self') = Nb_SPS_extr (stage self)"
    and "Nq_SPS_extr (stage self') = Nq_SPS_extr (stage self)"
  using assms by (auto simp: leir_def Let_def split: sum.splits if_splits prod.splits)

lemma ps_stage:
  assumes "ps self = Inr self'"
  shows "linearIntensityLimit self (mass_GeV (ion self)) (gamma_PS_extr (stage self'))
           (Nb0_PS_extr (ref self)) (Q0_PS (ref self)) (m0_GeV (ref self))
           (gamma0_PS_extr (ref self)) False = Inr (Nb_PS_extr (stage self'))"
    and "Nq_PS_extr (stage self') = Nb_PS_extr (stage self') * Q (ion self)"
    and "gamma_PS_extr (stage self') =
           (if use_gammas_ref (cfg self) then PS_gamma_extr_ref (ion self)
            else (mass_GeV (ion self) + E_kin_per_A_PS_extr (ref self) * A (ion self)) / mass_GeV (ion self))"
    and "gamma_PS_inj (stage self') =
           (if use_gammas_ref (cfg self) then PS_gamma_inj_ref (ion self)
            else (mass_GeV (ion self) + E_kin_per_A_PS_inj (ref self) * A (ion self)) / mass_GeV (ion self))"
    and "use_gammas_ref (cfg self) \<or> mass_GeV (ion self) \<noteq> 0"
    and "gamma_LEIR_inj (stage self') = gamma_LEIR_inj (stage self)"
    and "gamma_LEIR_extr (stage self') = gamma_LEIR_extr (stage self)"
    and "Nb_LEIR_extr (stage self') = Nb_LEIR_extr (stage self)"
    and "Nq_LEIR_extr (stage self') = Nq_LEIR_extr (stage self)"
    and "gamma_SPS_inj (stage self') = gamma_SPS_inj (stage self)"
    and "gamma_SPS_extr (stage self') = gamma_SPS_extr (stage self)"
    and "Nb_SPS_extr (stage self') = Nb_SPS_extr (stage self)"
    and "Nq_SPS_extr (stage self') = Nq_SPS_extr (stage self)"
  using assms by (auto simp: ps_def Let_def split: sum.splits if_splits prod.splits)

lemma sps_stage:
  assumes "sps self = Inr self'"
  shows "linearIntensityLimit self (mass_GeV (ion self)) (gamma_SPS_inj (stage self'))
           (Nb0_SPS_extr (ref self)) (Q0_SPS (ref self)) (m0_GeV (ref self))
           (gamma0_SPS_inj (ref self)) True = Inr (Nb_SPS_extr (stage self'))"
    and "Nq_SPS_extr (stage self') = Nb_SPS_extr (stage self') * Z (ion self)"
    and "gamma_SPS_inj (stage self') =
           (if use_gammas_ref (cfg self) then SPS_gamma_inj_ref (ion self)
            else if use_Roderiks_gamma (cfg self)
            then sqrt (1 + (((if LEIR_PS_strip (cfg self) then Z (ion self) else Q (ion self)) / 54)
                               / (mass_GeV (ion self) / m0_GeV (ref self))) ^ 2
                            * ((gamma0_SPS_inj (ref self)) ^ 2 - 1))
            else (mass_GeV (ion self) + E_kin_per_A_SPS_inj (ref self) * A (ion self)) / mass_GeV (ion self))"
    and "gamma_SPS_extr (stage self') =
           (if use_gammas_ref (cfg self) then SPS_gamma_extr_ref (ion self)
            else (mass_GeV (ion self) + E_kin_per_A_SPS_extr (ref self) * A (ion self)) / mass_GeV (ion self))"
    and "use_gammas_ref (cfg self) \<or> mass_GeV (ion self) \<noteq> 0"
    and "gamma_LEIR_inj (stage self') = gamma_LEIR_inj (stage self)"
    and "gamma_LEIR_extr (stage self') = gamma_LEIR_extr (stage self)"
    and "Nb_LEIR_extr (stage self') = Nb_LEIR_extr (stage self)"
    and "Nq_LEIR_extr (stage self') = Nq_LEIR_extr (stage self)"
    and "gamma_PS_inj (stage self') = gamma_PS_inj (stage self)"
    and "gamma_PS_extr (stage self') = gamma_PS_extr (stage self)"
    and "Nb_PS_extr (stage self') = Nb_PS_extr (stage self)"
    and "Nq_PS_extr (stage self') = Nq_PS_extr (stage self)"
  using assms by (auto simp: sps_def Let_def split: sum.splits if_splits prod.splits)

lemma ion_well_formed_frame:
  assumes "cfg self' = cfg self" and "ion self' = ion self"
  shows "ion_well_formed self' = ion_well_formed self"
  by (simp add: ion_well_formed_def assms)

lemma leir_total:
  assumes inv: "chain_inv self" and wf: "ion_well_formed self"
  shows "\<exists>self'. leir self = Inr self'"
proof -
  note rf = chain_inv_reference [OF inv]
  from wf have m: "0 < mass_GeV (ion self)" and a: "0 < A (ion self)" and q: "0 < Q (ion self)"
    by (simp_all add: ion_well_formed_def)
  show ?thesis
  proof (cases "use_gammas_ref (cfg self)")
    case True
    with wf have "1 < LEIR_gamma_extr_ref (ion self)" by (simp add: ion_well_formed_def)
    then have "1 \<le> \<bar>LEIR_gamma_extr_ref (ion self)\<bar>" by simp
    then have "\<exists>v. linearIntensityLimit self (mass_GeV (ion self)) (LEIR_gamma_extr_ref (ion self))
        (Nb0_LEIR_extr (ref self)) (Q0_LEIR (ref self)) (m0_GeV (ref self)) (gamma0_LEIR_extr (ref self)) False = Inr v"
      using q rf(1) by (intro linearIntensityLimit_total [OF _ rf(2)]) simp_all
    then obtain v where "linearIntensityLimit self (mass_GeV (ion self)) (LEIR_gamma_extr_ref (ion self))
        (Nb0_LEIR_extr (ref self)) (Q0_LEIR (ref self)) (m0_GeV (ref self)) (gamma0_LEIR_extr (ref self)) False = Inr v" by blast
    with True show ?thesis by (simp add: leir_def Let_def)
  next
    case False
    let ?g = "(mass_GeV (ion self) + E_kin_per_A_LEIR_extr (ref self) * A (ion self)) / mass_GeV (ion self)"
    have "1 < ?g" by (rule kinematic_gamma_gt_one [OF m a rf(10)])
    then have "1 \<le> \<bar>?g\<bar>" by linarith
    then have "\<exists>v. linearIntensityLimit self (mass_GeV (ion self)) ?g
        (Nb0_LEIR_extr (ref self)) (Q0_LEIR (ref self)) (m0_GeV (ref self)) (gamma0_LEIR_extr (ref self)) False = Inr v"
      using q rf(1) by (intro linearIntensityLimit_total [OF _ rf(2)]) simp_all
    then obtain v where "linearIntensityLimit self (mass_GeV (ion self)) ?g
        (Nb0_LEIR_extr (ref self)) (Q0_LEIR (ref self)) (m0_GeV (ref self)) (gamma0_LEIR_extr (ref self)) False = Inr v" by blast
    with False m show ?thesis by (simp add: leir_def Let_def)
  qed
qed

lemma ps_total:
  assumes inv: "chain_inv self" and wf: "ion_well_formed self"
  shows "\<exists>self'. ps self = Inr self'"
proof -
  note rf = chain_inv_reference [OF inv]
  from wf have m: "0 < mass_GeV (ion self)" and a: "0 < A (ion self)" and q: "0 < Q (ion self)"
    by (simp_all add: ion_well_formed_def)
  show ?thesis
  proof (cases "use_gammas_ref (cfg self)")
    case True
    with wf have "1 < PS_gamma_extr_ref (ion self)" by (simp add: ion_well_formed_def)
    then have "1 \<le> \<bar>PS_gamma_extr_ref (ion self)\<bar>" by simp
    then have "\<exists>v. linearIntensityLimit self (mass_GeV (ion self)) (PS_gamma_extr_ref (ion self))
        (Nb0_PS_extr (ref self)) (Q0_PS (ref self)) (m0_GeV (ref self)) (gamma0_PS_extr (ref self)) False = Inr v"
      using q rf(1) by (intro linearIntensityLimit_total [OF _ rf(4)]) simp_all
    then obtain v where "linearIntensityLimit self (mass_GeV (ion self)) (PS_gamma_extr_ref (ion self))
        (Nb0_PS_extr (ref self)) (Q0_PS (ref self)) (m0_GeV (ref self)) (gamma0_PS_extr (ref self)) False = Inr v" by blast
    with True show ?thesis by (simp add: ps_def Let_def)
  next
    case False
    let ?g = "(mass_GeV (ion self) + E_kin_per_A_PS_extr (ref self) * A (ion self)) / mass_GeV (ion self)"
    have "1 < ?g" by (rule kinematic_gamma_gt_one [OF m a rf(12)])
    then have "1 \<le> \<bar>?g\<bar>" by linarith
    then have "\<exists>v. linearIntensityLimit self (mass_GeV (ion self)) ?g
        (Nb0_PS_extr (ref self)) (Q0_PS (ref self)) (m0_GeV (ref self)) (gamma0_PS_extr (ref self)) False = Inr v"
      using q rf(1) by (intro linearIntensityLimit_total [OF _ rf(4)]) simp_all
    then obtain v where "linearIntensityLimit self (mass_GeV (ion self)) ?g
        (Nb0_PS_extr (ref self)) (Q0_PS (ref self)) (m0_GeV (ref self)) (gamma0_PS_extr (ref self)) False = Inr v" by blast
    with False m show ?thesis by (simp add: ps_def Let_def)
  qed
qed

text \<open>The injection gamma of the SPS, on each of its three branches, is above 1.\<close>

lemma sps_gamma_inj_gt_one:
  assumes inv: "chain_inv self" and wf: "ion_well_formed self"
  shows "1 < (if use_gammas_ref (cfg self) then SPS_gamma_inj_ref (ion self)
            else if use_Roderiks_gamma (cfg self)
            then sqrt (1 + (((if LEIR_PS_strip (cfg self) then Z (ion self) else Q (ion self)) / 54)
                               / (mass_GeV (ion self) / m0_GeV (ref self))) ^ 2
                            * ((gamma0_SPS_inj (ref self)) ^ 2 - 1))
            else (mass_GeV (ion self) + E_kin_per_A_SPS_inj (ref self) * A (ion self)) / mass_GeV (ion self))"
proof -
  note rf = chain_inv_reference [OF inv]
  from wf have m: "0 < mass_GeV (ion self)" and a: "0 < A (ion self)" and q: "0 < Q (ion self)"
    and z: "0 < Z (ion self)"
    by (simp_all add: ion_well_formed_def)
  have c: "0 < (if LEIR_PS_strip (cfg self) then Z (ion self) else Q (ion self))"
    using q z by simp
  have "0 < mass_GeV (ion self) / m0_GeV (ref self)" using m rf(1) by simp
  with c have x: "0 < ((if LEIR_PS_strip (cfg self) then Z (ion self) else Q (ion self)) / 54)
                               / (mass_GeV (ion self) / m0_GeV (ref self))"
    by (simp del: divide_divide_eq_left divide_divide_eq_right times_divide_eq_left times_divide_eq_right)
  show ?thesis
    using rigidity_gamma_gt_one(1) [OF x rf(5)] kinematic_gamma_gt_one [OF m a rf(13)] wf
    by (simp add: ion_well_formed_def)
qed

lemma sps_total:
  assumes inv: "chain_inv self" and wf: "ion_well_formed self"
  shows "\<exists>self'. sps self = Inr self'"
proof -
  note rf = chain_inv_reference [OF inv]
  from wf have m: "0 < mass_GeV (ion self)" and a: "0 < A (ion self)" and q: "0 < Q (ion self)"
    and z: "0 < Z (ion self)"
    by (simp_all add: ion_well_formed_def)
  let ?g = "(if use_gammas_ref (cfg self) then SPS_gamma_inj_ref (ion self)
            else if use_Roderiks_gamma (cfg self)
            then sqrt (1 + (((if LEIR_PS_strip (cfg self) then Z (ion self) else Q (ion self)) / 54)
                               / (mass_GeV (ion self) / m0_GeV (ref self))) ^ 2
                            * ((gamma0_SPS_inj (ref self)) ^ 2 - 1))
            else (mass_GeV (ion self) + E_kin_per_A_SPS_inj (ref self) * A (ion self)) / mass_GeV (ion self))"
  have "1 < ?g" by (rule sps_gamma_inj_gt_one [OF inv wf])
  then have "1 \<le> \<bar>?g\<bar>" by linarith
  then have "\<exists>v. linearIntensityLimit self (mass_GeV (ion self)) ?g
        (Nb0_SPS_extr (ref self)) (Q0_SPS (ref self)) (m0_GeV (ref self)) (gamma0_SPS_inj (ref self)) True = Inr v"
    using z rf(1) by (intro linearIntensityLimit_total [OF _ rf(5)]) simp_all
  then obtain v where v: "linearIntensityLimit self (mass_GeV (ion self)) ?g
        (Nb0_SPS_extr (ref self)) (Q0_SPS (ref self)) (m0_GeV (ref self)) (gamma0_SPS_inj (ref self)) True = Inr v" by blast
  have c: "0 < (if LEIR_PS_strip (cfg self) then Z (ion self) else Q (ion self))"
    using q z by simp
  have "0 < mass_GeV (ion self) / m0_GeV (ref self)" using m rf(1) by simp
  with c have x: "0 < ((if LEIR_PS_strip (cfg self) then Z (ion self) else Q (ion self)) / 54)
                               / (mass_GeV (ion self) / m0_GeV (ref self))"
    by (simp del: divide_divide_eq_left divide_divide_eq_right times_divide_eq_left times_divide_eq_right)
  note rad = rigidity_gamma_gt_one(2) [OF x rf(5)]
  have m0: "m0_GeV (ref self) \<noteq> 0" using rf(1) by simp
  from m have mz: "mass_GeV (ion self) \<noteq> 0" by simp
  show ?thesis
  proof (cases "use_gammas_ref (cfg self)")
    case True
    with v show ?thesis by (simp add: sps_def Let_def)
  next
    case False
    show ?thesis
    proof (cases "use_Roderiks_gamma (cfg self)")
      case True
      with v False rad m0 mz show ?thesis
        unfolding sps_def Let_def by (simp del: divide_divide_eq_left divide_divide_eq_right times_divide_eq_left times_divide_eq_right)
    next
      case nr: False
      with v False mz show ?thesis by (simp add: sps_def Let_def)
    qed
  qed
qed

lemma simulate_parts:
  assumes "simulate_injection_SpaceCharge_limit self = Inr self'"
  obtains self1 self2 where "leir self = Inr self1" and "ps self1 = Inr self2" and "sps self2 = Inr self'"
  using assms by (auto simp: simulate_injection_SpaceCharge_limit_def split: sum.splits)

lemma simulate_frame:
  assumes "simulate_injection_SpaceCharge_limit self = Inr self'"
  shows "cfg self' = cfg self" and "ion self' = ion self" and "ref self' = ref self"
proof -
  from assms obtain self1 self2 where
    l: "leir self = Inr self1" and p: "ps self1 = Inr self2" and s: "sps self2 = Inr self'"
    by (rule simulate_parts)
  show "cfg self' = cfg self" and "ion self' = ion self" and "ref self' = ref self"
    by (simp_all add: leir_frame [OF l] ps_frame [OF p] sps_frame [OF s])
qed

lemma simulate_stage:
  assumes "simulate_injection_SpaceCharge_limit self = Inr self'"
  shows "linearIntensityLimit self (mass_GeV (ion self)) (gamma_LEIR_extr (stage self'))
           (Nb0_LEIR_extr (ref self)) (Q0_LEIR (ref self)) (m0_GeV (ref self))
           (gamma0_LEIR_extr (ref self)) False = Inr (Nb_LEIR_extr (stage self'))"
    and "linearIntensityLimit self (mass_GeV (ion self)) (gamma_SPS_inj (stage self'))
           (Nb0_SPS_extr (ref self)) (Q0_SPS (ref self)) (m0_GeV (ref self))
           (gamma0_SPS_inj (ref self)) True = Inr (Nb_SPS_extr (stage self'))"
    and "gamma_LEIR_extr (stage self') =
           (if use_gammas_ref (cfg self) then LEIR_gamma_extr_ref (ion self)
            else (mass_GeV (ion self) + E_kin_per_A_LEIR_extr (ref self) * A (ion self)) / mass_GeV (ion self))"
    and "gamma_LEIR_inj (stage self') =
           (if use_gammas_ref (cfg self) then LEIR_gamma_inj_ref (ion self)
            else (mass_GeV (ion self) + E_kin_per_A_LEIR_inj (ref self) * A (ion self)) / mass_GeV (ion self))"
    and "gamma_PS_inj (stage self') =
           (if use_gammas_ref (cfg self) then PS_gamma_inj_ref (ion self)
            else (mass_GeV (ion self) + E_kin_per_A_PS_inj (ref self) * A (ion self)) / mass_GeV (ion self))"
    and "gamma_SPS_inj (stage self') =
           (if use_gammas_ref (cfg self) then SPS_gamma_inj_ref (ion self)
            else if use_Roderiks_gamma (cfg self)
            then sqrt (1 + (((if LEIR_PS_strip (cfg self) then Z (ion self) else Q (ion self)) / 54)
                               / (mass_GeV (ion self) / m0_GeV (ref self))) ^ 2
                            * ((gamma0_SPS_inj (ref self)) ^ 2 - 1))
            else (mass_GeV (ion self) + E_kin_per_A_SPS_inj (ref self) * A (ion self)) / mass_GeV (ion self))"
proof -
  from assms obtain self1 self2 where
    l: "leir self = Inr self1" and p: "ps self1 = Inr self2" and s: "sps self2 = Inr self'"
    by (rule simulate_parts)
  note lf = leir_frame [OF l] and pf = ps_frame [OF p] and sf = sps_frame [OF s]
  note ls = leir_stage [OF l] and pst = ps_stage [OF p] and ss = sps_stage [OF s]
  have e1: "gamma_LEIR_extr (stage self') = gamma_LEIR_extr (stage self1)"
    by (simp add: ss(7) pst(7))
  have e2: "Nb_LEIR_extr (stage self') = Nb_LEIR_extr (stage self1)"
    by (simp add: ss(8) pst(8))
  show "linearIntensityLimit self (mass_GeV (ion self)) (gamma_LEIR_extr (stage self'))
           (Nb0_LEIR_extr (ref self)) (Q0_LEIR (ref self)) (m0_GeV (ref self))
           (gamma0_LEIR_extr (ref self)) False = Inr (Nb_LEIR_extr (stage self'))"
    unfolding e1 e2 by (rule ls(1))
  have c: "linearIntensityLimit self2 = linearIntensityLimit self"
    by (simp add: fun_eq_iff linearIntensityLimit_def pf lf)
  from ss(1) show "linearIntensityLimit self (mass_GeV (ion self)) (gamma_SPS_inj (stage self'))
           (Nb0_SPS_extr (ref self)) (Q0_SPS (ref self)) (m0_GeV (ref self))
           (gamma0_SPS_inj (ref self)) True = Inr (Nb_SPS_extr (stage self'))"
    by (simp add: c pf lf)
  show "gamma_LEIR_extr (stage self') =
           (if use_gammas_ref (cfg self) then LEIR_gamma_extr_ref (ion self)
            else (mass_GeV (ion self) + E_kin_per_A_LEIR_extr (ref self) * A (ion self)) / mass_GeV (ion self))"
    unfolding e1 by (rule ls(3))
  show "gamma_LEIR_inj (stage self') =
           (if use_gammas_ref (cfg self) then LEIR_gamma_inj_ref (ion self)
            else (mass_GeV (ion self) + E_kin_per_A_LEIR_inj (ref self) * A (ion self)) / mass_GeV (ion self))"
    using ls(4) by (simp add: ss(6) pst(6))
  show "gamma_PS_inj (stage self') =
           (if use_gammas_ref (cfg self) then PS_gamma_inj_ref (ion self)
            else (mass_GeV (ion self) + E_kin_per_A_PS_inj (ref self) * A (ion self)) / mass_GeV (ion self))"
    using pst(4) by (simp add: ss(10) lf)
  show "gamma_SPS_inj (stage self') =
           (if use_gammas_ref (cfg self) then SPS_gamma_inj_ref (ion self)
            else if use_Roderiks_gamma (cfg self)
            then sqrt (1 + (((if LEIR_PS_strip (cfg self) then Z (ion self) else Q (ion self)) / 54)
                               / (mass_GeV (ion self) / m0_GeV (ref self))) ^ 2
                            * ((gamma0_SPS_inj (ref self)) ^ 2 - 1))
            else (mass_GeV (ion self) + E_kin_per_A_SPS_inj (ref self) * A (ion self)) / mass_GeV (ion self))"
    using ss(3) by (simp only: pf lf)
qed

lemma simulate_total:
  assumes inv: "chain_inv self" and wf: "ion_well_formed self"
  shows "\<exists>self'. simulate_injection_SpaceCharge_limit self = Inr self'"
proof -
  from leir_total [OF inv wf] obtain self1 where l: "leir self = Inr self1" by blast
  note lf = leir_frame [OF l]
  have inv1: "chain_inv self1" by (rule chain_inv_stage_frame [OF inv lf])
  have wf1: "ion_well_formed self1" using wf by (simp add: ion_well_formed_frame [OF lf(1) lf(2)])
  from ps_total [OF inv1 wf1] obtain self2 where p: "ps self1 = Inr self2" by blast
  note pf = ps_frame [OF p]
  have inv2: "chain_inv self2" by (rule chain_inv_stage_frame [OF inv1 pf])
  have wf2: "ion_well_formed self2" using wf1 by (simp add: ion_well_formed_frame [OF pf(1) pf(2)])
  from sps_total [OF inv2 wf2] obtain self3 where s: "sps self2 = Inr self3" by blast
  from l p s show ?thesis by (simp add: simulate_injection_SpaceCharge_limit_def)
qed


section \<open>The chain for one ion\<close>

lemma bind_InrE:
  assumes "(case x of Inl err \<Rightarrow> Inl err | Inr v \<Rightarrow> f v) = Inr y"
  obtains v where "x = Inr v" and "f v = Inr y"
  using assms by (cases x) auto

lemma guard_InrE:
  assumes "(if c then Inl err else x) = Inr y"
  obtains "\<not> c" and "x = Inr y"
  using assms by (cases c) auto

lemma calculate_parts:
  assumes "calculate_LHC_bunch_intensity self0 = Inr (r, self)"
  obtains spaceChargeLimitLEIR nPulses spaceChargeLimitPS spaceChargeLimitSPS where
    "simulate_injection_SpaceCharge_limit self0 = Inr self"
    and "Q (ion self) * e \<noteq> 0"
    and "linearIntensityLimit self (mass_GeV (ion self)) (gamma_LEIR_extr (stage self))
           (Nb0_LEIR_extr (ref self)) (Q0_LEIR (ref self)) (m0_GeV (ref self))
           (gamma0_LEIR_extr (ref self)) False = Inr spaceChargeLimitLEIR"
    and "(if nPulsesLEIR (cfg self) = 0
          then if (linac3_current (ion self) * linac3_pulseLength (ion self)) / (Q (ion self) * e)
                    * LEIR_injection_efficiency (ion self) = 0
               then Inl (if spaceChargeLimitLEIR = 0 then ValueError else OverflowError)
               else Inr (min 7 \<lceil>spaceChargeLimitLEIR
                          / ((linac3_current (ion self) * linac3_pulseLength (ion self)) / (Q (ion self) * e)
                             * LEIR_injection_efficiency (ion self))\<rceil>)
          else Inr (nPulsesLEIR (cfg self))) = Inr nPulses"
    and "LEIR_bunches (cfg self) \<noteq> 0" and "PS_splitting (cfg self) \<noteq> 0"
    and "linearIntensityLimit self (mass_GeV (ion self)) (gamma_PS_inj (stage self))
           (Nb0_PS_extr (ref self)) (Q0_PS (ref self)) (m0_GeV (ref self))
           (gamma0_PS_inj (ref self)) (LEIR_PS_strip (cfg self)) = Inr spaceChargeLimitPS"
    and "linearIntensityLimit self (mass_GeV (ion self)) (gamma_SPS_inj (stage self))
           (Nb0_SPS_extr (ref self)) (Q0_SPS (ref self)) (m0_GeV (ref self))
           (gamma0_SPS_inj (ref self)) True = Inr spaceChargeLimitSPS"
    and "res_LEIR_space_charge_limit r = spaceChargeLimitLEIR"
    and "res_LEIR_numberofPulses r = nPulses"
    and "res_PS_space_charge_limit r = spaceChargeLimitPS"
    and "res_SPS_spaceChargeLimit r = spaceChargeLimitSPS"
    and "res_Linac3_ionsPerPulse r =
           (linac3_current (ion self) * linac3_pulseLength (ion self)) / (Q (ion self) * e)"
    and "res_LEIR_maxIntensity r =
           res_Linac3_ionsPerPulse r * of_int nPulses * LEIR_injection_efficiency (ion self)"
    and "res_LEIR_extractedIonPerBunch r =
           LEIR_transmission (ion self) * min (res_LEIR_maxIntensity r) spaceChargeLimitLEIR
             / of_int (LEIR_bunches (cfg self))"
    and "res_PS_ionsExtractedPerBunch r =
           res_LEIR_extractedIonPerBunch r
             * (if LEIR_PS_strip (cfg self) then LEIR_PS_stripping_efficiency (ion self) else 1)
             * PS_transmission (ion self) / of_int (PS_splitting (cfg self))"
    and "res_SPS_maxIntensityPerBunch r =
           (if consider_PS_space_charge_limit (cfg self)
            then min spaceChargeLimitPS (res_PS_ionsExtractedPerBunch r)
            else res_PS_ionsExtractedPerBunch r)
             * (if Z (ion self) = Q (ion self) \<or> LEIR_PS_strip (cfg self)
                then PS_SPS_transmission_efficiency (ion self)
                else PS_SPS_stripping_efficiency (ion self))"
    and "res_SPS_accIntensity r = min spaceChargeLimitSPS (res_SPS_maxIntensityPerBunch r)"
    and "res_LHC_ionsPerBunch r =
           min spaceChargeLimitSPS (res_SPS_maxIntensityPerBunch r)
             * SPS_transmission (ion self) * SPS_slipstacking_transmission (ion self)"
    and "res_LHC_chargesPerBunch r = res_LHC_ionsPerBunch r * Z (ion self)"
    and "res_SPS_transmission r = SPS_transmission (ion self)"
    and "res_Ion r = ion_type (ion self)"
    and "res_LEIR_PS_strippingEfficiency r =
           (if LEIR_PS_strip (cfg self) then Some (LEIR_PS_stripping_efficiency (ion self)) else None)"
    and "res_gammaInjSPS r = gamma_SPS_inj (stage self)"
    and "res_SPS_inj_gamma r = gamma_SPS_inj (stage self)"
    and "res_LEIR_gamma r = gamma_LEIR_inj (stage self)"
    and "res_chargeBeforeStrip r = py_int (Q (ion self))"
    and "res_atomicNumber r = py_int (Z (ion self))"
    and "res_massNumber r = py_int (A (ion self))"
    and "res_Linac3_current_A r = linac3_current (ion self)"
    and "res_Linac3_pulse_length_s r = linac3_pulseLength (ion self)"
    and "res_LEIR_injection_efficiency r = LEIR_injection_efficiency (ion self)"
    and "res_LEIR_splitting r = LEIR_bunches (cfg self)"
    and "res_LEIR_transmission r = LEIR_transmission (ion self)"
    and "res_PS_splitting r = PS_splitting (cfg self)"
    and "res_PS_transmission r = PS_transmission (ion self)"
    and "res_PS_SPS_stripping_efficiency r = PS_SPS_stripping_efficiency (ion self)"
  using assms
  unfolding calculate_LHC_bunch_intensity_def Let_def
  apply (elim bind_InrE guard_InrE)
  apply (simp only: sum.inject prod.inject)
  apply (elim conjE)
  apply hypsubst
  apply (rule that)
  apply assumption+
  apply (simp only: chain_result.select_convs)+
  done

lemma calculate_total_gen:
  assumes inv: "chain_inv self0" and wf: "ion_well_formed self0"
    and b0: "LEIR_bunches (cfg self0) \<noteq> 0" and s0: "PS_splitting (cfg self0) \<noteq> 0"
    and a0: "nPulsesLEIR (cfg self0) = 0 \<Longrightarrow>
               linac3_current (ion self0) * linac3_pulseLength (ion self0) \<noteq> 0"
  shows "\<exists>r self. calculate_LHC_bunch_intensity self0 = Inr (r, self)"
proof -
  from simulate_total [OF inv wf] obtain self where
    sim: "simulate_injection_SpaceCharge_limit self0 = Inr self" by blast
  note fr = simulate_frame [OF sim]
  note st = simulate_stage [OF sim]
  have inv': "chain_inv self"
    using inv by (simp add: chain_inv_def reference_is_Pb_frame [OF fr(3) fr(1)]
        transmission_rules_frame [OF fr(2) fr(1)] fr(1))
  have wf': "ion_well_formed self" using wf by (simp add: ion_well_formed_frame [OF fr(1) fr(2)])
  note rf = chain_inv_reference [OF inv']
  note ru = chain_inv_rules [OF inv']
  from wf' have m: "0 < mass_GeV (ion self)" and a: "0 < A (ion self)" and q: "0 < Q (ion self)"
    and z: "0 < Z (ion self)"
    by (simp_all add: ion_well_formed_def)
  have m0: "m0_GeV (ref self) \<noteq> 0" using rf(1) by simp
  have qn: "(if False then Z (ion self) else Q (ion self)) \<noteq> 0" using q by simp
  have zn: "(if True then Z (ion self) else Q (ion self)) \<noteq> 0" using z by simp
  have cn: "(if LEIR_PS_strip (cfg self) then Z (ion self) else Q (ion self)) \<noteq> 0" using q z by simp
  have "1 < gamma_LEIR_extr (stage self)"
    unfolding st(3) fr using wf kinematic_gamma_gt_one [OF m a rf(10)]
    by (simp add: ion_well_formed_def fr)
  then have gl: "1 \<le> \<bar>gamma_LEIR_extr (stage self)\<bar>" by linarith
  have "1 < gamma_PS_inj (stage self)"
    unfolding st(5) fr using wf kinematic_gamma_gt_one [OF m a rf(11)]
    by (simp add: ion_well_formed_def fr)
  then have gp: "1 \<le> \<bar>gamma_PS_inj (stage self)\<bar>" by linarith
  have "1 < gamma_SPS_inj (stage self)"
    using sps_gamma_inj_gt_one [OF inv wf] unfolding st(6) .
  then have gs: "1 \<le> \<bar>gamma_SPS_inj (stage self)\<bar>" by linarith
  from linearIntensityLimit_total [OF gl rf(2) m0 qn] obtain v1 where
    l1: "linearIntensityLimit self (mass_GeV (ion self)) (gamma_LEIR_extr (stage self))
           (Nb0_LEIR_extr (ref self)) (Q0_LEIR (ref self)) (m0_GeV (ref self))
           (gamma0_LEIR_extr (ref self)) False = Inr v1" by blast
  from linearIntensityLimit_total [OF gp rf(3) m0 cn] obtain v2 where
    l2: "linearIntensityLimit self (mass_GeV (ion self)) (gamma_PS_inj (stage self))
           (Nb0_PS_extr (ref self)) (Q0_PS (ref self)) (m0_GeV (ref self))
           (gamma0_PS_inj (ref self)) (LEIR_PS_strip (cfg self)) = Inr v2" by blast
  from linearIntensityLimit_total [OF gs rf(5) m0 zn] obtain v3 where
    l3: "linearIntensityLimit self (mass_GeV (ion self)) (gamma_SPS_inj (stage self))
           (Nb0_SPS_extr (ref self)) (Q0_SPS (ref self)) (m0_GeV (ref self))
           (gamma0_SPS_inj (ref self)) True = Inr v3" by blast
  have e0: "e \<noteq> 0" by (simp add: e_def)
  have g1: "(Q (ion self) * e = 0) = False" using q e0 by simp
  have g2: "(LEIR_bunches (cfg self) = 0) = False" using b0 by (simp add: fr)
  have g3: "(PS_splitting (cfg self) = 0) = False" using s0 by (simp add: fr)
  have g4: "nPulsesLEIR (cfg self) = 0 \<Longrightarrow>
        ((linac3_current (ion self) * linac3_pulseLength (ion self)) / (Q (ion self) * e)
                    * LEIR_injection_efficiency (ion self) = 0) = False"
  proof -
    assume "nPulsesLEIR (cfg self) = 0"
    then have "nPulsesLEIR (cfg self0) = 0" by (simp add: fr)
    then have "linac3_current (ion self0) * linac3_pulseLength (ion self0) \<noteq> 0" by (rule a0)
    then have "linac3_current (ion self) * linac3_pulseLength (ion self) \<noteq> 0" by (simp add: fr)
    with q e0 show ?thesis by (simp add: ru(1))
  qed
  show ?thesis
  proof (cases "nPulsesLEIR (cfg self) = 0")
    case True
    then have t: "(nPulsesLEIR (cfg self) = 0) = True" by simp
    show ?thesis
      unfolding calculate_LHC_bunch_intensity_def Let_def
      by (simp only: sim sum.case g1 g2 g3 g4 [OF True] t if_True if_False l1 l2 l3) blast
  next
    case False
    then have f: "(nPulsesLEIR (cfg self) = 0) = False" by simp
    show ?thesis
      unfolding calculate_LHC_bunch_intensity_def Let_def
      by (simp only: sim sum.case g1 g2 g3 f if_True if_False l1 l2 l3) blast
  qed
qed

lemma calculate_total:
  assumes inv: "chain_inv self0" and wf: "ion_well_formed self0" and cw: "counts_well_formed self0"
  shows "\<exists>r self. calculate_LHC_bunch_intensity self0 = Inr (r, self)"
proof (rule calculate_total_gen [OF inv wf])
  from cw show "LEIR_bunches (cfg self0) \<noteq> 0" and "PS_splitting (cfg self0) \<noteq> 0"
    by (simp_all add: counts_well_formed_def)
  assume "nPulsesLEIR (cfg self0) = 0"
  with cw have "0 < linac3_current (ion self0) * linac3_pulseLength (ion self0)"
    by (simp add: counts_well_formed_def)
  then show "linac3_current (ion self0) * linac3_pulseLength (ion self0) \<noteq> 0" by linarith
qed

lemma calculate_frame:
  assumes "calculate_LHC_bunch_intensity self = Inr (r, self')"
  shows "simulate_injection_SpaceCharge_limit self = Inr self'"
    and "cfg self' = cfg self" and "ion self' = ion self" and "ref self' = ref self"
proof -
  from assms show sim: "simulate_injection_SpaceCharge_limit self = Inr self'"
    by (rule calculate_parts)
  show "cfg self' = cfg self" and "ion self' = ion self" and "ref self' = ref self"
    by (rule simulate_frame [OF sim])+
qed

lemma calculate_nonneg:
  assumes inv: "chain_inv self" and wf: "ion_well_formed self" and cw: "counts_well_formed self"
    and calc: "calculate_LHC_bunch_intensity self = Inr (r, self')"
  shows "0 \<le> res_LEIR_space_charge_limit r" and "0 \<le> res_PS_space_charge_limit r"
    and "0 \<le> res_SPS_spaceChargeLimit r" and "0 \<le> res_LEIR_numberofPulses r"
    and "0 \<le> res_LEIR_maxIntensity r" and "0 \<le> res_LEIR_extractedIonPerBunch r"
    and "0 \<le> res_PS_ionsExtractedPerBunch r" and "0 \<le> res_SPS_maxIntensityPerBunch r"
proof -
  note fr = calculate_frame [OF calc]
  from calc obtain sl n sp ss where
    l1: "linearIntensityLimit self' (mass_GeV (ion self')) (gamma_LEIR_extr (stage self'))
           (Nb0_LEIR_extr (ref self')) (Q0_LEIR (ref self')) (m0_GeV (ref self'))
           (gamma0_LEIR_extr (ref self')) False = Inr sl"
    and np: "(if nPulsesLEIR (cfg self') = 0
          then if (linac3_current (ion self') * linac3_pulseLength (ion self')) / (Q (ion self') * e)
                    * LEIR_injection_efficiency (ion self') = 0
               then Inl (if sl = 0 then ValueError else OverflowError)
               else Inr (min 7 \<lceil>sl
                          / ((linac3_current (ion self') * linac3_pulseLength (ion self')) / (Q (ion self') * e)
                             * LEIR_injection_efficiency (ion self'))\<rceil>)
          else Inr (nPulsesLEIR (cfg self'))) = Inr n"
    and l2: "linearIntensityLimit self' (mass_GeV (ion self')) (gamma_PS_inj (stage self'))
           (Nb0_PS_extr (ref self')) (Q0_PS (ref self')) (m0_GeV (ref self'))
           (gamma0_PS_inj (ref self')) (LEIR_PS_strip (cfg self')) = Inr sp"
    and l3: "linearIntensityLimit self' (mass_GeV (ion self')) (gamma_SPS_inj (stage self'))
           (Nb0_SPS_extr (ref self')) (Q0_SPS (ref self')) (m0_GeV (ref self'))
           (gamma0_SPS_inj (ref self')) True = Inr ss"
    and f: "res_LEIR_space_charge_limit r = sl" "res_LEIR_numberofPulses r = n"
      "res_PS_space_charge_limit r = sp" "res_SPS_spaceChargeLimit r = ss"
    and ipp: "res_Linac3_ionsPerPulse r =
           (linac3_current (ion self') * linac3_pulseLength (ion self')) / (Q (ion self') * e)"
    and tot: "res_LEIR_maxIntensity r =
           res_Linac3_ionsPerPulse r * of_int n * LEIR_injection_efficiency (ion self')"
    and el: "res_LEIR_extractedIonPerBunch r =
           LEIR_transmission (ion self') * min (res_LEIR_maxIntensity r) sl
             / of_int (LEIR_bunches (cfg self'))"
    and ep: "res_PS_ionsExtractedPerBunch r =
           res_LEIR_extractedIonPerBunch r
             * (if LEIR_PS_strip (cfg self') then LEIR_PS_stripping_efficiency (ion self') else 1)
             * PS_transmission (ion self') / of_int (PS_splitting (cfg self'))"
    and inj: "res_SPS_maxIntensityPerBunch r =
           (if consider_PS_space_charge_limit (cfg self')
            then min sp (res_PS_ionsExtractedPerBunch r)
            else res_PS_ionsExtractedPerBunch r)
             * (if Z (ion self') = Q (ion self') \<or> LEIR_PS_strip (cfg self')
                then PS_SPS_transmission_efficiency (ion self')
                else PS_SPS_stripping_efficiency (ion self'))"
    by (rule calculate_parts)
  have inv': "chain_inv self'"
    using inv by (simp add: chain_inv_def reference_is_Pb_frame [OF fr(4) fr(2)]
        transmission_rules_frame [OF fr(3) fr(2)] fr(2))
  have wf': "ion_well_formed self'" using wf by (simp add: ion_well_formed_frame [OF fr(2) fr(3)])
  have cw': "counts_well_formed self'" using cw by (simp add: counts_well_formed_def fr)
  note rf = chain_inv_reference [OF inv']
  note ru = chain_inv_rules [OF inv']
  from wf' have m: "0 \<le> mass_GeV (ion self')" and q: "0 < Q (ion self')"
    and cur: "0 \<le> linac3_current (ion self')" and pl: "0 \<le> linac3_pulseLength (ion self')"
    and eff: "0 \<le> LEIR_PS_stripping_efficiency (ion self')"
    by (simp_all add: ion_well_formed_def)
  from cw' have nn: "0 \<le> nPulsesLEIR (cfg self')" and b: "0 < LEIR_bunches (cfg self')"
    and sp: "0 < PS_splitting (cfg self')"
    by (simp_all add: counts_well_formed_def)
  have m0: "0 \<le> m0_GeV (ref self')" using rf(1) by simp
  have sl0: "0 \<le> sl"
    by (rule linearIntensityLimit_nonneg [OF l1 m _ m0]) (use rf(6) in simp)
  have sp0: "0 \<le> sp"
    by (rule linearIntensityLimit_nonneg [OF l2 m _ m0]) (use rf(7) in simp)
  have ss0: "0 \<le> ss"
    by (rule linearIntensityLimit_nonneg [OF l3 m _ m0]) (use rf(8) in simp)
  have e0: "0 < e" by (simp add: e_def)
  have ipp0: "0 \<le> res_Linac3_ionsPerPulse r"
    unfolding ipp using cur pl q e0 by (intro divide_nonneg_nonneg mult_nonneg_nonneg) simp_all
  have n0: "0 \<le> n"
  proof (cases "nPulsesLEIR (cfg self') = 0")
    case True
    let ?d = "(linac3_current (ion self') * linac3_pulseLength (ion self')) / (Q (ion self') * e)
                             * LEIR_injection_efficiency (ion self')"
    from np True have n: "n = min 7 \<lceil>sl / ?d\<rceil>" by (simp split: if_splits)
    have "0 \<le> LEIR_injection_efficiency (ion self')" by (simp add: ru(1))
    with ipp0 [unfolded ipp] have "0 \<le> ?d" by (rule mult_nonneg_nonneg)
    with sl0 have "0 \<le> sl / ?d" by (rule divide_nonneg_nonneg)
    then have "0 \<le> \<lceil>sl / ?d\<rceil>" by (simp add: zero_le_ceiling)
    then show ?thesis unfolding n by simp
  next
    case False
    with np nn show ?thesis by simp
  qed
  have tot0: "0 \<le> res_LEIR_maxIntensity r"
    unfolding tot using ipp0 n0 by (simp add: ru(1))
  have el0: "0 \<le> res_LEIR_extractedIonPerBunch r"
    unfolding el using tot0 sl0 b by (simp add: ru(2))
  have ep0: "0 \<le> res_PS_ionsExtractedPerBunch r"
    unfolding ep using el0 eff sp by (simp add: ru(3))
  have inj0: "0 \<le> res_SPS_maxIntensityPerBunch r"
    unfolding inj using ep0 sp0 by (simp add: ru(4) ru(5))
  show "0 \<le> res_LEIR_space_charge_limit r" and "0 \<le> res_PS_space_charge_limit r"
    and "0 \<le> res_SPS_spaceChargeLimit r" and "0 \<le> res_LEIR_numberofPulses r"
    and "0 \<le> res_LEIR_maxIntensity r" and "0 \<le> res_LEIR_extractedIonPerBunch r"
    and "0 \<le> res_PS_ionsExtractedPerBunch r" and "0 \<le> res_SPS_maxIntensityPerBunch r"
    using sl0 sp0 ss0 n0 tot0 el0 ep0 inj0 by (simp_all add: f)
qed


section \<open>The result of the chain, from the object it is called on\<close>

lemma linearIntensityLimit_value:
  assumes "1 < g" and "1 < g0" and "m_0 \<noteq> 0"
    and "(if fs then Z (ion self) else Q (ion self)) \<noteq> 0"
  shows "linearIntensityLimit self m g Nb_0 c0 m_0 g0 fs =
           Inr (Nb_0 * ((m / m_0) * (c0 / (if fs then Z (ion self) else Q (ion self))) ^ 2
                  * (sqrt (1 - 1 / g ^ 2) / sqrt (1 - 1 / g0 ^ 2)) * (g / g0) ^ 2))"
proof -
  have "0 < sqrt (1 - 1 / g0 ^ 2)" by (rule beta_gt_one(2) [OF \<open>1 < g0\<close>])
  then have nz: "sqrt (1 - 1 / g0 ^ 2) \<noteq> 0" by linarith
  have b0: "beta g0 = Inr (sqrt (1 - 1 / g0 ^ 2))" by (rule beta_gt_one(1) [OF \<open>1 < g0\<close>])
  have b: "beta g = Inr (sqrt (1 - 1 / g ^ 2))" by (rule beta_gt_one(1) [OF \<open>1 < g\<close>])
  from \<open>1 < g0\<close> have "g0 \<noteq> 0" by linarith
  with nz assms(3,4) show ?thesis
    unfolding linearIntensityLimit_def Let_def b0 b by (simp del: real_sqrt_eq_zero_cancel_iff)
qed

text \<open>For the reference ion itself the factor is the square of the ratio of the charges.\<close>

lemma linearIntensityLimit_reference:
  assumes "1 < g" and "m \<noteq> 0"
    and "(if fs then Z (ion self) else Q (ion self)) \<noteq> 0"
  shows "linearIntensityLimit self m g Nb_0 c0 m g fs =
           Inr (Nb_0 * (c0 / (if fs then Z (ion self) else Q (ion self))) ^ 2)"
proof -
  have "0 < sqrt (1 - 1 / g ^ 2)" by (rule beta_gt_one(2) [OF \<open>1 < g\<close>])
  then have nz: "sqrt (1 - 1 / g ^ 2) \<noteq> 0" by linarith
  from \<open>1 < g\<close> have g0: "g \<noteq> 0" by linarith
  have "(m / m) * (c0 / (if fs then Z (ion self) else Q (ion self))) ^ 2
          * (sqrt (1 - 1 / g ^ 2) / sqrt (1 - 1 / g ^ 2)) * (g / g) ^ 2
        = (c0 / (if fs then Z (ion self) else Q (ion self))) ^ 2"
    using nz g0 \<open>m \<noteq> 0\<close> by (simp del: real_sqrt_eq_zero_cancel_iff)
  then show ?thesis
    unfolding linearIntensityLimit_value [OF assms(1) assms(1) assms(2) assms(3)] by simp
qed

lemma calculate_input:
  assumes calc: "calculate_LHC_bunch_intensity self = Inr (r, self')"
  obtains slL slP slS where
    "simulate_injection_SpaceCharge_limit self = Inr self'"
    and "linearIntensityLimit self (mass_GeV (ion self))
           (if use_gammas_ref (cfg self) then LEIR_gamma_extr_ref (ion self)
            else (mass_GeV (ion self) + E_kin_per_A_LEIR_extr (ref self) * A (ion self)) / mass_GeV (ion self))
           (Nb0_LEIR_extr (ref self)) (Q0_LEIR (ref self)) (m0_GeV (ref self))
           (gamma0_LEIR_extr (ref self)) False = Inr slL"
    and "linearIntensityLimit self (mass_GeV (ion self))
           (if use_gammas_ref (cfg self) then PS_gamma_inj_ref (ion self)
            else (mass_GeV (ion self) + E_kin_per_A_PS_inj (ref self) * A (ion self)) / mass_GeV (ion self))
           (Nb0_PS_extr (ref self)) (Q0_PS (ref self)) (m0_GeV (ref self))
           (gamma0_PS_inj (ref self)) (LEIR_PS_strip (cfg self)) = Inr slP"
    and "linearIntensityLimit self (mass_GeV (ion self))
           (if use_gammas_ref (cfg self) then SPS_gamma_inj_ref (ion self)
            else if use_Roderiks_gamma (cfg self)
            then sqrt (1 + (((if LEIR_PS_strip (cfg self) then Z (ion self) else Q (ion self)) / 54)
                               / (mass_GeV (ion self) / m0_GeV (ref self))) ^ 2
                            * ((gamma0_SPS_inj (ref self)) ^ 2 - 1))
            else (mass_GeV (ion self) + E_kin_per_A_SPS_inj (ref self) * A (ion self)) / mass_GeV (ion self))
           (Nb0_SPS_extr (ref self)) (Q0_SPS (ref self)) (m0_GeV (ref self))
           (gamma0_SPS_inj (ref self)) True = Inr slS"
    and "Q (ion self) * e \<noteq> 0"
    and "LEIR_bunches (cfg self) \<noteq> 0" and "PS_splitting (cfg self) \<noteq> 0"
    and "nPulsesLEIR (cfg self) = 0 \<Longrightarrow>
           (linac3_current (ion self) * linac3_pulseLength (ion self)) / (Q (ion self) * e)
             * LEIR_injection_efficiency (ion self) \<noteq> 0"
    and "res_LEIR_space_charge_limit r = slL"
    and "res_PS_space_charge_limit r = slP"
    and "res_SPS_spaceChargeLimit r = slS"
    and "res_Linac3_ionsPerPulse r =
           (linac3_current (ion self) * linac3_pulseLength (ion self)) / (Q (ion self) * e)"
    and "res_LEIR_numberofPulses r =
           (if nPulsesLEIR (cfg self) = 0
            then min 7 \<lceil>slL / ((linac3_current (ion self) * linac3_pulseLength (ion self)) / (Q (ion self) * e)
                                 * LEIR_injection_efficiency (ion self))\<rceil>
            else nPulsesLEIR (cfg self))"
    and "res_LEIR_maxIntensity r =
           res_Linac3_ionsPerPulse r * of_int (res_LEIR_numberofPulses r) * LEIR_injection_efficiency (ion self)"
    and "res_LEIR_extractedIonPerBunch r =
           LEIR_transmission (ion self) * min (res_LEIR_maxIntensity r) slL
             / of_int (LEIR_bunches (cfg self))"
    and "res_PS_ionsExtractedPerBunch r =
           res_LEIR_extractedIonPerBunch r
             * (if LEIR_PS_strip (cfg self) then LEIR_PS_stripping_efficiency (ion self) else 1)
             * PS_transmission (ion self) / of_int (PS_splitting (cfg self))"
    and "res_SPS_maxIntensityPerBunch r =
           (if consider_PS_space_charge_limit (cfg self)
            then min slP (res_PS_ionsExtractedPerBunch r)
            else res_PS_ionsExtractedPerBunch r)
             * (if Z (ion self) = Q (ion self) \<or> LEIR_PS_strip (cfg self)
                then PS_SPS_transmission_efficiency (ion self)
                else PS_SPS_stripping_efficiency (ion self))"
    and "res_SPS_accIntensity r = min slS (res_SPS_maxIntensityPerBunch r)"
    and "res_LHC_ionsPerBunch r =
           min slS (res_SPS_maxIntensityPerBunch r)
             * SPS_transmission (ion self) * SPS_slipstacking_transmission (ion self)"
    and "res_LHC_chargesPerBunch r = res_LHC_ionsPerBunch r * Z (ion self)"
    and "res_SPS_transmission r = SPS_transmission (ion self)"
    and "res_Ion r = ion_type (ion self)"
    and "res_LEIR_PS_strippingEfficiency r =
           (if LEIR_PS_strip (cfg self) then Some (LEIR_PS_stripping_efficiency (ion self)) else None)"
    and "res_gammaInjSPS r =
           (if use_gammas_ref (cfg self) then SPS_gamma_inj_ref (ion self)
            else if use_Roderiks_gamma (cfg self)
            then sqrt (1 + (((if LEIR_PS_strip (cfg self) then Z (ion self) else Q (ion self)) / 54)
                               / (mass_GeV (ion self) / m0_GeV (ref self))) ^ 2
                            * ((gamma0_SPS_inj (ref self)) ^ 2 - 1))
            else (mass_GeV (ion self) + E_kin_per_A_SPS_inj (ref self) * A (ion self)) / mass_GeV (ion self))"
    and "res_SPS_inj_gamma r = res_gammaInjSPS r"
    and "res_LEIR_gamma r =
           (if use_gammas_ref (cfg self) then LEIR_gamma_inj_ref (ion self)
            else (mass_GeV (ion self) + E_kin_per_A_LEIR_inj (ref self) * A (ion self)) / mass_GeV (ion self))"
    and "res_chargeBeforeStrip r = py_int (Q (ion self))"
    and "res_atomicNumber r = py_int (Z (ion self))"
    and "res_massNumber r = py_int (A (ion self))"
    and "res_Linac3_current_A r = linac3_current (ion self)"
    and "res_Linac3_pulse_length_s r = linac3_pulseLength (ion self)"
    and "res_LEIR_injection_efficiency r = LEIR_injection_efficiency (ion self)"
    and "res_LEIR_splitting r = LEIR_bunches (cfg self)"
    and "res_LEIR_transmission r = LEIR_transmission (ion self)"
    and "res_PS_splitting r = PS_splitting (cfg self)"
    and "res_PS_transmission r = PS_transmission (ion self)"
    and "res_PS_SPS_stripping_efficiency r = PS_SPS_stripping_efficiency (ion self)"
proof -
  note fr = calculate_frame [OF calc]
  note st = simulate_stage [OF fr(1)]
  have c: "linearIntensityLimit self' = linearIntensityLimit self"
    by (simp add: fun_eq_iff linearIntensityLimit_def fr)
  from calc obtain sl n sp ss where
    q: "Q (ion self') * e \<noteq> 0"
    and l1: "linearIntensityLimit self' (mass_GeV (ion self')) (gamma_LEIR_extr (stage self'))
           (Nb0_LEIR_extr (ref self')) (Q0_LEIR (ref self')) (m0_GeV (ref self'))
           (gamma0_LEIR_extr (ref self')) False = Inr sl"
    and np: "(if nPulsesLEIR (cfg self') = 0
          then if (linac3_current (ion self') * linac3_pulseLength (ion self')) / (Q (ion self') * e)
                    * LEIR_injection_efficiency (ion self') = 0
               then Inl (if sl = 0 then ValueError else OverflowError)
               else Inr (min 7 \<lceil>sl
                          / ((linac3_current (ion self') * linac3_pulseLength (ion self')) / (Q (ion self') * e)
                             * LEIR_injection_efficiency (ion self'))\<rceil>)
          else Inr (nPulsesLEIR (cfg self'))) = Inr n"
    and b: "LEIR_bunches (cfg self') \<noteq> 0" and s: "PS_splitting (cfg self') \<noteq> 0"
    and l2: "linearIntensityLimit self' (mass_GeV (ion self')) (gamma_PS_inj (stage self'))
           (Nb0_PS_extr (ref self')) (Q0_PS (ref self')) (m0_GeV (ref self'))
           (gamma0_PS_inj (ref self')) (LEIR_PS_strip (cfg self')) = Inr sp"
    and l3: "linearIntensityLimit self' (mass_GeV (ion self')) (gamma_SPS_inj (stage self'))
           (Nb0_SPS_extr (ref self')) (Q0_SPS (ref self')) (m0_GeV (ref self'))
           (gamma0_SPS_inj (ref self')) True = Inr ss"
    and f: "res_LEIR_space_charge_limit r = sl" "res_LEIR_numberofPulses r = n"
      "res_PS_space_charge_limit r = sp" "res_SPS_spaceChargeLimit r = ss"
    and ipp: "res_Linac3_ionsPerPulse r =
           (linac3_current (ion self') * linac3_pulseLength (ion self')) / (Q (ion self') * e)"
    and tot: "res_LEIR_maxIntensity r =
           res_Linac3_ionsPerPulse r * of_int n * LEIR_injection_efficiency (ion self')"
    and el: "res_LEIR_extractedIonPerBunch r =
           LEIR_transmission (ion self') * min (res_LEIR_maxIntensity r) sl
             / of_int (LEIR_bunches (cfg self'))"
    and ep: "res_PS_ionsExtractedPerBunch r =
           res_LEIR_extractedIonPerBunch r
             * (if LEIR_PS_strip (cfg self') then LEIR_PS_stripping_efficiency (ion self') else 1)
             * PS_transmission (ion self') / of_int (PS_splitting (cfg self'))"
    and inj: "res_SPS_maxIntensityPerBunch r =
           (if consider_PS_space_charge_limit (cfg self')
            then min sp (res_PS_ionsExtractedPerBunch r)
            else res_PS_ionsExtractedPerBunch r)
             * (if Z (ion self') = Q (ion self') \<or> LEIR_PS_strip (cfg self')
                then PS_SPS_transmission_efficiency (ion self')
                else PS_SPS_stripping_efficiency (ion self'))"
    and acc: "res_SPS_accIntensity r = min ss (res_SPS_maxIntensityPerBunch r)"
    and lhc: "res_LHC_ionsPerBunch r =
           min ss (res_SPS_maxIntensityPerBunch r)
             * SPS_transmission (ion self') * SPS_slipstacking_transmission (ion self')"
    and rest: "res_LHC_chargesPerBunch r = res_LHC_ionsPerBunch r * Z (ion self')"
      "res_SPS_transmission r = SPS_transmission (ion self')"
      "res_Ion r = ion_type (ion self')"
      "res_LEIR_PS_strippingEfficiency r =
           (if LEIR_PS_strip (cfg self') then Some (LEIR_PS_stripping_efficiency (ion self')) else None)"
      "res_gammaInjSPS r = gamma_SPS_inj (stage self')"
      "res_SPS_inj_gamma r = gamma_SPS_inj (stage self')"
      "res_LEIR_gamma r = gamma_LEIR_inj (stage self')"
      "res_chargeBeforeStrip r = py_int (Q (ion self'))"
      "res_atomicNumber r = py_int (Z (ion self'))"
      "res_massNumber r = py_int (A (ion self'))"
      "res_Linac3_current_A r = linac3_current (ion self')"
      "res_Linac3_pulse_length_s r = linac3_pulseLength (ion self')"
      "res_LEIR_injection_efficiency r = LEIR_injection_efficiency (ion self')"
      "res_LEIR_splitting r = LEIR_bunches (cfg self')"
      "res_LEIR_transmission r = LEIR_transmission (ion self')"
      "res_PS_splitting r = PS_splitting (cfg self')"
      "res_PS_transmission r = PS_transmission (ion self')"
      "res_PS_SPS_stripping_efficiency r = PS_SPS_stripping_efficiency (ion self')"
    by (rule calculate_parts)
  from np have n: "n = (if nPulsesLEIR (cfg self) = 0
            then min 7 \<lceil>sl / ((linac3_current (ion self) * linac3_pulseLength (ion self)) / (Q (ion self) * e)
                                 * LEIR_injection_efficiency (ion self))\<rceil>
            else nPulsesLEIR (cfg self))"
    unfolding fr by (simp split: if_splits)
  from np have d: "nPulsesLEIR (cfg self) = 0 \<Longrightarrow>
           (linac3_current (ion self) * linac3_pulseLength (ion self)) / (Q (ion self) * e)
             * LEIR_injection_efficiency (ion self) \<noteq> 0"
    unfolding fr by (simp split: if_splits)
  show ?thesis
  proof (rule that [of sl sp ss])
    show "simulate_injection_SpaceCharge_limit self = Inr self'" by (rule fr(1))
    from l1 show "linearIntensityLimit self (mass_GeV (ion self))
           (if use_gammas_ref (cfg self) then LEIR_gamma_extr_ref (ion self)
            else (mass_GeV (ion self) + E_kin_per_A_LEIR_extr (ref self) * A (ion self)) / mass_GeV (ion self))
           (Nb0_LEIR_extr (ref self)) (Q0_LEIR (ref self)) (m0_GeV (ref self))
           (gamma0_LEIR_extr (ref self)) False = Inr sl"
      unfolding c fr st(3) .
    from l2 show "linearIntensityLimit self (mass_GeV (ion self))
           (if use_gammas_ref (cfg self) then PS_gamma_inj_ref (ion self)
            else (mass_GeV (ion self) + E_kin_per_A_PS_inj (ref self) * A (ion self)) / mass_GeV (ion self))
           (Nb0_PS_extr (ref self)) (Q0_PS (ref self)) (m0_GeV (ref self))
           (gamma0_PS_inj (ref self)) (LEIR_PS_strip (cfg self)) = Inr sp"
      unfolding c fr st(5) .
    from l3 show "linearIntensityLimit self (mass_GeV (ion self))
           (if use_gammas_ref (cfg self) then SPS_gamma_inj_ref (ion self)
            else if use_Roderiks_gamma (cfg self)
            then sqrt (1 + (((if LEIR_PS_strip (cfg self) then Z (ion self) else Q (ion self)) / 54)
                               / (mass_GeV (ion self) / m0_GeV (ref self))) ^ 2
                            * ((gamma0_SPS_inj (ref self)) ^ 2 - 1))
            else (mass_GeV (ion self) + E_kin_per_A_SPS_inj (ref self) * A (ion self)) / mass_GeV (ion self))
           (Nb0_SPS_extr (ref self)) (Q0_SPS (ref self)) (m0_GeV (ref self))
           (gamma0_SPS_inj (ref self)) True = Inr ss"
      unfolding c fr st(6) .
    from q show "Q (ion self) * e \<noteq> 0" unfolding fr .
    from b show "LEIR_bunches (cfg self) \<noteq> 0" unfolding fr .
    from s show "PS_splitting (cfg self) \<noteq> 0" unfolding fr .
    show "nPulsesLEIR (cfg self) = 0 \<Longrightarrow>
           (linac3_current (ion self) * linac3_pulseLength (ion self)) / (Q (ion self) * e)
             * LEIR_injection_efficiency (ion self) \<noteq> 0" by (rule d)
    show "res_LEIR_space_charge_limit r = sl" "res_PS_space_charge_limit r = sp"
      "res_SPS_spaceChargeLimit r = ss" by (rule f)+
    from ipp show "res_Linac3_ionsPerPulse r =
           (linac3_current (ion self) * linac3_pulseLength (ion self)) / (Q (ion self) * e)"
      unfolding fr .
    show "res_LEIR_numberofPulses r =
           (if nPulsesLEIR (cfg self) = 0
            then min 7 \<lceil>sl / ((linac3_current (ion self) * linac3_pulseLength (ion self)) / (Q (ion self) * e)
                                 * LEIR_injection_efficiency (ion self))\<rceil>
            else nPulsesLEIR (cfg self))"
      unfolding f(2) by (rule n)
    from tot show "res_LEIR_maxIntensity r =
           res_Linac3_ionsPerPulse r * of_int (res_LEIR_numberofPulses r) * LEIR_injection_efficiency (ion self)"
      unfolding fr f(2) .
    from el show "res_LEIR_extractedIonPerBunch r =
           LEIR_transmission (ion self) * min (res_LEIR_maxIntensity r) sl
             / of_int (LEIR_bunches (cfg self))"
      unfolding fr .
    from ep show "res_PS_ionsExtractedPerBunch r =
           res_LEIR_extractedIonPerBunch r
             * (if LEIR_PS_strip (cfg self) then LEIR_PS_stripping_efficiency (ion self) else 1)
             * PS_transmission (ion self) / of_int (PS_splitting (cfg self))"
      unfolding fr .
    from inj show "res_SPS_maxIntensityPerBunch r =
           (if consider_PS_space_charge_limit (cfg self)
            then min sp (res_PS_ionsExtractedPerBunch r)
            else res_PS_ionsExtractedPerBunch r)
             * (if Z (ion self) = Q (ion self) \<or> LEIR_PS_strip (cfg self)
                then PS_SPS_transmission_efficiency (ion self)
                else PS_SPS_stripping_efficiency (ion self))"
      unfolding fr .
    show "res_SPS_accIntensity r = min ss (res_SPS_maxIntensityPerBunch r)" by (rule acc)
    from lhc show "res_LHC_ionsPerBunch r =
           min ss (res_SPS_maxIntensityPerBunch r)
             * SPS_transmission (ion self) * SPS_slipstacking_transmission (ion self)"
      unfolding fr .
    from rest(1) show "res_LHC_chargesPerBunch r = res_LHC_ionsPerBunch r * Z (ion self)"
      unfolding fr .
    from rest(2) show "res_SPS_transmission r = SPS_transmission (ion self)" unfolding fr .
    from rest(3) show "res_Ion r = ion_type (ion self)" unfolding fr .
    from rest(4) show "res_LEIR_PS_strippingEfficiency r =
           (if LEIR_PS_strip (cfg self) then Some (LEIR_PS_stripping_efficiency (ion self)) else None)"
      unfolding fr .
    from rest(5) show "res_gammaInjSPS r =
           (if use_gammas_ref (cfg self) then SPS_gamma_inj_ref (ion self)
            else if use_Roderiks_gamma (cfg self)
            then sqrt (1 + (((if LEIR_PS_strip (cfg self) then Z (ion self) else Q (ion self)) / 54)
                               / (mass_GeV (ion self) / m0_GeV (ref self))) ^ 2
                            * ((gamma0_SPS_inj (ref self)) ^ 2 - 1))
            else (mass_GeV (ion self) + E_kin_per_A_SPS_inj (ref self) * A (ion self)) / mass_GeV (ion self))"
      unfolding st(6) .
    show "res_SPS_inj_gamma r = res_gammaInjSPS r" unfolding rest(5) rest(6) ..
    from rest(7) show "res_LEIR_gamma r =
           (if use_gammas_ref (cfg self) then LEIR_gamma_inj_ref (ion self)
            else (mass_GeV (ion self) + E_kin_per_A_LEIR_inj (ref self) * A (ion self)) / mass_GeV (ion self))"
      unfolding st(4) .
    from rest(8) show "res_chargeBeforeStrip r = py_int (Q (ion self))" unfolding fr .
    from rest(9) show "res_atomicNumber r = py_int (Z (ion self))" unfolding fr .
    from rest(10) show "res_massNumber r = py_int (A (ion self))" unfolding fr .
    from rest(11) show "res_Linac3_current_A r = linac3_current (ion self)" unfolding fr .
    from rest(12) show "res_Linac3_pulse_length_s r = linac3_pulseLength (ion self)" unfolding fr .
    from rest(13) show "res_LEIR_injection_efficiency r = LEIR_injection_efficiency (ion self)"
      unfolding fr .
    from rest(14) show "res_LEIR_splitting r = LEIR_bunches (cfg self)" unfolding fr .
    from rest(15) show "res_LEIR_transmission r = LEIR_transmission (ion self)" unfolding fr .
    from rest(16) show "res_PS_splitting r = PS_splitting (cfg self)" unfolding fr .
    from rest(17) show "res_PS_transmission r = PS_transmission (ion self)" unfolding fr .
    from rest(18) show "res_PS_SPS_stripping_efficiency r = PS_SPS_stripping_efficiency (ion self)"
      unfolding fr .
  qed
qed


section \<open>The example object\<close>

lemma example_init_ion:
  assumes "full_ion_data (cfg self) = example_ion_data" and "\<not> use_gammas_ref (cfg self)"
  shows "\<exists>self'. init_ion self ''Pb'' = Inr self' \<and> ion_data (ion self') = Pb_column"
    and "\<exists>self'. init_ion self ''O'' = Inr self' \<and> ion_data (ion self') = O_column"
  using assms by (simp_all add: init_ion_def select_label_def example_ion_data_def Let_def)

lemma example_chain_init:
  assumes "arg_ion_type args = ''Pb''" and "arg_ion_data args = example_ion_data"
    and "arg_ion_type_ref args = ''Pb''" and "\<not> arg_use_gammas_ref args"
  shows "InjectorChain_init example_read_csv fresh_object args = Inr (example_chain args)"
proof -
  let ?s0 = "fresh_object\<lparr>cfg := (cfg fresh_object)
                     \<lparr>full_ion_data := arg_ion_data args,
                      LEIR_PS_strip := arg_LEIR_PS_strip args,
                      higher_brho_LEIR := arg_higher_brho_LEIR args,
                      use_gammas_ref := arg_use_gammas_ref args,
                      ion_energy_data := []\<rparr>\<rparr>"
  have "\<exists>self'. init_ion ?s0 ''Pb'' = Inr self' \<and> ion_data (ion self') = Pb_column"
    by (rule example_init_ion) (simp_all add: assms)
  then obtain self1 where i: "init_ion ?s0 (arg_ion_type args) = Inr self1"
    by (auto simp: assms(1))
  let ?s1 = "self1\<lparr>cfg := (cfg self1)
                          \<lparr>debug_mode := False,
                           account_for_SPS_transmission := arg_account_for_SPS_transmission args,
                           consider_PS_space_charge_limit := arg_consider_PS_space_charge_limit args,
                           nPulsesLEIR := arg_nPulsesLEIR args,
                           LEIR_bunches := arg_LEIR_bunches args,
                           PS_splitting := arg_PS_splitting args,
                           ion_type_ref := arg_ion_type_ref args\<rparr>\<rparr>"
  have t: "SPS_transmission (ion ?s1) = 62 / 100" using init_ion_rules(7) [OF i] by simp
  have "\<exists>self2. ion0_referenceValues ?s1 = Inr self2"
    unfolding ion0_referenceValues_def Let_def t by (simp add: assms(3))
  then obtain self2 where r: "ion0_referenceValues ?s1 = Inr self2" by blast
  have "\<exists>self. InjectorChain_init example_read_csv fresh_object args = Inr self"
    unfolding InjectorChain_init_def Let_def example_read_csv_def
    by (simp only: option.case i sum.case r) blast
  then show ?thesis by (auto simp: example_chain_def)
qed

lemma example_chain_ion:
  assumes "arg_ion_type args = ''Pb''" and "arg_ion_data args = example_ion_data"
    and "arg_ion_type_ref args = ''Pb''" and "\<not> arg_use_gammas_ref args"
  shows "mass_GeV (ion (example_chain args)) = 193687 / 1000"
    and "Z (ion (example_chain args)) = 82"
    and "A (ion (example_chain args)) = 208"
    and "Q (ion (example_chain args)) = 54"
    and "linac3_current (ion (example_chain args)) = 20 * (1 / 10 ^ 6)"
    and "linac3_pulseLength (ion (example_chain args)) = 200 * (1 / 10 ^ 6)"
    and "LEIR_PS_stripping_efficiency (ion (example_chain args)) = 1"
proof -
  note init = example_chain_init [OF assms]
  from init obtain energies self1 self2 where
    i: "init_ion (fresh_object\<lparr>cfg := (cfg fresh_object)
                     \<lparr>full_ion_data := arg_ion_data args,
                      LEIR_PS_strip := arg_LEIR_PS_strip args,
                      higher_brho_LEIR := arg_higher_brho_LEIR args,
                      use_gammas_ref := arg_use_gammas_ref args,
                      ion_energy_data := energies\<rparr>\<rparr>) (arg_ion_type args) = Inr self1"
    and r: "ion0_referenceValues
                       (self1\<lparr>cfg := (cfg self1)
                          \<lparr>debug_mode := False,
                           account_for_SPS_transmission := arg_account_for_SPS_transmission args,
                           consider_PS_space_charge_limit := arg_consider_PS_space_charge_limit args,
                           nPulsesLEIR := arg_nPulsesLEIR args,
                           LEIR_bunches := arg_LEIR_bunches args,
                           PS_splitting := arg_PS_splitting args,
                           ion_type_ref := arg_ion_type_ref args\<rparr>\<rparr>) = Inr self2"
    and s: "example_chain args = self2\<lparr>cfg := (cfg self2)
                           \<lparr>save_path := ''../output'',
                            use_Roderiks_gamma := (\<not> arg_use_gammas_ref args)\<rparr>\<rparr>"
    by (rule InjectorChain_init_parts)
  from init_ion_column [OF i] obtain col where
    c: "select_label example_ion_data ''Pb'' = Inr col"
    and f: "mass_GeV (ion self1) = col_mass_GeV col" "Z (ion self1) = col_Z col"
      "A (ion self1) = col_A col" "Q (ion self1) = col_Q_before_stripping col"
      "linac3_current (ion self1) = col_Linac3_current_uA col * (1 / 10 ^ 6)"
      "linac3_pulseLength (ion self1) = col_Linac3_pulse_length_us col * (1 / 10 ^ 6)"
      "LEIR_PS_stripping_efficiency (ion self1) = col_LEIR_PS_Stripping_Efficiency col"
    by (auto simp: assms)
  from c have col: "col = Pb_column" by (simp add: select_label_def example_ion_data_def)
  note i2 = ion0_referenceValues_frame(3) [OF r]
  show "mass_GeV (ion (example_chain args)) = 193687 / 1000"
    and "Z (ion (example_chain args)) = 82"
    and "A (ion (example_chain args)) = 208"
    and "Q (ion (example_chain args)) = 54"
    and "linac3_current (ion (example_chain args)) = 20 * (1 / 10 ^ 6)"
    and "linac3_pulseLength (ion (example_chain args)) = 200 * (1 / 10 ^ 6)"
    and "LEIR_PS_stripping_efficiency (ion (example_chain args)) = 1"
    by (simp_all add: s i2 f col Pb_column_def)
qed

lemma example_chain_well_formed:
  assumes "arg_ion_type args = ''Pb''" and "arg_ion_data args = example_ion_data"
    and "arg_ion_type_ref args = ''Pb''" and "\<not> arg_use_gammas_ref args"
  shows "reachable (example_chain args)" and "ion_well_formed (example_chain args)"
    and "0 \<le> arg_nPulsesLEIR args \<Longrightarrow> 0 < arg_LEIR_bunches args \<Longrightarrow> 0 < arg_PS_splitting args
         \<Longrightarrow> counts_well_formed (example_chain args)"
proof -
  note init = example_chain_init [OF assms]
  note st = InjectorChain_init_settings [OF init]
  note io = example_chain_ion [OF assms]
  show "reachable (example_chain args)" by (rule reach_init [OF init])
  show "ion_well_formed (example_chain args)"
    by (simp add: ion_well_formed_def io st assms)
  show "0 \<le> arg_nPulsesLEIR args \<Longrightarrow> 0 < arg_LEIR_bunches args \<Longrightarrow> 0 < arg_PS_splitting args
         \<Longrightarrow> counts_well_formed (example_chain args)"
    by (simp add: counts_well_formed_def io st)
qed


section \<open>The limits of the example object\<close>

text \<open>
  Lead is the reference ion: with its own mass and gammas the limits of LEIR and the PS
  are the reference intensities times the square of the ratio of the charges, and the
  gamma of equal rigidity at SPS injection is the reference gamma when lead enters
  the SPS with its charge 54.
\<close>

lemma example_chain_limit_LEIR:
  assumes "arg_ion_type args = ''Pb''" and "arg_ion_data args = example_ion_data"
    and "arg_ion_type_ref args = ''Pb''" and "\<not> arg_use_gammas_ref args"
  shows "linearIntensityLimit (example_chain args) (mass_GeV (ion (example_chain args)))
           (if use_gammas_ref (cfg (example_chain args)) then LEIR_gamma_extr_ref (ion (example_chain args))
            else (mass_GeV (ion (example_chain args))
                    + E_kin_per_A_LEIR_extr (ref (example_chain args)) * A (ion (example_chain args)))
                 / mass_GeV (ion (example_chain args)))
           (Nb0_LEIR_extr (ref (example_chain args))) (Q0_LEIR (ref (example_chain args)))
           (m0_GeV (ref (example_chain args))) (gamma0_LEIR_extr (ref (example_chain args))) False
         = Inr (10 * 10 ^ 10 / 54)"
proof -
  let ?c = "example_chain args"
  note init = example_chain_init [OF assms]
  note st = InjectorChain_init_settings [OF init]
  note io = example_chain_ion [OF assms]
  note inv = reachable_inv [OF reach_init [OF init]]
  note rf = chain_inv_reference [OF inv]
  from inv have rp: "reference_is_Pb ?c" by (simp add: chain_inv_def)
  have u: "use_gammas_ref (cfg ?c) = False" using st(3) assms(4) by simp
  have g: "(mass_GeV (ion ?c) + E_kin_per_A_LEIR_extr (ref ?c) * A (ion ?c)) / mass_GeV (ion ?c)
             = gamma0_LEIR_extr (ref ?c)"
    using rp by (simp add: reference_is_Pb_def io)
  have m: "mass_GeV (ion ?c) = m0_GeV (ref ?c)" using rf(1) io(1) by simp
  have m0: "m0_GeV (ref ?c) \<noteq> 0" using rf(1) by simp
  have q: "(if False then Z (ion ?c) else Q (ion ?c)) \<noteq> 0" using io(4) by simp
  have v: "Nb0_LEIR_extr (ref ?c) * (Q0_LEIR (ref ?c) / (if False then Z (ion ?c) else Q (ion ?c))) ^ 2
             = 10 * 10 ^ 10 / 54"
    using rp by (simp add: reference_is_Pb_def io)
  show ?thesis
    apply (simp only: u if_False g)
    apply (simp only: m)
    apply (simp only: linearIntensityLimit_reference [OF rf(2) m0 q] v)
    done
qed

lemma example_chain_limit_PS:
  assumes "arg_ion_type args = ''Pb''" and "arg_ion_data args = example_ion_data"
    and "arg_ion_type_ref args = ''Pb''" and "\<not> arg_use_gammas_ref args"
  shows "linearIntensityLimit (example_chain args) (mass_GeV (ion (example_chain args)))
           (if use_gammas_ref (cfg (example_chain args)) then PS_gamma_inj_ref (ion (example_chain args))
            else (mass_GeV (ion (example_chain args))
                    + E_kin_per_A_PS_inj (ref (example_chain args)) * A (ion (example_chain args)))
                 / mass_GeV (ion (example_chain args)))
           (Nb0_PS_extr (ref (example_chain args))) (Q0_PS (ref (example_chain args)))
           (m0_GeV (ref (example_chain args))) (gamma0_PS_inj (ref (example_chain args)))
           (LEIR_PS_strip (cfg (example_chain args)))
         = Inr (6 * 10 ^ 10 / 54 * (54 / (if arg_LEIR_PS_strip args then 82 else 54)) ^ 2)"
proof -
  let ?c = "example_chain args"
  note init = example_chain_init [OF assms]
  note st = InjectorChain_init_settings [OF init]
  note io = example_chain_ion [OF assms]
  note inv = reachable_inv [OF reach_init [OF init]]
  note rf = chain_inv_reference [OF inv]
  from inv have rp: "reference_is_Pb ?c" by (simp add: chain_inv_def)
  have u: "use_gammas_ref (cfg ?c) = False" using st(3) assms(4) by simp
  have g: "(mass_GeV (ion ?c) + E_kin_per_A_PS_inj (ref ?c) * A (ion ?c)) / mass_GeV (ion ?c)
             = gamma0_PS_inj (ref ?c)"
    using rp by (simp add: reference_is_Pb_def io)
  have m: "mass_GeV (ion ?c) = m0_GeV (ref ?c)" using rf(1) io(1) by simp
  have m0: "m0_GeV (ref ?c) \<noteq> 0" using rf(1) by simp
  have q: "(if LEIR_PS_strip (cfg ?c) then Z (ion ?c) else Q (ion ?c)) \<noteq> 0"
    using io(2) io(4) by simp
  have v: "Nb0_PS_extr (ref ?c) * (Q0_PS (ref ?c) / (if LEIR_PS_strip (cfg ?c) then Z (ion ?c) else Q (ion ?c))) ^ 2
             = 6 * 10 ^ 10 / 54 * (54 / (if arg_LEIR_PS_strip args then 82 else 54)) ^ 2"
    using rp by (simp add: reference_is_Pb_def io st(2))
  show ?thesis
    apply (simp only: u if_False g)
    apply (simp only: m)
    apply (simp only: linearIntensityLimit_reference [OF rf(3) m0 q] v)
    done
qed

lemma example_chain_limit_SPS:
  assumes "arg_ion_type args = ''Pb''" and "arg_ion_data args = example_ion_data"
    and "arg_ion_type_ref args = ''Pb''" and "\<not> arg_use_gammas_ref args"
    and "\<not> arg_LEIR_PS_strip args"
  shows "linearIntensityLimit (example_chain args) (mass_GeV (ion (example_chain args)))
           (if use_gammas_ref (cfg (example_chain args)) then SPS_gamma_inj_ref (ion (example_chain args))
            else if use_Roderiks_gamma (cfg (example_chain args))
            then sqrt (1 + (((if LEIR_PS_strip (cfg (example_chain args))
                              then Z (ion (example_chain args)) else Q (ion (example_chain args))) / 54)
                               / (mass_GeV (ion (example_chain args)) / m0_GeV (ref (example_chain args)))) ^ 2
                            * ((gamma0_SPS_inj (ref (example_chain args))) ^ 2 - 1))
            else (mass_GeV (ion (example_chain args))
                    + E_kin_per_A_SPS_inj (ref (example_chain args)) * A (ion (example_chain args)))
                 / mass_GeV (ion (example_chain args)))
           (Nb0_SPS_extr (ref (example_chain args))) (Q0_SPS (ref (example_chain args)))
           (m0_GeV (ref (example_chain args))) (gamma0_SPS_inj (ref (example_chain args))) True
         = Inr (221 * 10 ^ 6 / (if arg_account_for_SPS_transmission args then 62 / 100 else 1))"
proof -
  let ?c = "example_chain args"
  note init = example_chain_init [OF assms(1-4)]
  note st = InjectorChain_init_settings [OF init]
  note io = example_chain_ion [OF assms(1-4)]
  note inv = reachable_inv [OF reach_init [OF init]]
  note rf = chain_inv_reference [OF inv]
  from inv have rp: "reference_is_Pb ?c" by (simp add: chain_inv_def)
  have u: "use_gammas_ref (cfg ?c) = False" using st(3) assms(4) by simp
  have r: "use_Roderiks_gamma (cfg ?c) = True" using st(10) assms(4) by simp
  have s: "LEIR_PS_strip (cfg ?c) = False" using st(2) assms(5) by simp
  have m: "mass_GeV (ion ?c) = m0_GeV (ref ?c)" using rf(1) io(1) by simp
  have m0: "m0_GeV (ref ?c) \<noteq> 0" using rf(1) by simp
  have "sqrt (1 + ((Q (ion ?c) / 54) / (m0_GeV (ref ?c) / m0_GeV (ref ?c))) ^ 2
                 * ((gamma0_SPS_inj (ref ?c)) ^ 2 - 1)) = sqrt ((gamma0_SPS_inj (ref ?c)) ^ 2)"
    using m0 by (simp add: io(4))
  also have "\<dots> = gamma0_SPS_inj (ref ?c)" using rf(5) by simp
  finally have g: "sqrt (1 + ((Q (ion ?c) / 54) / (m0_GeV (ref ?c) / m0_GeV (ref ?c))) ^ 2
                 * ((gamma0_SPS_inj (ref ?c)) ^ 2 - 1)) = gamma0_SPS_inj (ref ?c)" .
  have q: "(if True then Z (ion ?c) else Q (ion ?c)) \<noteq> 0" using io(2) by simp
  have v: "Nb0_SPS_extr (ref ?c) * (Q0_SPS (ref ?c) / (if True then Z (ion ?c) else Q (ion ?c))) ^ 2
             = 221 * 10 ^ 6 / (if arg_account_for_SPS_transmission args then 62 / 100 else 1)"
    using rp by (simp add: reference_is_Pb_def io st(4))
  show ?thesis
    apply (simp only: u r s if_False if_True)
    apply (simp only: m)
    apply (simp only: g)
    apply (simp only: linearIntensityLimit_reference [OF rf(5) m0 q] v)
    done
qed

text \<open>
  The chain of the example: one pulse of lead from Linac3, one bunch, no splitting. The
  injected intensity stays below every space charge limit.
\<close>

lemma lead_chain_arith:
  fixes tot extrL extrPS slP c :: real
  assumes "ipp = (20 * (1 / 10 ^ 6) * (200 * (1 / 10 ^ 6))) / (54 * e)"
    and "tot = ipp * of_int 1 * (5 / 10)"
    and "extrL = 8 / 10 * min tot (10 * 10 ^ 10 / 54) / of_int 1"
    and "extrPS = extrL * 1 * (9 / 10) / of_int 1"
    and "slP = 6 * 10 ^ 10 / 54 * (54 / c) ^ 2" and "c = 54 \<or> c = 82"
  shows "tot = ipp * (5 / 10)" and "extrL = ipp * (5 / 10) * (8 / 10)"
    and "extrPS = ipp * (5 / 10) * (8 / 10) * (9 / 10)"
    and "min slP extrPS = extrPS"
    and "min (221 * 10 ^ 6 / (62 / 100)) (extrPS * (9 / 10)) = extrPS * (9 / 10)"
    and "0 < ipp"
proof -
  note v = assms(1) e_def
  show p: "0 < ipp" unfolding v by simp
  show t: "tot = ipp * (5 / 10)" unfolding assms(2) by simp
  have "tot \<le> 10 * 10 ^ 10 / 54" unfolding t v by simp
  then have "min tot (10 * 10 ^ 10 / 54) = tot" by simp
  then show l: "extrL = ipp * (5 / 10) * (8 / 10)" unfolding assms(3) t by simp
  show x: "extrPS = ipp * (5 / 10) * (8 / 10) * (9 / 10)" unfolding assms(4) l by simp
  have "extrPS \<le> 6 * 10 ^ 10 / 54 * (54 / 82) ^ 2" unfolding x v by (simp add: power2_eq_square)
  moreover have "extrPS \<le> 6 * 10 ^ 10 / 54 * (54 / 54) ^ 2" unfolding x v by simp
  ultimately have "extrPS \<le> slP" using assms(6) unfolding assms(5) by blast
  then show "min slP extrPS = extrPS" by simp
  have "extrPS * (9 / 10) \<le> 221 * 10 ^ 6 / (62 / 100)" unfolding x v by simp
  then show "min (221 * 10 ^ 6 / (62 / 100)) (extrPS * (9 / 10)) = extrPS * (9 / 10)" by simp
qed

text \<open>
  The values of the chain of the example, from the equations between the fields of its
  result.
\<close>

lemma example_chain_fields:
  assumes a: "arg_ion_type args = ''Pb''" "arg_ion_data args = example_ion_data"
    "arg_ion_type_ref args = ''Pb''" "\<not> arg_use_gammas_ref args"
    and k: "arg_nPulsesLEIR args = 1" "arg_LEIR_bunches args = 1" "arg_PS_splitting args = 1"
      "arg_consider_PS_space_charge_limit args"
    and l1: "linearIntensityLimit (example_chain args) (mass_GeV (ion (example_chain args)))
           (if use_gammas_ref (cfg (example_chain args)) then LEIR_gamma_extr_ref (ion (example_chain args))
            else (mass_GeV (ion (example_chain args))
                    + E_kin_per_A_LEIR_extr (ref (example_chain args)) * A (ion (example_chain args)))
                 / mass_GeV (ion (example_chain args)))
           (Nb0_LEIR_extr (ref (example_chain args))) (Q0_LEIR (ref (example_chain args)))
           (m0_GeV (ref (example_chain args))) (gamma0_LEIR_extr (ref (example_chain args))) False
         = Inr sl"
    and l2: "linearIntensityLimit (example_chain args) (mass_GeV (ion (example_chain args)))
           (if use_gammas_ref (cfg (example_chain args)) then PS_gamma_inj_ref (ion (example_chain args))
            else (mass_GeV (ion (example_chain args))
                    + E_kin_per_A_PS_inj (ref (example_chain args)) * A (ion (example_chain args)))
                 / mass_GeV (ion (example_chain args)))
           (Nb0_PS_extr (ref (example_chain args))) (Q0_PS (ref (example_chain args)))
           (m0_GeV (ref (example_chain args))) (gamma0_PS_inj (ref (example_chain args)))
           (LEIR_PS_strip (cfg (example_chain args)))
         = Inr sp"
    and ipp: "res_Linac3_ionsPerPulse r =
           (linac3_current (ion (example_chain args)) * linac3_pulseLength (ion (example_chain args)))
             / (Q (ion (example_chain args)) * e)"
    and n: "res_LEIR_numberofPulses r =
           (if nPulsesLEIR (cfg (example_chain args)) = 0
            then min 7 \<lceil>sl / (res_Linac3_ionsPerPulse r
                                 * LEIR_injection_efficiency (ion (example_chain args)))\<rceil>
            else nPulsesLEIR (cfg (example_chain args)))"
    and tot: "res_LEIR_maxIntensity r =
           res_Linac3_ionsPerPulse r * of_int (res_LEIR_numberofPulses r)
             * LEIR_injection_efficiency (ion (example_chain args))"
    and el: "res_LEIR_extractedIonPerBunch r =
           LEIR_transmission (ion (example_chain args)) * min (res_LEIR_maxIntensity r) sl
             / of_int (LEIR_bunches (cfg (example_chain args)))"
    and ep: "res_PS_ionsExtractedPerBunch r =
           res_LEIR_extractedIonPerBunch r
             * (if LEIR_PS_strip (cfg (example_chain args))
                then LEIR_PS_stripping_efficiency (ion (example_chain args)) else 1)
             * PS_transmission (ion (example_chain args)) / of_int (PS_splitting (cfg (example_chain args)))"
    and inj: "res_SPS_maxIntensityPerBunch r =
           (if consider_PS_space_charge_limit (cfg (example_chain args))
            then min sp (res_PS_ionsExtractedPerBunch r)
            else res_PS_ionsExtractedPerBunch r)
             * (if Z (ion (example_chain args)) = Q (ion (example_chain args))
                   \<or> LEIR_PS_strip (cfg (example_chain args))
                then PS_SPS_transmission_efficiency (ion (example_chain args))
                else PS_SPS_stripping_efficiency (ion (example_chain args)))"
  shows "sl = 10 * 10 ^ 10 / 54"
    and "sp = 6 * 10 ^ 10 / 54 * (54 / (if arg_LEIR_PS_strip args then 82 else 54)) ^ 2"
    and "res_Linac3_ionsPerPulse r = (20 * (1 / 10 ^ 6) * (200 * (1 / 10 ^ 6))) / (54 * e)"
    and "res_LEIR_numberofPulses r = 1"
    and "res_LEIR_maxIntensity r = (20 * (1 / 10 ^ 6) * (200 * (1 / 10 ^ 6))) / (54 * e) * (5 / 10)"
    and "res_LEIR_extractedIonPerBunch r
           = (20 * (1 / 10 ^ 6) * (200 * (1 / 10 ^ 6))) / (54 * e) * (5 / 10) * (8 / 10)"
    and "res_PS_ionsExtractedPerBunch r
           = (20 * (1 / 10 ^ 6) * (200 * (1 / 10 ^ 6))) / (54 * e) * (5 / 10) * (8 / 10) * (9 / 10)"
    and "res_SPS_maxIntensityPerBunch r
           = (20 * (1 / 10 ^ 6) * (200 * (1 / 10 ^ 6))) / (54 * e) * (5 / 10) * (8 / 10) * (9 / 10)
               * (if arg_LEIR_PS_strip args then 1 else 9 / 10)"
    and "min (221 * 10 ^ 6 / (62 / 100)) (res_PS_ionsExtractedPerBunch r * (9 / 10))
           = res_PS_ionsExtractedPerBunch r * (9 / 10)"
proof -
  let ?c = "example_chain args"
  note init = example_chain_init [OF a]
  note st = InjectorChain_init_settings [OF init]
  note io = example_chain_ion [OF a]
  note ru = chain_inv_rules [OF reachable_inv [OF reach_init [OF init]]]
  from l1 show sl: "sl = 10 * 10 ^ 10 / 54" unfolding example_chain_limit_LEIR [OF a] by simp
  from l2 show sp: "sp = 6 * 10 ^ 10 / 54 * (54 / (if arg_LEIR_PS_strip args then 82 else 54)) ^ 2"
    unfolding example_chain_limit_PS [OF a] by simp
  show i: "res_Linac3_ionsPerPulse r = (20 * (1 / 10 ^ 6) * (200 * (1 / 10 ^ 6))) / (54 * e)"
    unfolding ipp io ..
  have np: "nPulsesLEIR (cfg ?c) = 1" unfolding st(6) by (rule k(1))
  show n1: "res_LEIR_numberofPulses r = 1" unfolding n np by simp
  have b: "LEIR_bunches (cfg ?c) = 1" unfolding st(7) by (rule k(2))
  have s: "PS_splitting (cfg ?c) = 1" unfolding st(8) by (rule k(3))
  have cs: "consider_PS_space_charge_limit (cfg ?c) = True" unfolding st(5) using k(4) by simp
  have zq: "(Z (ion ?c) = Q (ion ?c)) = False" unfolding io by simp
  have t1: "res_LEIR_maxIntensity r = res_Linac3_ionsPerPulse r * of_int 1 * (5 / 10)"
    unfolding tot n1 ru(1) ..
  have e1: "res_LEIR_extractedIonPerBunch r
              = 8 / 10 * min (res_LEIR_maxIntensity r) (10 * 10 ^ 10 / 54) / of_int 1"
    unfolding el ru(2) sl b ..
  have "(if LEIR_PS_strip (cfg ?c) then LEIR_PS_stripping_efficiency (ion ?c) else 1) = 1"
    by (simp add: io(7))
  then have p1: "res_PS_ionsExtractedPerBunch r
              = res_LEIR_extractedIonPerBunch r * 1 * (9 / 10) / of_int 1"
    unfolding ep ru(3) s by (simp only:)
  have sp': "sp = 6 * 10 ^ 10 / 54 * (54 / (if arg_LEIR_PS_strip args then 82 else 54 :: real)) ^ 2"
    by (rule sp)
  have c: "(if arg_LEIR_PS_strip args then 82 else 54 :: real) = 54
         \<or> (if arg_LEIR_PS_strip args then 82 else 54 :: real) = 82" by simp
  note ar = lead_chain_arith [OF i t1 e1 p1 sp' c]
  show "res_LEIR_maxIntensity r = (20 * (1 / 10 ^ 6) * (200 * (1 / 10 ^ 6))) / (54 * e) * (5 / 10)"
    using ar(1) unfolding i .
  show "res_LEIR_extractedIonPerBunch r
           = (20 * (1 / 10 ^ 6) * (200 * (1 / 10 ^ 6))) / (54 * e) * (5 / 10) * (8 / 10)"
    using ar(2) unfolding i .
  show x: "res_PS_ionsExtractedPerBunch r
           = (20 * (1 / 10 ^ 6) * (200 * (1 / 10 ^ 6))) / (54 * e) * (5 / 10) * (8 / 10) * (9 / 10)"
    using ar(3) unfolding i .
  have "res_SPS_maxIntensityPerBunch r
          = res_PS_ionsExtractedPerBunch r * (if arg_LEIR_PS_strip args then 1 else 9 / 10)"
    unfolding inj cs zq st(2) ru(4) ru(5) by (simp only: if_True ar(4) simp_thms)
  then show "res_SPS_maxIntensityPerBunch r
           = (20 * (1 / 10 ^ 6) * (200 * (1 / 10 ^ 6))) / (54 * e) * (5 / 10) * (8 / 10) * (9 / 10)
               * (if arg_LEIR_PS_strip args then 1 else 9 / 10)"
    unfolding x .
  show "min (221 * 10 ^ 6 / (62 / 100)) (res_PS_ionsExtractedPerBunch r * (9 / 10))
           = res_PS_ionsExtractedPerBunch r * (9 / 10)"
    by (rule ar(5))
qed

text \<open>
  The same chain with the pulse count \<open>-1\<close>: every intensity of the chain is negative
  and below every space charge limit.
\<close>

lemma lead_chain_arith_neg:
  fixes tot extrL extrPS slP :: real
  assumes "ipp = (20 * (1 / 10 ^ 6) * (200 * (1 / 10 ^ 6))) / (54 * e)"
    and "tot = ipp * of_int (- 1) * (5 / 10)"
    and "extrL = 8 / 10 * min tot (10 * 10 ^ 10 / 54) / of_int 1"
    and "extrPS = extrL * 1 * (9 / 10) / of_int 1"
    and "slP = 6 * 10 ^ 10 / 54 * (54 / 54) ^ 2"
  shows "tot = - (ipp * (5 / 10))" and "extrL = - (ipp * (5 / 10) * (8 / 10))"
    and "extrPS = - (ipp * (5 / 10) * (8 / 10) * (9 / 10))"
    and "min slP extrPS = extrPS"
    and "min (221 * 10 ^ 6 / (62 / 100)) (extrPS * (9 / 10)) = extrPS * (9 / 10)"
    and "extrPS * (9 / 10) < extrPS * (9 / 10) * (62 / 100) * 1"
    and "tot < extrL"
proof -
  have p: "0 < ipp" unfolding assms(1) e_def by simp
  show t: "tot = - (ipp * (5 / 10))" unfolding assms(2) by simp
  have "tot \<le> 10 * 10 ^ 10 / 54" unfolding t using p by simp
  then have "min tot (10 * 10 ^ 10 / 54) = tot" by simp
  then show l: "extrL = - (ipp * (5 / 10) * (8 / 10))" unfolding assms(3) t by simp
  show x: "extrPS = - (ipp * (5 / 10) * (8 / 10) * (9 / 10))" unfolding assms(4) l by simp
  have "extrPS \<le> slP" unfolding x assms(5) using p by simp
  then show "min slP extrPS = extrPS" by simp
  have "extrPS * (9 / 10) \<le> 221 * 10 ^ 6 / (62 / 100)" unfolding x using p by simp
  then show "min (221 * 10 ^ 6 / (62 / 100)) (extrPS * (9 / 10)) = extrPS * (9 / 10)" by simp
  show "extrPS * (9 / 10) < extrPS * (9 / 10) * (62 / 100) * 1" unfolding x using p by simp
  show "tot < extrL" unfolding t l using p by simp
qed


section \<open>The claims about the chain\<close>


text \<open>
  C10. The space charge limits that \<open>calculate_LHC_bunch_intensity\<close> computes for
  LEIR and the SPS are the extracted intensities that \<open>leir\<close> and \<open>sps\<close> assigned in the
  run of the stages just before: the result's \<open>LEIR_space_charge_limit\<close> is
  \<open>Nb_LEIR_extr\<close> and its \<open>SPS_spaceChargeLimit\<close> is \<open>Nb_SPS_extr\<close> of the object the
  stages left. For a well-formed ion and well-formed counts the calculation returns.
\<close>

theorem space_charge_limits_are_stage_intensities:
  "(\<forall>r self'. calculate_LHC_bunch_intensity self = Inr (r, self') \<longrightarrow>
      simulate_injection_SpaceCharge_limit self = Inr self' \<and>
      res_LEIR_space_charge_limit r = Nb_LEIR_extr (stage self') \<and>
      res_SPS_spaceChargeLimit r = Nb_SPS_extr (stage self')) \<and>
   (reachable self \<and> ion_well_formed self \<and> counts_well_formed self \<longrightarrow>
      (\<exists>r self'. calculate_LHC_bunch_intensity self = Inr (r, self')))"
proof (intro conjI allI impI)
  fix r self'
  assume calc: "calculate_LHC_bunch_intensity self = Inr (r, self')"
  note fr = calculate_frame [OF calc]
  show "simulate_injection_SpaceCharge_limit self = Inr self'" by (rule fr(1))
  note st = simulate_stage [OF fr(1)]
  have c: "linearIntensityLimit self' = linearIntensityLimit self"
    by (simp add: fun_eq_iff linearIntensityLimit_def fr)
  from calc obtain sl ss where
    l1: "linearIntensityLimit self' (mass_GeV (ion self')) (gamma_LEIR_extr (stage self'))
           (Nb0_LEIR_extr (ref self')) (Q0_LEIR (ref self')) (m0_GeV (ref self'))
           (gamma0_LEIR_extr (ref self')) False = Inr sl"
    and l3: "linearIntensityLimit self' (mass_GeV (ion self')) (gamma_SPS_inj (stage self'))
           (Nb0_SPS_extr (ref self')) (Q0_SPS (ref self')) (m0_GeV (ref self'))
           (gamma0_SPS_inj (ref self')) True = Inr ss"
    and f: "res_LEIR_space_charge_limit r = sl" "res_SPS_spaceChargeLimit r = ss"
    by (rule calculate_parts)
  from l1 st(1) show "res_LEIR_space_charge_limit r = Nb_LEIR_extr (stage self')"
    by (simp add: c fr f)
  from l3 st(2) show "res_SPS_spaceChargeLimit r = Nb_SPS_extr (stage self')"
    by (simp add: c fr f)
next
  assume "reachable self \<and> ion_well_formed self \<and> counts_well_formed self"
  then show "\<exists>r self'. calculate_LHC_bunch_intensity self = Inr (r, self')"
    using calculate_total [OF reachable_inv] by blast
qed

theorem space_charge_limits_are_stage_intensities_witness:
  "reachable (example_chain example_args) \<and> ion_well_formed (example_chain example_args) \<and>
   counts_well_formed (example_chain example_args) \<and>
   (\<exists>r self'. calculate_LHC_bunch_intensity (example_chain example_args) = Inr (r, self') \<and>
      simulate_injection_SpaceCharge_limit (example_chain example_args) = Inr self' \<and>
      res_LEIR_space_charge_limit r = Nb_LEIR_extr (stage self') \<and>
      res_SPS_spaceChargeLimit r = Nb_SPS_extr (stage self'))"
proof -
  have a: "arg_ion_type example_args = ''Pb''" "arg_ion_data example_args = example_ion_data"
    "arg_ion_type_ref example_args = ''Pb''" "\<not> arg_use_gammas_ref example_args"
    by (simp_all add: example_args_def)
  have w: "reachable (example_chain example_args)" "ion_well_formed (example_chain example_args)"
    "counts_well_formed (example_chain example_args)"
    using example_chain_well_formed [OF a] by (simp_all add: example_args_def)
  with space_charge_limits_are_stage_intensities [of "example_chain example_args"]
  show ?thesis by blast
qed


text \<open>
  C5. The number of LEIR pulses in the result. The ions per pulse of Linac3 are
  \<open>linac3_current * linac3_pulseLength / (Q * e)\<close> of the ion, and the space charge
  limit of LEIR is \<open>linearIntensityLimit\<close> of the ion at the gamma of LEIR extraction
  (the loaded one with \<open>use_gammas_ref\<close>, \<open>(mass_GeV + E_kin_per_A_LEIR_extr * A) /
  mass_GeV\<close> otherwise) against the reference values. With the configured pulse count
  \<open>nPulsesLEIR\<close> at 0 the number of pulses is \<open>min(7, ceil(spaceChargeLimitLEIR /
  (ionsPerPulseLinac3 * LEIR_injection_efficiency)))\<close>, so at most 7; with any other
  configured count it is that count. It is the number that the total intensity of
  LEIR is computed with. For a well-formed ion and well-formed counts the calculation
  returns.
\<close>

theorem LEIR_number_of_pulses:
  "(\<forall>r self'. calculate_LHC_bunch_intensity self = Inr (r, self') \<longrightarrow>
      (\<exists>spaceChargeLimitLEIR.
         linearIntensityLimit self (mass_GeV (ion self))
           (if use_gammas_ref (cfg self) then LEIR_gamma_extr_ref (ion self)
            else (mass_GeV (ion self) + E_kin_per_A_LEIR_extr (ref self) * A (ion self)) / mass_GeV (ion self))
           (Nb0_LEIR_extr (ref self)) (Q0_LEIR (ref self)) (m0_GeV (ref self))
           (gamma0_LEIR_extr (ref self)) False = Inr spaceChargeLimitLEIR \<and>
         res_LEIR_space_charge_limit r = spaceChargeLimitLEIR \<and>
         res_Linac3_ionsPerPulse r =
           (linac3_current (ion self) * linac3_pulseLength (ion self)) / (Q (ion self) * e) \<and>
         res_LEIR_injection_efficiency r = LEIR_injection_efficiency (ion self) \<and>
         res_LEIR_numberofPulses r =
           (if nPulsesLEIR (cfg self) = 0
            then min 7 \<lceil>spaceChargeLimitLEIR
                         / ((linac3_current (ion self) * linac3_pulseLength (ion self)) / (Q (ion self) * e)
                            * LEIR_injection_efficiency (ion self))\<rceil>
            else nPulsesLEIR (cfg self)) \<and>
         res_LEIR_maxIntensity r =
           res_Linac3_ionsPerPulse r * of_int (res_LEIR_numberofPulses r)
             * LEIR_injection_efficiency (ion self) \<and>
         (nPulsesLEIR (cfg self) = 0 \<longrightarrow> res_LEIR_numberofPulses r \<le> 7))) \<and>
   (reachable self \<and> ion_well_formed self \<and> counts_well_formed self \<longrightarrow>
      (\<exists>r self'. calculate_LHC_bunch_intensity self = Inr (r, self')))"
proof (intro conjI allI impI)
  fix r self'
  assume calc: "calculate_LHC_bunch_intensity self = Inr (r, self')"
  from calc obtain sl where
    l: "linearIntensityLimit self (mass_GeV (ion self))
           (if use_gammas_ref (cfg self) then LEIR_gamma_extr_ref (ion self)
            else (mass_GeV (ion self) + E_kin_per_A_LEIR_extr (ref self) * A (ion self)) / mass_GeV (ion self))
           (Nb0_LEIR_extr (ref self)) (Q0_LEIR (ref self)) (m0_GeV (ref self))
           (gamma0_LEIR_extr (ref self)) False = Inr sl"
    and f: "res_LEIR_space_charge_limit r = sl"
    and ipp: "res_Linac3_ionsPerPulse r =
           (linac3_current (ion self) * linac3_pulseLength (ion self)) / (Q (ion self) * e)"
    and eff: "res_LEIR_injection_efficiency r = LEIR_injection_efficiency (ion self)"
    and n: "res_LEIR_numberofPulses r =
           (if nPulsesLEIR (cfg self) = 0
            then min 7 \<lceil>sl / ((linac3_current (ion self) * linac3_pulseLength (ion self)) / (Q (ion self) * e)
                                 * LEIR_injection_efficiency (ion self))\<rceil>
            else nPulsesLEIR (cfg self))"
    and tot: "res_LEIR_maxIntensity r =
           res_Linac3_ionsPerPulse r * of_int (res_LEIR_numberofPulses r) * LEIR_injection_efficiency (ion self)"
    by (rule calculate_input)
  have le: "nPulsesLEIR (cfg self) = 0 \<longrightarrow> res_LEIR_numberofPulses r \<le> 7"
    unfolding n by simp
  from l f ipp eff n tot le
  show "\<exists>spaceChargeLimitLEIR.
         linearIntensityLimit self (mass_GeV (ion self))
           (if use_gammas_ref (cfg self) then LEIR_gamma_extr_ref (ion self)
            else (mass_GeV (ion self) + E_kin_per_A_LEIR_extr (ref self) * A (ion self)) / mass_GeV (ion self))
           (Nb0_LEIR_extr (ref self)) (Q0_LEIR (ref self)) (m0_GeV (ref self))
           (gamma0_LEIR_extr (ref self)) False = Inr spaceChargeLimitLEIR \<and>
         res_LEIR_space_charge_limit r = spaceChargeLimitLEIR \<and>
         res_Linac3_ionsPerPulse r =
           (linac3_current (ion self) * linac3_pulseLength (ion self)) / (Q (ion self) * e) \<and>
         res_LEIR_injection_efficiency r = LEIR_injection_efficiency (ion self) \<and>
         res_LEIR_numberofPulses r =
           (if nPulsesLEIR (cfg self) = 0
            then min 7 \<lceil>spaceChargeLimitLEIR
                         / ((linac3_current (ion self) * linac3_pulseLength (ion self)) / (Q (ion self) * e)
                            * LEIR_injection_efficiency (ion self))\<rceil>
            else nPulsesLEIR (cfg self)) \<and>
         res_LEIR_maxIntensity r =
           res_Linac3_ionsPerPulse r * of_int (res_LEIR_numberofPulses r)
             * LEIR_injection_efficiency (ion self) \<and>
         (nPulsesLEIR (cfg self) = 0 \<longrightarrow> res_LEIR_numberofPulses r \<le> 7)"
    by (intro exI [of _ sl] conjI)
next
  assume "reachable self \<and> ion_well_formed self \<and> counts_well_formed self"
  then show "\<exists>r self'. calculate_LHC_bunch_intensity self = Inr (r, self')"
    using calculate_total [OF reachable_inv] by blast
qed

theorem LEIR_number_of_pulses_witness:
  "reachable (example_chain (example_args\<lparr>arg_nPulsesLEIR := 0\<rparr>)) \<and>
   ion_well_formed (example_chain (example_args\<lparr>arg_nPulsesLEIR := 0\<rparr>)) \<and>
   counts_well_formed (example_chain (example_args\<lparr>arg_nPulsesLEIR := 0\<rparr>)) \<and>
   nPulsesLEIR (cfg (example_chain (example_args\<lparr>arg_nPulsesLEIR := 0\<rparr>))) = 0 \<and>
   (\<exists>r self'. calculate_LHC_bunch_intensity (example_chain (example_args\<lparr>arg_nPulsesLEIR := 0\<rparr>))
               = Inr (r, self') \<and>
      res_LEIR_space_charge_limit r = 10 * 10 ^ 10 / 54 \<and>
      res_Linac3_ionsPerPulse r = (20 * (1 / 10 ^ 6) * (200 * (1 / 10 ^ 6))) / (54 * e) \<and>
      res_LEIR_numberofPulses r = 7 \<and>
      res_LEIR_maxIntensity r = (20 * (1 / 10 ^ 6) * (200 * (1 / 10 ^ 6))) / (54 * e) * 7 * (5 / 10)) \<and>
   reachable (example_chain example_args) \<and> ion_well_formed (example_chain example_args) \<and>
   counts_well_formed (example_chain example_args) \<and>
   nPulsesLEIR (cfg (example_chain example_args)) = 1 \<and>
   (\<exists>r self'. calculate_LHC_bunch_intensity (example_chain example_args) = Inr (r, self') \<and>
      res_LEIR_numberofPulses r = 1 \<and>
      res_LEIR_maxIntensity r = (20 * (1 / 10 ^ 6) * (200 * (1 / 10 ^ 6))) / (54 * e) * 1 * (5 / 10))"
proof -
  let ?aa = "example_args\<lparr>arg_nPulsesLEIR := 0\<rparr>"
  let ?ca = "example_chain ?aa"
  let ?c = "example_chain example_args"
  have a0: "arg_ion_type ?aa = ''Pb''" "arg_ion_data ?aa = example_ion_data"
    "arg_ion_type_ref ?aa = ''Pb''" "\<not> arg_use_gammas_ref ?aa"
    by (simp_all add: example_args_def)
  have w0: "reachable ?ca" "ion_well_formed ?ca" "counts_well_formed ?ca"
    using example_chain_well_formed [OF a0] by (simp_all add: example_args_def)
  have n0: "nPulsesLEIR (cfg ?ca) = 0"
    using InjectorChain_init_settings(6) [OF example_chain_init [OF a0]] by simp
  have a: "arg_ion_type example_args = ''Pb''" "arg_ion_data example_args = example_ion_data"
    "arg_ion_type_ref example_args = ''Pb''" "\<not> arg_use_gammas_ref example_args"
    by (simp_all add: example_args_def)
  have w: "reachable ?c" "ion_well_formed ?c" "counts_well_formed ?c"
    using example_chain_well_formed [OF a] by (simp_all add: example_args_def)
  have n1: "nPulsesLEIR (cfg ?c) = 1"
    using InjectorChain_init_settings(6) [OF example_chain_init [OF a]]
    by (simp add: example_args_def)
  note io0 = example_chain_ion [OF a0] and io = example_chain_ion [OF a]
  note ru0 = chain_inv_rules [OF reachable_inv [OF w0(1)]]
  note ru = chain_inv_rules [OF reachable_inv [OF w(1)]]
  note l0 = example_chain_limit_LEIR [OF a0]
  have six: "(6::real) < 10 * 10 ^ 10 / 54 / ((20 * (1 / 10 ^ 6) * (200 * (1 / 10 ^ 6))) / (54 * e) * (5 / 10))"
    by (simp add: e_def)
  have seven: "min 7 \<lceil>10 * 10 ^ 10 / 54 / ((20 * (1 / 10 ^ 6) * (200 * (1 / 10 ^ 6))) / (54 * e) * (5 / 10))\<rceil> = 7"
    using six less_ceiling_iff [of 6 "10 * 10 ^ 10 / 54 / ((20 * (1 / 10 ^ 6) * (200 * (1 / 10 ^ 6))) / (54 * e) * (5 / 10))"]
    by (simp only: min_def of_int_numeral) presburger
  from LEIR_number_of_pulses [of ?ca] w0 obtain r0 s0 where
    c0: "calculate_LHC_bunch_intensity ?ca = Inr (r0, s0)" by blast
  from LEIR_number_of_pulses [of ?ca] c0 obtain sl where
    l: "linearIntensityLimit ?ca (mass_GeV (ion ?ca))
           (if use_gammas_ref (cfg ?ca) then LEIR_gamma_extr_ref (ion ?ca)
            else (mass_GeV (ion ?ca) + E_kin_per_A_LEIR_extr (ref ?ca) * A (ion ?ca)) / mass_GeV (ion ?ca))
           (Nb0_LEIR_extr (ref ?ca)) (Q0_LEIR (ref ?ca)) (m0_GeV (ref ?ca))
           (gamma0_LEIR_extr (ref ?ca)) False = Inr sl"
    and f: "res_LEIR_space_charge_limit r0 = sl"
    and ipp: "res_Linac3_ionsPerPulse r0 =
           (linac3_current (ion ?ca) * linac3_pulseLength (ion ?ca)) / (Q (ion ?ca) * e)"
    and n: "res_LEIR_numberofPulses r0 =
           (if nPulsesLEIR (cfg ?ca) = 0
            then min 7 \<lceil>sl / ((linac3_current (ion ?ca) * linac3_pulseLength (ion ?ca)) / (Q (ion ?ca) * e)
                            * LEIR_injection_efficiency (ion ?ca))\<rceil>
            else nPulsesLEIR (cfg ?ca))"
    and tot: "res_LEIR_maxIntensity r0 =
           res_Linac3_ionsPerPulse r0 * of_int (res_LEIR_numberofPulses r0)
             * LEIR_injection_efficiency (ion ?ca)"
    by blast
  from l have sl: "sl = 10 * 10 ^ 10 / 54" unfolding l0 by simp
  have ipp': "res_Linac3_ionsPerPulse r0 = (20 * (1 / 10 ^ 6) * (200 * (1 / 10 ^ 6))) / (54 * e)"
    unfolding ipp io0 ..
  have n': "res_LEIR_numberofPulses r0 = 7"
    unfolding n sl io0 ru0(1) by (simp only: n0 seven, simp)
  have tot': "res_LEIR_maxIntensity r0 = (20 * (1 / 10 ^ 6) * (200 * (1 / 10 ^ 6))) / (54 * e) * 7 * (5 / 10)"
    unfolding tot ipp' n' ru0(1) by simp
  have first: "\<exists>r self'. calculate_LHC_bunch_intensity ?ca = Inr (r, self') \<and>
      res_LEIR_space_charge_limit r = 10 * 10 ^ 10 / 54 \<and>
      res_Linac3_ionsPerPulse r = (20 * (1 / 10 ^ 6) * (200 * (1 / 10 ^ 6))) / (54 * e) \<and>
      res_LEIR_numberofPulses r = 7 \<and>
      res_LEIR_maxIntensity r = (20 * (1 / 10 ^ 6) * (200 * (1 / 10 ^ 6))) / (54 * e) * 7 * (5 / 10)"
    using c0 f sl ipp' n' tot' by blast
  from LEIR_number_of_pulses [of ?c] w obtain r1 s1 where
    c1: "calculate_LHC_bunch_intensity ?c = Inr (r1, s1)" by blast
  from LEIR_number_of_pulses [of ?c] c1 have
    ipp1: "res_Linac3_ionsPerPulse r1 =
           (linac3_current (ion ?c) * linac3_pulseLength (ion ?c)) / (Q (ion ?c) * e)"
    and nn: "res_LEIR_numberofPulses r1 = (if nPulsesLEIR (cfg ?c) = 0
            then min 7 \<lceil>res_LEIR_space_charge_limit r1 / ((linac3_current (ion ?c) * linac3_pulseLength (ion ?c)) / (Q (ion ?c) * e)
                            * LEIR_injection_efficiency (ion ?c))\<rceil>
            else nPulsesLEIR (cfg ?c))"
    and tot1: "res_LEIR_maxIntensity r1 =
           res_Linac3_ionsPerPulse r1 * of_int (res_LEIR_numberofPulses r1)
             * LEIR_injection_efficiency (ion ?c)"
    by blast+
  have nn': "res_LEIR_numberofPulses r1 = 1" unfolding nn n1 by simp
  have tot1': "res_LEIR_maxIntensity r1 = (20 * (1 / 10 ^ 6) * (200 * (1 / 10 ^ 6))) / (54 * e) * 1 * (5 / 10)"
    unfolding tot1 ipp1 nn' ru(1) io by simp
  have second: "\<exists>r self'. calculate_LHC_bunch_intensity ?c = Inr (r, self') \<and>
      res_LEIR_numberofPulses r = 1 \<and>
      res_LEIR_maxIntensity r = (20 * (1 / 10 ^ 6) * (200 * (1 / 10 ^ 6))) / (54 * e) * 1 * (5 / 10)"
    using c1 nn' tot1' by blast
  from first second w0 n0 w n1 show ?thesis by blast
qed


text \<open>
  C4. With early stripping (\<open>LEIR_PS_strip\<close>) the result holds the key
  \<open>LEIR_PS_strippingEfficiency\<close>, with the ion's LEIR-PS stripping efficiency; without
  it the key is absent. The ions injected into the SPS per bunch are the PS output times
  the PS-SPS transmission efficiency, which is 1, when \<open>Z = Q\<close> or with early stripping,
  and times the PS-SPS stripping efficiency, which is 0.9, otherwise. The PS output is
  the smaller of the PS space charge limit and the ions extracted from the PS when that
  limit is considered, and the ions extracted otherwise; the limit is
  \<open>linearIntensityLimit\<close> of the ion at the gamma of PS injection, and the ions
  extracted are those of the chain from Linac3 through LEIR, each value computed from
  the ion and the settings of the object. This holds of every object in use; for a
  well-formed ion and well-formed counts the calculation returns.
\<close>

theorem early_stripping_in_the_result:
  assumes "reachable self"
  shows "(\<forall>r self'. calculate_LHC_bunch_intensity self = Inr (r, self') \<longrightarrow>
      res_LEIR_PS_strippingEfficiency r =
        (if LEIR_PS_strip (cfg self) then Some (LEIR_PS_stripping_efficiency (ion self)) else None) \<and>
      (\<exists>spaceChargeLimitLEIR spaceChargeLimitPS.
         linearIntensityLimit self (mass_GeV (ion self))
           (if use_gammas_ref (cfg self) then LEIR_gamma_extr_ref (ion self)
            else (mass_GeV (ion self) + E_kin_per_A_LEIR_extr (ref self) * A (ion self)) / mass_GeV (ion self))
           (Nb0_LEIR_extr (ref self)) (Q0_LEIR (ref self)) (m0_GeV (ref self))
           (gamma0_LEIR_extr (ref self)) False = Inr spaceChargeLimitLEIR \<and>
         linearIntensityLimit self (mass_GeV (ion self))
           (if use_gammas_ref (cfg self) then PS_gamma_inj_ref (ion self)
            else (mass_GeV (ion self) + E_kin_per_A_PS_inj (ref self) * A (ion self)) / mass_GeV (ion self))
           (Nb0_PS_extr (ref self)) (Q0_PS (ref self)) (m0_GeV (ref self))
           (gamma0_PS_inj (ref self)) (LEIR_PS_strip (cfg self)) = Inr spaceChargeLimitPS \<and>
         res_PS_space_charge_limit r = spaceChargeLimitPS \<and>
         res_Linac3_ionsPerPulse r =
           (linac3_current (ion self) * linac3_pulseLength (ion self)) / (Q (ion self) * e) \<and>
         res_LEIR_numberofPulses r =
           (if nPulsesLEIR (cfg self) = 0
            then min 7 \<lceil>spaceChargeLimitLEIR
                         / (res_Linac3_ionsPerPulse r * LEIR_injection_efficiency (ion self))\<rceil>
            else nPulsesLEIR (cfg self)) \<and>
         res_LEIR_maxIntensity r =
           res_Linac3_ionsPerPulse r * of_int (res_LEIR_numberofPulses r)
             * LEIR_injection_efficiency (ion self) \<and>
         res_LEIR_extractedIonPerBunch r =
           LEIR_transmission (ion self) * min (res_LEIR_maxIntensity r) spaceChargeLimitLEIR
             / of_int (LEIR_bunches (cfg self)) \<and>
         res_PS_ionsExtractedPerBunch r =
           res_LEIR_extractedIonPerBunch r
             * (if LEIR_PS_strip (cfg self) then LEIR_PS_stripping_efficiency (ion self) else 1)
             * PS_transmission (ion self) / of_int (PS_splitting (cfg self)) \<and>
         res_SPS_maxIntensityPerBunch r =
           (if consider_PS_space_charge_limit (cfg self)
            then min spaceChargeLimitPS (res_PS_ionsExtractedPerBunch r)
            else res_PS_ionsExtractedPerBunch r)
             * (if Z (ion self) = Q (ion self) \<or> LEIR_PS_strip (cfg self)
                then PS_SPS_transmission_efficiency (ion self)
                else PS_SPS_stripping_efficiency (ion self))) \<and>
      PS_SPS_transmission_efficiency (ion self) = 1 \<and>
      PS_SPS_stripping_efficiency (ion self) = 9 / 10 \<and>
      LEIR_injection_efficiency (ion self) = 5 / 10 \<and>
      LEIR_transmission (ion self) = 8 / 10 \<and>
      PS_transmission (ion self) = 9 / 10) \<and>
   (ion_well_formed self \<and> counts_well_formed self \<longrightarrow>
      (\<exists>r self'. calculate_LHC_bunch_intensity self = Inr (r, self')))"
proof (intro conjI allI impI)
  note ru = chain_inv_rules [OF reachable_inv [OF assms]]
  show "PS_SPS_transmission_efficiency (ion self) = 1" by (rule ru(4))
  show "PS_SPS_stripping_efficiency (ion self) = 9 / 10" by (rule ru(5))
  show "LEIR_injection_efficiency (ion self) = 5 / 10" by (rule ru(1))
  show "LEIR_transmission (ion self) = 8 / 10" by (rule ru(2))
  show "PS_transmission (ion self) = 9 / 10" by (rule ru(3))
  fix r self'
  assume calc: "calculate_LHC_bunch_intensity self = Inr (r, self')"
  from calc obtain sl sp where
    l1: "linearIntensityLimit self (mass_GeV (ion self))
           (if use_gammas_ref (cfg self) then LEIR_gamma_extr_ref (ion self)
            else (mass_GeV (ion self) + E_kin_per_A_LEIR_extr (ref self) * A (ion self)) / mass_GeV (ion self))
           (Nb0_LEIR_extr (ref self)) (Q0_LEIR (ref self)) (m0_GeV (ref self))
           (gamma0_LEIR_extr (ref self)) False = Inr sl"
    and l2: "linearIntensityLimit self (mass_GeV (ion self))
           (if use_gammas_ref (cfg self) then PS_gamma_inj_ref (ion self)
            else (mass_GeV (ion self) + E_kin_per_A_PS_inj (ref self) * A (ion self)) / mass_GeV (ion self))
           (Nb0_PS_extr (ref self)) (Q0_PS (ref self)) (m0_GeV (ref self))
           (gamma0_PS_inj (ref self)) (LEIR_PS_strip (cfg self)) = Inr sp"
    and f: "res_PS_space_charge_limit r = sp"
    and ipp: "res_Linac3_ionsPerPulse r =
           (linac3_current (ion self) * linac3_pulseLength (ion self)) / (Q (ion self) * e)"
    and n: "res_LEIR_numberofPulses r =
           (if nPulsesLEIR (cfg self) = 0
            then min 7 \<lceil>sl / ((linac3_current (ion self) * linac3_pulseLength (ion self)) / (Q (ion self) * e)
                                 * LEIR_injection_efficiency (ion self))\<rceil>
            else nPulsesLEIR (cfg self))"
    and tot: "res_LEIR_maxIntensity r =
           res_Linac3_ionsPerPulse r * of_int (res_LEIR_numberofPulses r) * LEIR_injection_efficiency (ion self)"
    and el: "res_LEIR_extractedIonPerBunch r =
           LEIR_transmission (ion self) * min (res_LEIR_maxIntensity r) sl
             / of_int (LEIR_bunches (cfg self))"
    and ep: "res_PS_ionsExtractedPerBunch r =
           res_LEIR_extractedIonPerBunch r
             * (if LEIR_PS_strip (cfg self) then LEIR_PS_stripping_efficiency (ion self) else 1)
             * PS_transmission (ion self) / of_int (PS_splitting (cfg self))"
    and inj: "res_SPS_maxIntensityPerBunch r =
           (if consider_PS_space_charge_limit (cfg self)
            then min sp (res_PS_ionsExtractedPerBunch r)
            else res_PS_ionsExtractedPerBunch r)
             * (if Z (ion self) = Q (ion self) \<or> LEIR_PS_strip (cfg self)
                then PS_SPS_transmission_efficiency (ion self)
                else PS_SPS_stripping_efficiency (ion self))"
    and k: "res_LEIR_PS_strippingEfficiency r =
           (if LEIR_PS_strip (cfg self) then Some (LEIR_PS_stripping_efficiency (ion self)) else None)"
    by (rule calculate_input)
  show "res_LEIR_PS_strippingEfficiency r =
        (if LEIR_PS_strip (cfg self) then Some (LEIR_PS_stripping_efficiency (ion self)) else None)"
    by (rule k)
  have n': "res_LEIR_numberofPulses r =
           (if nPulsesLEIR (cfg self) = 0
            then min 7 \<lceil>sl / (res_Linac3_ionsPerPulse r * LEIR_injection_efficiency (ion self))\<rceil>
            else nPulsesLEIR (cfg self))"
    unfolding ipp by (rule n)
  from l1 l2 f ipp n' tot el ep inj
  show "\<exists>spaceChargeLimitLEIR spaceChargeLimitPS.
         linearIntensityLimit self (mass_GeV (ion self))
           (if use_gammas_ref (cfg self) then LEIR_gamma_extr_ref (ion self)
            else (mass_GeV (ion self) + E_kin_per_A_LEIR_extr (ref self) * A (ion self)) / mass_GeV (ion self))
           (Nb0_LEIR_extr (ref self)) (Q0_LEIR (ref self)) (m0_GeV (ref self))
           (gamma0_LEIR_extr (ref self)) False = Inr spaceChargeLimitLEIR \<and>
         linearIntensityLimit self (mass_GeV (ion self))
           (if use_gammas_ref (cfg self) then PS_gamma_inj_ref (ion self)
            else (mass_GeV (ion self) + E_kin_per_A_PS_inj (ref self) * A (ion self)) / mass_GeV (ion self))
           (Nb0_PS_extr (ref self)) (Q0_PS (ref self)) (m0_GeV (ref self))
           (gamma0_PS_inj (ref self)) (LEIR_PS_strip (cfg self)) = Inr spaceChargeLimitPS \<and>
         res_PS_space_charge_limit r = spaceChargeLimitPS \<and>
         res_Linac3_ionsPerPulse r =
           (linac3_current (ion self) * linac3_pulseLength (ion self)) / (Q (ion self) * e) \<and>
         res_LEIR_numberofPulses r =
           (if nPulsesLEIR (cfg self) = 0
            then min 7 \<lceil>spaceChargeLimitLEIR
                         / (res_Linac3_ionsPerPulse r * LEIR_injection_efficiency (ion self))\<rceil>
            else nPulsesLEIR (cfg self)) \<and>
         res_LEIR_maxIntensity r =
           res_Linac3_ionsPerPulse r * of_int (res_LEIR_numberofPulses r)
             * LEIR_injection_efficiency (ion self) \<and>
         res_LEIR_extractedIonPerBunch r =
           LEIR_transmission (ion self) * min (res_LEIR_maxIntensity r) spaceChargeLimitLEIR
             / of_int (LEIR_bunches (cfg self)) \<and>
         res_PS_ionsExtractedPerBunch r =
           res_LEIR_extractedIonPerBunch r
             * (if LEIR_PS_strip (cfg self) then LEIR_PS_stripping_efficiency (ion self) else 1)
             * PS_transmission (ion self) / of_int (PS_splitting (cfg self)) \<and>
         res_SPS_maxIntensityPerBunch r =
           (if consider_PS_space_charge_limit (cfg self)
            then min spaceChargeLimitPS (res_PS_ionsExtractedPerBunch r)
            else res_PS_ionsExtractedPerBunch r)
             * (if Z (ion self) = Q (ion self) \<or> LEIR_PS_strip (cfg self)
                then PS_SPS_transmission_efficiency (ion self)
                else PS_SPS_stripping_efficiency (ion self))"
    by (intro exI [of _ sl] exI [of _ sp] conjI)
next
  assume "ion_well_formed self \<and> counts_well_formed self"
  then show "\<exists>r self'. calculate_LHC_bunch_intensity self = Inr (r, self')"
    using calculate_total [OF reachable_inv [OF assms]] by blast
qed

theorem early_stripping_in_the_result_witness:
  "reachable (example_chain (example_args\<lparr>arg_LEIR_PS_strip := True\<rparr>)) \<and>
   ion_well_formed (example_chain (example_args\<lparr>arg_LEIR_PS_strip := True\<rparr>)) \<and>
   counts_well_formed (example_chain (example_args\<lparr>arg_LEIR_PS_strip := True\<rparr>)) \<and>
   LEIR_PS_strip (cfg (example_chain (example_args\<lparr>arg_LEIR_PS_strip := True\<rparr>))) \<and>
   (\<exists>r self'. calculate_LHC_bunch_intensity (example_chain (example_args\<lparr>arg_LEIR_PS_strip := True\<rparr>))
               = Inr (r, self') \<and>
      res_LEIR_PS_strippingEfficiency r = Some 1 \<and>
      res_PS_space_charge_limit r = 6 * 10 ^ 10 / 54 * (54 / 82) ^ 2 \<and>
      res_PS_ionsExtractedPerBunch r
        = (20 * (1 / 10 ^ 6) * (200 * (1 / 10 ^ 6))) / (54 * e) * (5 / 10) * (8 / 10) * (9 / 10) \<and>
      res_SPS_maxIntensityPerBunch r
        = (20 * (1 / 10 ^ 6) * (200 * (1 / 10 ^ 6))) / (54 * e) * (5 / 10) * (8 / 10) * (9 / 10) * 1) \<and>
   reachable (example_chain example_args) \<and> ion_well_formed (example_chain example_args) \<and>
   counts_well_formed (example_chain example_args) \<and>
   \<not> LEIR_PS_strip (cfg (example_chain example_args)) \<and>
   Z (ion (example_chain example_args)) \<noteq> Q (ion (example_chain example_args)) \<and>
   (\<exists>r self'. calculate_LHC_bunch_intensity (example_chain example_args) = Inr (r, self') \<and>
      res_LEIR_PS_strippingEfficiency r = None \<and>
      res_PS_space_charge_limit r = 6 * 10 ^ 10 / 54 * (54 / 54) ^ 2 \<and>
      res_PS_ionsExtractedPerBunch r
        = (20 * (1 / 10 ^ 6) * (200 * (1 / 10 ^ 6))) / (54 * e) * (5 / 10) * (8 / 10) * (9 / 10) \<and>
      res_SPS_maxIntensityPerBunch r
        = (20 * (1 / 10 ^ 6) * (200 * (1 / 10 ^ 6))) / (54 * e) * (5 / 10) * (8 / 10) * (9 / 10) * (9 / 10))"
proof -
  let ?s = "example_args\<lparr>arg_LEIR_PS_strip := True\<rparr>"
  let ?d = "example_args"
  have s: "arg_ion_type ?s = ''Pb''" "arg_ion_data ?s = example_ion_data"
    "arg_ion_type_ref ?s = ''Pb''" "\<not> arg_use_gammas_ref ?s"
    and ks: "arg_nPulsesLEIR ?s = 1" "arg_LEIR_bunches ?s = 1" "arg_PS_splitting ?s = 1"
      "arg_consider_PS_space_charge_limit ?s"
    and fs: "arg_LEIR_PS_strip ?s = True"
    by (simp_all add: example_args_def)
  have d: "arg_ion_type ?d = ''Pb''" "arg_ion_data ?d = example_ion_data"
    "arg_ion_type_ref ?d = ''Pb''" "\<not> arg_use_gammas_ref ?d"
    and kd: "arg_nPulsesLEIR ?d = 1" "arg_LEIR_bunches ?d = 1" "arg_PS_splitting ?d = 1"
      "arg_consider_PS_space_charge_limit ?d"
    and fd: "arg_LEIR_PS_strip ?d = False"
    by (simp_all add: example_args_def)
  have ws: "reachable (example_chain ?s)" "ion_well_formed (example_chain ?s)"
    "counts_well_formed (example_chain ?s)"
    using example_chain_well_formed [OF s] by (simp_all add: example_args_def)
  have wd: "reachable (example_chain ?d)" "ion_well_formed (example_chain ?d)"
    "counts_well_formed (example_chain ?d)"
    using example_chain_well_formed [OF d] by (simp_all add: example_args_def)
  note sts = InjectorChain_init_settings [OF example_chain_init [OF s]]
  note std = InjectorChain_init_settings [OF example_chain_init [OF d]]
  note ios = example_chain_ion [OF s] and iod = example_chain_ion [OF d]
  have ss: "LEIR_PS_strip (cfg (example_chain ?s))" unfolding sts(2) fs ..
  have sd: "\<not> LEIR_PS_strip (cfg (example_chain ?d))" unfolding std(2) fd by simp
  have zq: "Z (ion (example_chain ?d)) \<noteq> Q (ion (example_chain ?d))" unfolding iod by simp
  note ts = early_stripping_in_the_result [OF ws(1)]
  note td = early_stripping_in_the_result [OF wd(1)]
  from ts ws obtain r1 s1 where
    c1: "calculate_LHC_bunch_intensity (example_chain ?s) = Inr (r1, s1)" by blast
  from ts c1 have key1: "res_LEIR_PS_strippingEfficiency r1 =
        (if LEIR_PS_strip (cfg (example_chain ?s))
         then Some (LEIR_PS_stripping_efficiency (ion (example_chain ?s))) else None)"
    by blast
  then have k1: "res_LEIR_PS_strippingEfficiency r1 = Some 1" using ss by (simp add: ios(7))
  from ts c1 obtain sl sp where
    e1: "linearIntensityLimit (example_chain ?s) (mass_GeV (ion (example_chain ?s)))
           (if use_gammas_ref (cfg (example_chain ?s)) then LEIR_gamma_extr_ref (ion (example_chain ?s))
            else (mass_GeV (ion (example_chain ?s))
                    + E_kin_per_A_LEIR_extr (ref (example_chain ?s)) * A (ion (example_chain ?s)))
                 / mass_GeV (ion (example_chain ?s)))
           (Nb0_LEIR_extr (ref (example_chain ?s))) (Q0_LEIR (ref (example_chain ?s)))
           (m0_GeV (ref (example_chain ?s))) (gamma0_LEIR_extr (ref (example_chain ?s))) False
         = Inr sl"
      "linearIntensityLimit (example_chain ?s) (mass_GeV (ion (example_chain ?s)))
           (if use_gammas_ref (cfg (example_chain ?s)) then PS_gamma_inj_ref (ion (example_chain ?s))
            else (mass_GeV (ion (example_chain ?s))
                    + E_kin_per_A_PS_inj (ref (example_chain ?s)) * A (ion (example_chain ?s)))
                 / mass_GeV (ion (example_chain ?s)))
           (Nb0_PS_extr (ref (example_chain ?s))) (Q0_PS (ref (example_chain ?s)))
           (m0_GeV (ref (example_chain ?s))) (gamma0_PS_inj (ref (example_chain ?s)))
           (LEIR_PS_strip (cfg (example_chain ?s)))
         = Inr sp"
      "res_Linac3_ionsPerPulse r1 =
           (linac3_current (ion (example_chain ?s)) * linac3_pulseLength (ion (example_chain ?s)))
             / (Q (ion (example_chain ?s)) * e)"
      "res_LEIR_numberofPulses r1 =
           (if nPulsesLEIR (cfg (example_chain ?s)) = 0
            then min 7 \<lceil>sl / (res_Linac3_ionsPerPulse r1
                                 * LEIR_injection_efficiency (ion (example_chain ?s)))\<rceil>
            else nPulsesLEIR (cfg (example_chain ?s)))"
      "res_LEIR_maxIntensity r1 =
           res_Linac3_ionsPerPulse r1 * of_int (res_LEIR_numberofPulses r1)
             * LEIR_injection_efficiency (ion (example_chain ?s))"
      "res_LEIR_extractedIonPerBunch r1 =
           LEIR_transmission (ion (example_chain ?s)) * min (res_LEIR_maxIntensity r1) sl
             / of_int (LEIR_bunches (cfg (example_chain ?s)))"
      "res_PS_ionsExtractedPerBunch r1 =
           res_LEIR_extractedIonPerBunch r1
             * (if LEIR_PS_strip (cfg (example_chain ?s))
                then LEIR_PS_stripping_efficiency (ion (example_chain ?s)) else 1)
             * PS_transmission (ion (example_chain ?s)) / of_int (PS_splitting (cfg (example_chain ?s)))"
      "res_SPS_maxIntensityPerBunch r1 =
           (if consider_PS_space_charge_limit (cfg (example_chain ?s))
            then min sp (res_PS_ionsExtractedPerBunch r1)
            else res_PS_ionsExtractedPerBunch r1)
             * (if Z (ion (example_chain ?s)) = Q (ion (example_chain ?s))
                   \<or> LEIR_PS_strip (cfg (example_chain ?s))
                then PS_SPS_transmission_efficiency (ion (example_chain ?s))
                else PS_SPS_stripping_efficiency (ion (example_chain ?s)))"
    and f1: "res_PS_space_charge_limit r1 = sp"
    by blast
  note v1 = example_chain_fields [OF s ks e1]
  have first: "\<exists>r self'. calculate_LHC_bunch_intensity (example_chain ?s) = Inr (r, self') \<and>
      res_LEIR_PS_strippingEfficiency r = Some 1 \<and>
      res_PS_space_charge_limit r = 6 * 10 ^ 10 / 54 * (54 / 82) ^ 2 \<and>
      res_PS_ionsExtractedPerBunch r
        = (20 * (1 / 10 ^ 6) * (200 * (1 / 10 ^ 6))) / (54 * e) * (5 / 10) * (8 / 10) * (9 / 10) \<and>
      res_SPS_maxIntensityPerBunch r
        = (20 * (1 / 10 ^ 6) * (200 * (1 / 10 ^ 6))) / (54 * e) * (5 / 10) * (8 / 10) * (9 / 10) * 1"
    using c1 k1 f1 v1(2) v1(7) v1(8) unfolding fs if_True by blast
  from td wd obtain r2 s2 where
    c2: "calculate_LHC_bunch_intensity (example_chain ?d) = Inr (r2, s2)" by blast
  from td c2 have key2: "res_LEIR_PS_strippingEfficiency r2 =
        (if LEIR_PS_strip (cfg (example_chain ?d))
         then Some (LEIR_PS_stripping_efficiency (ion (example_chain ?d))) else None)"
    by blast
  then have k2: "res_LEIR_PS_strippingEfficiency r2 = None" using sd by simp
  from td c2 obtain sl' sp' where
    e2: "linearIntensityLimit (example_chain ?d) (mass_GeV (ion (example_chain ?d)))
           (if use_gammas_ref (cfg (example_chain ?d)) then LEIR_gamma_extr_ref (ion (example_chain ?d))
            else (mass_GeV (ion (example_chain ?d))
                    + E_kin_per_A_LEIR_extr (ref (example_chain ?d)) * A (ion (example_chain ?d)))
                 / mass_GeV (ion (example_chain ?d)))
           (Nb0_LEIR_extr (ref (example_chain ?d))) (Q0_LEIR (ref (example_chain ?d)))
           (m0_GeV (ref (example_chain ?d))) (gamma0_LEIR_extr (ref (example_chain ?d))) False
         = Inr sl'"
      "linearIntensityLimit (example_chain ?d) (mass_GeV (ion (example_chain ?d)))
           (if use_gammas_ref (cfg (example_chain ?d)) then PS_gamma_inj_ref (ion (example_chain ?d))
            else (mass_GeV (ion (example_chain ?d))
                    + E_kin_per_A_PS_inj (ref (example_chain ?d)) * A (ion (example_chain ?d)))
                 / mass_GeV (ion (example_chain ?d)))
           (Nb0_PS_extr (ref (example_chain ?d))) (Q0_PS (ref (example_chain ?d)))
           (m0_GeV (ref (example_chain ?d))) (gamma0_PS_inj (ref (example_chain ?d)))
           (LEIR_PS_strip (cfg (example_chain ?d)))
         = Inr sp'"
      "res_Linac3_ionsPerPulse r2 =
           (linac3_current (ion (example_chain ?d)) * linac3_pulseLength (ion (example_chain ?d)))
             / (Q (ion (example_chain ?d)) * e)"
      "res_LEIR_numberofPulses r2 =
           (if nPulsesLEIR (cfg (example_chain ?d)) = 0
            then min 7 \<lceil>sl' / (res_Linac3_ionsPerPulse r2
                                 * LEIR_injection_efficiency (ion (example_chain ?d)))\<rceil>
            else nPulsesLEIR (cfg (example_chain ?d)))"
      "res_LEIR_maxIntensity r2 =
           res_Linac3_ionsPerPulse r2 * of_int (res_LEIR_numberofPulses r2)
             * LEIR_injection_efficiency (ion (example_chain ?d))"
      "res_LEIR_extractedIonPerBunch r2 =
           LEIR_transmission (ion (example_chain ?d)) * min (res_LEIR_maxIntensity r2) sl'
             / of_int (LEIR_bunches (cfg (example_chain ?d)))"
      "res_PS_ionsExtractedPerBunch r2 =
           res_LEIR_extractedIonPerBunch r2
             * (if LEIR_PS_strip (cfg (example_chain ?d))
                then LEIR_PS_stripping_efficiency (ion (example_chain ?d)) else 1)
             * PS_transmission (ion (example_chain ?d)) / of_int (PS_splitting (cfg (example_chain ?d)))"
      "res_SPS_maxIntensityPerBunch r2 =
           (if consider_PS_space_charge_limit (cfg (example_chain ?d))
            then min sp' (res_PS_ionsExtractedPerBunch r2)
            else res_PS_ionsExtractedPerBunch r2)
             * (if Z (ion (example_chain ?d)) = Q (ion (example_chain ?d))
                   \<or> LEIR_PS_strip (cfg (example_chain ?d))
                then PS_SPS_transmission_efficiency (ion (example_chain ?d))
                else PS_SPS_stripping_efficiency (ion (example_chain ?d)))"
    and f2: "res_PS_space_charge_limit r2 = sp'"
    by blast
  note v2 = example_chain_fields [OF d kd e2]
  have second: "\<exists>r self'. calculate_LHC_bunch_intensity (example_chain ?d) = Inr (r, self') \<and>
      res_LEIR_PS_strippingEfficiency r = None \<and>
      res_PS_space_charge_limit r = 6 * 10 ^ 10 / 54 * (54 / 54) ^ 2 \<and>
      res_PS_ionsExtractedPerBunch r
        = (20 * (1 / 10 ^ 6) * (200 * (1 / 10 ^ 6))) / (54 * e) * (5 / 10) * (8 / 10) * (9 / 10) \<and>
      res_SPS_maxIntensityPerBunch r
        = (20 * (1 / 10 ^ 6) * (200 * (1 / 10 ^ 6))) / (54 * e) * (5 / 10) * (8 / 10) * (9 / 10) * (9 / 10)"
    using c2 k2 f2 v2(2) v2(7) v2(8) unfolding fd if_False by blast
  from first second ws wd ss sd zq show ?thesis by blast
qed


text \<open>
  C3. Without the loaded energies (\<open>use_gammas_ref\<close> off) and with
  \<open>use_Roderiks_gamma\<close>, \<open>sps\<close> assigns the injection gamma
  \<open>sqrt(1 + ((c/54)/(mass_GeV/m0_GeV))^2 * (gamma0_SPS_inj^2 - 1))\<close>, where \<open>c\<close> is \<open>Z\<close>
  with LEIR-PS stripping and \<open>Q\<close> otherwise, and the result of the chain reports that
  gamma. For an object in use, 54 is the reference charge \<open>Q0_PS\<close>, and \<open>sps\<close> returns
  when the ion is well formed.
\<close>

theorem SPS_injection_gamma_of_equal_rigidity:
  assumes "\<not> use_gammas_ref (cfg self)" and "use_Roderiks_gamma (cfg self)"
  shows "(\<forall>self'. sps self = Inr self' \<longrightarrow>
            gamma_SPS_inj (stage self') =
              sqrt (1 + (((if LEIR_PS_strip (cfg self) then Z (ion self) else Q (ion self)) / 54)
                          / (mass_GeV (ion self) / m0_GeV (ref self))) ^ 2
                        * ((gamma0_SPS_inj (ref self)) ^ 2 - 1))) \<and>
         (\<forall>r self'. calculate_LHC_bunch_intensity self = Inr (r, self') \<longrightarrow>
            res_SPS_inj_gamma r =
              sqrt (1 + (((if LEIR_PS_strip (cfg self) then Z (ion self) else Q (ion self)) / 54)
                          / (mass_GeV (ion self) / m0_GeV (ref self))) ^ 2
                        * ((gamma0_SPS_inj (ref self)) ^ 2 - 1)) \<and>
            res_gammaInjSPS r = res_SPS_inj_gamma r) \<and>
         (reachable self \<longrightarrow> Q0_PS (ref self) = 54) \<and>
         (reachable self \<and> ion_well_formed self \<longrightarrow> (\<exists>self'. sps self = Inr self'))"
proof (intro conjI allI impI)
  fix self'
  assume "sps self = Inr self'"
  from sps_stage(3) [OF this] assms
  show "gamma_SPS_inj (stage self') =
              sqrt (1 + (((if LEIR_PS_strip (cfg self) then Z (ion self) else Q (ion self)) / 54)
                          / (mass_GeV (ion self) / m0_GeV (ref self))) ^ 2
                        * ((gamma0_SPS_inj (ref self)) ^ 2 - 1))"
    by (simp only: if_True if_False)
next
  fix r self'
  assume calc: "calculate_LHC_bunch_intensity self = Inr (r, self')"
  note fr = calculate_frame [OF calc]
  have g1: "res_gammaInjSPS r = gamma_SPS_inj (stage self')"
    by (rule calculate_parts [OF calc])
  have g2: "res_SPS_inj_gamma r = gamma_SPS_inj (stage self')"
    by (rule calculate_parts [OF calc])
  note g = g1 g2
  from simulate_stage(6) [OF fr(1)] assms
  show "res_SPS_inj_gamma r =
              sqrt (1 + (((if LEIR_PS_strip (cfg self) then Z (ion self) else Q (ion self)) / 54)
                          / (mass_GeV (ion self) / m0_GeV (ref self))) ^ 2
                        * ((gamma0_SPS_inj (ref self)) ^ 2 - 1))"
    unfolding g by (simp only: if_True if_False)
  show "res_gammaInjSPS r = res_SPS_inj_gamma r" by (simp only: g)
next
  assume "reachable self"
  then show "Q0_PS (ref self) = 54"
    by (rule chain_inv_reference(16) [OF reachable_inv])
next
  assume "reachable self \<and> ion_well_formed self"
  then show "\<exists>self'. sps self = Inr self'"
    using sps_total [OF reachable_inv] by blast
qed

theorem SPS_injection_gamma_of_equal_rigidity_witness:
  "\<not> use_gammas_ref (cfg (example_chain example_args)) \<and>
   use_Roderiks_gamma (cfg (example_chain example_args)) \<and>
   reachable (example_chain example_args) \<and> ion_well_formed (example_chain example_args) \<and>
   Q0_PS (ref (example_chain example_args)) = 54 \<and>
   (\<exists>self'. sps (example_chain example_args) = Inr self' \<and>
      gamma_SPS_inj (stage self') =
        sqrt (1 + (((if LEIR_PS_strip (cfg (example_chain example_args))
                     then Z (ion (example_chain example_args))
                     else Q (ion (example_chain example_args))) / 54)
                    / (mass_GeV (ion (example_chain example_args))
                       / m0_GeV (ref (example_chain example_args)))) ^ 2
                  * ((gamma0_SPS_inj (ref (example_chain example_args))) ^ 2 - 1)))"
proof -
  have a: "arg_ion_type example_args = ''Pb''" "arg_ion_data example_args = example_ion_data"
    "arg_ion_type_ref example_args = ''Pb''" "\<not> arg_use_gammas_ref example_args"
    by (simp_all add: example_args_def)
  have w: "reachable (example_chain example_args)" "ion_well_formed (example_chain example_args)"
    using example_chain_well_formed [OF a] by simp_all
  note st = InjectorChain_init_settings [OF example_chain_init [OF a]]
  have g: "\<not> use_gammas_ref (cfg (example_chain example_args))"
    "use_Roderiks_gamma (cfg (example_chain example_args))"
    unfolding st(3) st(10) by (simp_all add: a(4))
  from SPS_injection_gamma_of_equal_rigidity [OF g] w g show ?thesis by blast
qed


text \<open>
  C2, as stated for every ion and every configuration, fails: the constructor accepts
  any pulse count. With \<open>nPulsesLEIR = -1\<close> the total intensity of LEIR is negative,
  and so is every intensity after it; the transmission factors below 1 then raise
  the value instead of lowering it. For lead with the other settings at their defaults,
  the ions extracted from LEIR per bunch are above the total intensity
  \<open>min(totalIntLEIR, spaceChargeLimitLEIR)\<close>, and the ions per bunch delivered to the
  LHC are above the ions injected into the SPS per bunch.
\<close>

theorem delivered_intensity_negative_pulses_counterexample:
  "InjectorChain_init example_read_csv fresh_object (example_args\<lparr>arg_nPulsesLEIR := - 1\<rparr>)
     = Inr (example_chain (example_args\<lparr>arg_nPulsesLEIR := - 1\<rparr>)) \<and>
   (\<exists>r self'. calculate_LHC_bunch_intensity (example_chain (example_args\<lparr>arg_nPulsesLEIR := - 1\<rparr>))
               = Inr (r, self') \<and>
      res_LEIR_numberofPulses r = - 1 \<and>
      res_LEIR_space_charge_limit r = 10 * 10 ^ 10 / 54 \<and>
      res_LEIR_maxIntensity r = - ((20 * (1 / 10 ^ 6) * (200 * (1 / 10 ^ 6))) / (54 * e) * (5 / 10)) \<and>
      res_LEIR_extractedIonPerBunch r
        = - ((20 * (1 / 10 ^ 6) * (200 * (1 / 10 ^ 6))) / (54 * e) * (5 / 10) * (8 / 10)) \<and>
      res_LEIR_maxIntensity r < res_LEIR_extractedIonPerBunch r \<and>
      res_SPS_spaceChargeLimit r = 221 * 10 ^ 6 / (62 / 100) \<and>
      res_SPS_maxIntensityPerBunch r
        = - ((20 * (1 / 10 ^ 6) * (200 * (1 / 10 ^ 6))) / (54 * e) * (5 / 10) * (8 / 10) * (9 / 10)) * (9 / 10) \<and>
      res_SPS_transmission r = 62 / 100 \<and>
      res_LHC_ionsPerBunch r
        = - ((20 * (1 / 10 ^ 6) * (200 * (1 / 10 ^ 6))) / (54 * e) * (5 / 10) * (8 / 10) * (9 / 10)) * (9 / 10)
            * (62 / 100) * 1 \<and>
      res_SPS_maxIntensityPerBunch r < res_LHC_ionsPerBunch r)"
proof -
  let ?n = "example_args\<lparr>arg_nPulsesLEIR := - 1\<rparr>"
  let ?c = "example_chain ?n"
  have a: "arg_ion_type ?n = ''Pb''" "arg_ion_data ?n = example_ion_data"
    "arg_ion_type_ref ?n = ''Pb''" "\<not> arg_use_gammas_ref ?n"
    and k: "arg_nPulsesLEIR ?n = - 1" "arg_LEIR_bunches ?n = 1"
      "arg_PS_splitting ?n = 1" "arg_consider_PS_space_charge_limit ?n = True"
    and fd: "arg_LEIR_PS_strip ?n = False"
    and ns: "\<not> arg_LEIR_PS_strip ?n"
    and ac: "arg_account_for_SPS_transmission ?n = True"
    by (simp_all add: example_args_def)
  note init = example_chain_init [OF a]
  note w = example_chain_well_formed(1,2) [OF a]
  note st = InjectorChain_init_settings [OF init]
  note io = example_chain_ion [OF a]
  note inv = reachable_inv [OF w(1)]
  note ru = chain_inv_rules [OF inv]
  have acc: "account_for_SPS_transmission (cfg ?c)" unfolding st(4) ac ..
  with inv have t: "SPS_transmission (ion ?c) = 62 / 100"
    by (auto simp: chain_inv_def transmission_rules_def)
  have np: "nPulsesLEIR (cfg ?c) = - 1" unfolding st(6) by (rule k(1))
  have bn: "LEIR_bunches (cfg ?c) = 1" unfolding st(7) by (rule k(2))
  have sn: "PS_splitting (cfg ?c) = 1" unfolding st(8) by (rule k(3))
  have cs: "consider_PS_space_charge_limit (cfg ?c) = True" unfolding st(5) by (rule k(4))
  have sf: "LEIR_PS_strip (cfg ?c) = False" unfolding st(2) by (rule fd)
  have zq: "(Z (ion ?c) = Q (ion ?c)) = False" unfolding io by simp
  have "\<exists>r self'. calculate_LHC_bunch_intensity ?c = Inr (r, self')"
    by (rule calculate_total_gen [OF inv w(2)]) (simp_all add: np bn sn)
  then obtain r s where calc: "calculate_LHC_bunch_intensity ?c = Inr (r, s)" by blast
  from calc obtain sl sp ss where
    l1: "linearIntensityLimit ?c (mass_GeV (ion ?c))
           (if use_gammas_ref (cfg ?c) then LEIR_gamma_extr_ref (ion ?c)
            else (mass_GeV (ion ?c) + E_kin_per_A_LEIR_extr (ref ?c) * A (ion ?c)) / mass_GeV (ion ?c))
           (Nb0_LEIR_extr (ref ?c)) (Q0_LEIR (ref ?c)) (m0_GeV (ref ?c))
           (gamma0_LEIR_extr (ref ?c)) False = Inr sl"
    and l2: "linearIntensityLimit ?c (mass_GeV (ion ?c))
           (if use_gammas_ref (cfg ?c) then PS_gamma_inj_ref (ion ?c)
            else (mass_GeV (ion ?c) + E_kin_per_A_PS_inj (ref ?c) * A (ion ?c)) / mass_GeV (ion ?c))
           (Nb0_PS_extr (ref ?c)) (Q0_PS (ref ?c)) (m0_GeV (ref ?c))
           (gamma0_PS_inj (ref ?c)) (LEIR_PS_strip (cfg ?c)) = Inr sp"
    and l3: "linearIntensityLimit ?c (mass_GeV (ion ?c))
           (if use_gammas_ref (cfg ?c) then SPS_gamma_inj_ref (ion ?c)
            else if use_Roderiks_gamma (cfg ?c)
            then sqrt (1 + (((if LEIR_PS_strip (cfg ?c) then Z (ion ?c) else Q (ion ?c)) / 54)
                               / (mass_GeV (ion ?c) / m0_GeV (ref ?c))) ^ 2
                            * ((gamma0_SPS_inj (ref ?c)) ^ 2 - 1))
            else (mass_GeV (ion ?c) + E_kin_per_A_SPS_inj (ref ?c) * A (ion ?c)) / mass_GeV (ion ?c))
           (Nb0_SPS_extr (ref ?c)) (Q0_SPS (ref ?c)) (m0_GeV (ref ?c))
           (gamma0_SPS_inj (ref ?c)) True = Inr ss"
    and f: "res_LEIR_space_charge_limit r = sl" "res_SPS_spaceChargeLimit r = ss"
    and ipp: "res_Linac3_ionsPerPulse r =
           (linac3_current (ion ?c) * linac3_pulseLength (ion ?c)) / (Q (ion ?c) * e)"
    and n: "res_LEIR_numberofPulses r =
           (if nPulsesLEIR (cfg ?c) = 0
            then min 7 \<lceil>sl / ((linac3_current (ion ?c) * linac3_pulseLength (ion ?c)) / (Q (ion ?c) * e)
                                 * LEIR_injection_efficiency (ion ?c))\<rceil>
            else nPulsesLEIR (cfg ?c))"
    and tot: "res_LEIR_maxIntensity r =
           res_Linac3_ionsPerPulse r * of_int (res_LEIR_numberofPulses r)
             * LEIR_injection_efficiency (ion ?c)"
    and el: "res_LEIR_extractedIonPerBunch r =
           LEIR_transmission (ion ?c) * min (res_LEIR_maxIntensity r) sl
             / of_int (LEIR_bunches (cfg ?c))"
    and ep: "res_PS_ionsExtractedPerBunch r =
           res_LEIR_extractedIonPerBunch r
             * (if LEIR_PS_strip (cfg ?c) then LEIR_PS_stripping_efficiency (ion ?c) else 1)
             * PS_transmission (ion ?c) / of_int (PS_splitting (cfg ?c))"
    and inj: "res_SPS_maxIntensityPerBunch r =
           (if consider_PS_space_charge_limit (cfg ?c)
            then min sp (res_PS_ionsExtractedPerBunch r)
            else res_PS_ionsExtractedPerBunch r)
             * (if Z (ion ?c) = Q (ion ?c) \<or> LEIR_PS_strip (cfg ?c)
                then PS_SPS_transmission_efficiency (ion ?c)
                else PS_SPS_stripping_efficiency (ion ?c))"
    and lhc: "res_LHC_ionsPerBunch r =
           min ss (res_SPS_maxIntensityPerBunch r)
             * SPS_transmission (ion ?c) * SPS_slipstacking_transmission (ion ?c)"
    and tr: "res_SPS_transmission r = SPS_transmission (ion ?c)"
    by (rule calculate_input)
  from l1 have sl: "sl = 10 * 10 ^ 10 / 54" unfolding example_chain_limit_LEIR [OF a] by simp
  from l2 have sp: "sp = 6 * 10 ^ 10 / 54 * (54 / 54) ^ 2"
    unfolding example_chain_limit_PS [OF a] fd by simp
  from l3 have ss: "ss = 221 * 10 ^ 6 / (62 / 100)"
    unfolding example_chain_limit_SPS [OF a ns] ac by simp
  have i: "res_Linac3_ionsPerPulse r = (20 * (1 / 10 ^ 6) * (200 * (1 / 10 ^ 6))) / (54 * e)"
    unfolding ipp io ..
  have n1: "res_LEIR_numberofPulses r = - 1" unfolding n np by simp
  have t1: "res_LEIR_maxIntensity r = res_Linac3_ionsPerPulse r * of_int (- 1) * (5 / 10)"
    unfolding tot n1 ru(1) ..
  have e1: "res_LEIR_extractedIonPerBunch r
              = 8 / 10 * min (res_LEIR_maxIntensity r) (10 * 10 ^ 10 / 54) / of_int 1"
    unfolding el ru(2) sl bn ..
  have p1: "res_PS_ionsExtractedPerBunch r
              = res_LEIR_extractedIonPerBunch r * 1 * (9 / 10) / of_int 1"
    unfolding ep ru(3) sn sf by (simp only: if_False)
  note ar = lead_chain_arith_neg [OF i t1 e1 p1 sp]
  have inj': "res_SPS_maxIntensityPerBunch r = res_PS_ionsExtractedPerBunch r * (9 / 10)"
    unfolding inj cs zq sf ru(5) by (simp only: if_True if_False ar(4) simp_thms)
  have l: "res_LHC_ionsPerBunch r = res_PS_ionsExtractedPerBunch r * (9 / 10) * (62 / 100) * 1"
    unfolding lhc ss inj' ar(5) t ru(7) ..
  have "res_LEIR_space_charge_limit r = 10 * 10 ^ 10 / 54" unfolding f by (rule sl)
  moreover have "res_LEIR_maxIntensity r = - ((20 * (1 / 10 ^ 6) * (200 * (1 / 10 ^ 6))) / (54 * e) * (5 / 10))"
    using ar(1) unfolding i .
  moreover have "res_LEIR_extractedIonPerBunch r
        = - ((20 * (1 / 10 ^ 6) * (200 * (1 / 10 ^ 6))) / (54 * e) * (5 / 10) * (8 / 10))"
    using ar(2) unfolding i .
  moreover have "res_LEIR_maxIntensity r < res_LEIR_extractedIonPerBunch r" by (rule ar(7))
  moreover have "res_SPS_spaceChargeLimit r = 221 * 10 ^ 6 / (62 / 100)" unfolding f by (rule ss)
  moreover have "res_SPS_maxIntensityPerBunch r
        = - ((20 * (1 / 10 ^ 6) * (200 * (1 / 10 ^ 6))) / (54 * e) * (5 / 10) * (8 / 10) * (9 / 10)) * (9 / 10)"
    unfolding inj' using ar(3) unfolding i by (simp only:)
  moreover have "res_SPS_transmission r = 62 / 100" unfolding tr by (rule t)
  moreover have "res_LHC_ionsPerBunch r
        = - ((20 * (1 / 10 ^ 6) * (200 * (1 / 10 ^ 6))) / (54 * e) * (5 / 10) * (8 / 10) * (9 / 10)) * (9 / 10)
            * (62 / 100) * 1"
    unfolding l using ar(3) unfolding i by (simp only:)
  moreover have "res_SPS_maxIntensityPerBunch r < res_LHC_ionsPerBunch r"
    unfolding inj' l by (rule ar(6))
  ultimately show ?thesis using init calc n1 by blast
qed

text \<open>
  C2, amended. For an object in use with a well-formed ion (positive mass, mass number and charge,
  \<open>Q \<le> Z\<close>, a source current and pulse length that are not negative, a LEIR-PS
  stripping efficiency in \<open>[0, 1]\<close>, loaded gammas above 1) and well-formed counts
  (\<open>nPulsesLEIR\<close> not negative, and a positive source current and pulse length when
  it is 0; \<open>LEIR_bunches\<close> and \<open>PS_splitting\<close> at least 1),
  \<open>calculate_LHC_bunch_intensity\<close> returns. The three space charge limits of its
  result are \<open>linearIntensityLimit\<close> of the ion at the gammas of LEIR extraction, PS
  injection and SPS injection against the reference values, and the intensities are
  those of the chain from the ions per pulse of Linac3, each computed from the ion and
  the settings. The ions per bunch delivered to the LHC are
  \<open>min(spaceChargeLimitSPS, ionsPerBunchSPSinj)\<close> times the SPS transmission and the
  slip-stacking transmission, both in \<open>(0, 1]\<close>, and the minimum is not negative, so
  they exceed neither the SPS space charge limit nor the ions injected into the SPS per
  bunch; the ions extracted from LEIR per bunch are the LEIR transmission times
  \<open>min(totalIntLEIR, spaceChargeLimitLEIR)\<close> over the number of bunches, so they exceed
  neither the total injected intensity nor the LEIR space charge limit.
\<close>

theorem delivered_intensity_within_limits:
  assumes "reachable self" and "ion_well_formed self" and "counts_well_formed self"
  shows "\<exists>r self' spaceChargeLimitLEIR spaceChargeLimitPS spaceChargeLimitSPS.
         calculate_LHC_bunch_intensity self = Inr (r, self') \<and>
         linearIntensityLimit self (mass_GeV (ion self))
           (if use_gammas_ref (cfg self) then LEIR_gamma_extr_ref (ion self)
            else (mass_GeV (ion self) + E_kin_per_A_LEIR_extr (ref self) * A (ion self)) / mass_GeV (ion self))
           (Nb0_LEIR_extr (ref self)) (Q0_LEIR (ref self)) (m0_GeV (ref self))
           (gamma0_LEIR_extr (ref self)) False = Inr spaceChargeLimitLEIR \<and>
         linearIntensityLimit self (mass_GeV (ion self))
           (if use_gammas_ref (cfg self) then PS_gamma_inj_ref (ion self)
            else (mass_GeV (ion self) + E_kin_per_A_PS_inj (ref self) * A (ion self)) / mass_GeV (ion self))
           (Nb0_PS_extr (ref self)) (Q0_PS (ref self)) (m0_GeV (ref self))
           (gamma0_PS_inj (ref self)) (LEIR_PS_strip (cfg self)) = Inr spaceChargeLimitPS \<and>
         linearIntensityLimit self (mass_GeV (ion self))
           (if use_gammas_ref (cfg self) then SPS_gamma_inj_ref (ion self)
            else if use_Roderiks_gamma (cfg self)
            then sqrt (1 + (((if LEIR_PS_strip (cfg self) then Z (ion self) else Q (ion self)) / 54)
                               / (mass_GeV (ion self) / m0_GeV (ref self))) ^ 2
                            * ((gamma0_SPS_inj (ref self)) ^ 2 - 1))
            else (mass_GeV (ion self) + E_kin_per_A_SPS_inj (ref self) * A (ion self)) / mass_GeV (ion self))
           (Nb0_SPS_extr (ref self)) (Q0_SPS (ref self)) (m0_GeV (ref self))
           (gamma0_SPS_inj (ref self)) True = Inr spaceChargeLimitSPS \<and>
         res_LEIR_space_charge_limit r = spaceChargeLimitLEIR \<and>
         res_PS_space_charge_limit r = spaceChargeLimitPS \<and>
         res_SPS_spaceChargeLimit r = spaceChargeLimitSPS \<and>
         res_Linac3_ionsPerPulse r =
           (linac3_current (ion self) * linac3_pulseLength (ion self)) / (Q (ion self) * e) \<and>
         res_LEIR_numberofPulses r =
           (if nPulsesLEIR (cfg self) = 0
            then min 7 \<lceil>spaceChargeLimitLEIR / (res_Linac3_ionsPerPulse r * LEIR_injection_efficiency (ion self))\<rceil>
            else nPulsesLEIR (cfg self)) \<and>
         res_LEIR_maxIntensity r =
           res_Linac3_ionsPerPulse r * of_int (res_LEIR_numberofPulses r)
             * LEIR_injection_efficiency (ion self) \<and>
         res_LEIR_extractedIonPerBunch r =
           LEIR_transmission (ion self) * min (res_LEIR_maxIntensity r) spaceChargeLimitLEIR
             / of_int (LEIR_bunches (cfg self)) \<and>
         res_PS_ionsExtractedPerBunch r =
           res_LEIR_extractedIonPerBunch r
             * (if LEIR_PS_strip (cfg self) then LEIR_PS_stripping_efficiency (ion self) else 1)
             * PS_transmission (ion self) / of_int (PS_splitting (cfg self)) \<and>
         res_SPS_maxIntensityPerBunch r =
           (if consider_PS_space_charge_limit (cfg self)
            then min spaceChargeLimitPS (res_PS_ionsExtractedPerBunch r)
            else res_PS_ionsExtractedPerBunch r)
             * (if Z (ion self) = Q (ion self) \<or> LEIR_PS_strip (cfg self)
                then PS_SPS_transmission_efficiency (ion self)
                else PS_SPS_stripping_efficiency (ion self)) \<and>
         res_LHC_ionsPerBunch r =
           min spaceChargeLimitSPS (res_SPS_maxIntensityPerBunch r)
             * SPS_transmission (ion self) * SPS_slipstacking_transmission (ion self) \<and>
         0 < SPS_transmission (ion self) \<and>
         SPS_transmission (ion self) \<le> 1 \<and>
         0 < SPS_slipstacking_transmission (ion self) \<and>
         SPS_slipstacking_transmission (ion self) \<le> 1 \<and>
         0 < LEIR_transmission (ion self) \<and>
         LEIR_transmission (ion self) \<le> 1 \<and>
         0 \<le> min spaceChargeLimitSPS (res_SPS_maxIntensityPerBunch r) \<and>
         0 \<le> min (res_LEIR_maxIntensity r) spaceChargeLimitLEIR \<and>
         res_LHC_ionsPerBunch r \<le> spaceChargeLimitSPS \<and>
         res_LHC_ionsPerBunch r \<le> res_SPS_maxIntensityPerBunch r \<and>
         res_LEIR_extractedIonPerBunch r \<le> res_LEIR_maxIntensity r \<and>
         res_LEIR_extractedIonPerBunch r \<le> spaceChargeLimitLEIR"
proof -
  note inv = reachable_inv [OF assms(1)]
  from calculate_total [OF inv assms(2,3)] obtain r self' where
    calc: "calculate_LHC_bunch_intensity self = Inr (r, self')" by blast
  note nn = calculate_nonneg [OF inv assms(2,3) calc]
  note ru = chain_inv_rules [OF inv]
  from calc obtain sl sp ss where
    l1: "linearIntensityLimit self (mass_GeV (ion self))
           (if use_gammas_ref (cfg self) then LEIR_gamma_extr_ref (ion self)
            else (mass_GeV (ion self) + E_kin_per_A_LEIR_extr (ref self) * A (ion self)) / mass_GeV (ion self))
           (Nb0_LEIR_extr (ref self)) (Q0_LEIR (ref self)) (m0_GeV (ref self))
           (gamma0_LEIR_extr (ref self)) False = Inr sl"
    and l2: "linearIntensityLimit self (mass_GeV (ion self))
           (if use_gammas_ref (cfg self) then PS_gamma_inj_ref (ion self)
            else (mass_GeV (ion self) + E_kin_per_A_PS_inj (ref self) * A (ion self)) / mass_GeV (ion self))
           (Nb0_PS_extr (ref self)) (Q0_PS (ref self)) (m0_GeV (ref self))
           (gamma0_PS_inj (ref self)) (LEIR_PS_strip (cfg self)) = Inr sp"
    and l3: "linearIntensityLimit self (mass_GeV (ion self))
           (if use_gammas_ref (cfg self) then SPS_gamma_inj_ref (ion self)
            else if use_Roderiks_gamma (cfg self)
            then sqrt (1 + (((if LEIR_PS_strip (cfg self) then Z (ion self) else Q (ion self)) / 54)
                               / (mass_GeV (ion self) / m0_GeV (ref self))) ^ 2
                            * ((gamma0_SPS_inj (ref self)) ^ 2 - 1))
            else (mass_GeV (ion self) + E_kin_per_A_SPS_inj (ref self) * A (ion self)) / mass_GeV (ion self))
           (Nb0_SPS_extr (ref self)) (Q0_SPS (ref self)) (m0_GeV (ref self))
           (gamma0_SPS_inj (ref self)) True = Inr ss"
    and f: "res_LEIR_space_charge_limit r = sl" "res_PS_space_charge_limit r = sp"
      "res_SPS_spaceChargeLimit r = ss"
    and ipp: "res_Linac3_ionsPerPulse r =
           (linac3_current (ion self) * linac3_pulseLength (ion self)) / (Q (ion self) * e)"
    and n: "res_LEIR_numberofPulses r =
           (if nPulsesLEIR (cfg self) = 0
            then min 7 \<lceil>sl / ((linac3_current (ion self) * linac3_pulseLength (ion self)) / (Q (ion self) * e)
                                 * LEIR_injection_efficiency (ion self))\<rceil>
            else nPulsesLEIR (cfg self))"
    and tot: "res_LEIR_maxIntensity r =
           res_Linac3_ionsPerPulse r * of_int (res_LEIR_numberofPulses r)
             * LEIR_injection_efficiency (ion self)"
    and el: "res_LEIR_extractedIonPerBunch r =
           LEIR_transmission (ion self) * min (res_LEIR_maxIntensity r) sl
             / of_int (LEIR_bunches (cfg self))"
    and ep: "res_PS_ionsExtractedPerBunch r =
           res_LEIR_extractedIonPerBunch r
             * (if LEIR_PS_strip (cfg self) then LEIR_PS_stripping_efficiency (ion self) else 1)
             * PS_transmission (ion self) / of_int (PS_splitting (cfg self))"
    and inj: "res_SPS_maxIntensityPerBunch r =
           (if consider_PS_space_charge_limit (cfg self)
            then min sp (res_PS_ionsExtractedPerBunch r)
            else res_PS_ionsExtractedPerBunch r)
             * (if Z (ion self) = Q (ion self) \<or> LEIR_PS_strip (cfg self)
                then PS_SPS_transmission_efficiency (ion self)
                else PS_SPS_stripping_efficiency (ion self))"
    and lhc: "res_LHC_ionsPerBunch r =
           min ss (res_SPS_maxIntensityPerBunch r)
             * SPS_transmission (ion self) * SPS_slipstacking_transmission (ion self)"
    by (rule calculate_input)
  have n': "res_LEIR_numberofPulses r =
           (if nPulsesLEIR (cfg self) = 0
            then min 7 \<lceil>sl / (res_Linac3_ionsPerPulse r * LEIR_injection_efficiency (ion self))\<rceil>
            else nPulsesLEIR (cfg self))"
    unfolding ipp by (rule n)
  have t1: "SPS_transmission (ion self) \<le> 1" using ru(6) by auto
  have t0: "0 < SPS_transmission (ion self)" using ru(6) by auto
  have s1: "SPS_slipstacking_transmission (ion self) \<le> 1" by (simp add: ru(7))
  have s0: "0 < SPS_slipstacking_transmission (ion self)" by (simp add: ru(7))
  have tl: "LEIR_transmission (ion self) \<le> 1" by (simp add: ru(2))
  have tl0: "0 < LEIR_transmission (ion self)" by (simp add: ru(2))
  let ?m = "min ss (res_SPS_maxIntensityPerBunch r)"
  have m0: "0 \<le> ?m" using nn(3) nn(8) unfolding f by simp
  have "?m * SPS_transmission (ion self) \<le> ?m * 1"
    by (rule mult_left_mono [OF t1 m0])
  then have le: "res_LHC_ionsPerBunch r \<le> ?m" unfolding lhc by (simp add: ru(7))
  have b: "1 \<le> (of_int (LEIR_bunches (cfg self)) :: real)"
    using assms(3) by (simp add: counts_well_formed_def)
  let ?k = "min (res_LEIR_maxIntensity r) sl"
  have k0: "0 \<le> ?k" using nn(5) nn(1) unfolding f by simp
  have "LEIR_transmission (ion self) * ?k \<le> 1 * ?k"
    by (rule mult_right_mono [OF tl k0])
  moreover have "?k * 1 \<le> ?k * of_int (LEIR_bunches (cfg self))"
    by (rule mult_left_mono [OF b k0])
  ultimately have c: "LEIR_transmission (ion self) * ?k \<le> ?k * of_int (LEIR_bunches (cfg self))"
    by (simp only: mult_1 mult_1_right)
  from b have bp: "0 < (of_int (LEIR_bunches (cfg self)) :: real)" by linarith
  have lek: "res_LEIR_extractedIonPerBunch r \<le> ?k"
    unfolding el pos_divide_le_eq [OF bp] by (rule c)
  from le have b1: "res_LHC_ionsPerBunch r \<le> ss"
    and b2: "res_LHC_ionsPerBunch r \<le> res_SPS_maxIntensityPerBunch r" by simp_all
  from lek have b3: "res_LEIR_extractedIonPerBunch r \<le> res_LEIR_maxIntensity r"
    and b4: "res_LEIR_extractedIonPerBunch r \<le> sl" by simp_all
  from calc l1 l2 l3 f ipp n' tot el ep inj lhc t0 t1 s0 s1 tl0 tl m0 k0 b1 b2 b3 b4
  show ?thesis
    by (intro exI [of _ r] exI [of _ self'] exI [of _ sl] exI [of _ sp] exI [of _ ss] conjI)
qed

theorem delivered_intensity_within_limits_witness:
  "reachable (example_chain example_args) \<and> ion_well_formed (example_chain example_args) \<and>
   counts_well_formed (example_chain example_args) \<and>
   (\<exists>r self'. calculate_LHC_bunch_intensity (example_chain example_args) = Inr (r, self') \<and>
      res_SPS_spaceChargeLimit r = 221 * 10 ^ 6 / (62 / 100) \<and>
      res_SPS_maxIntensityPerBunch r
        = (20 * (1 / 10 ^ 6) * (200 * (1 / 10 ^ 6))) / (54 * e) * (5 / 10) * (8 / 10) * (9 / 10) * (9 / 10) \<and>
      res_LHC_ionsPerBunch r
        = (20 * (1 / 10 ^ 6) * (200 * (1 / 10 ^ 6))) / (54 * e) * (5 / 10) * (8 / 10) * (9 / 10) * (9 / 10)
            * (62 / 100) * 1 \<and>
      res_LHC_ionsPerBunch r \<le> res_SPS_spaceChargeLimit r \<and>
      res_LHC_ionsPerBunch r \<le> res_SPS_maxIntensityPerBunch r \<and>
      res_LEIR_space_charge_limit r = 10 * 10 ^ 10 / 54 \<and>
      res_LEIR_maxIntensity r = (20 * (1 / 10 ^ 6) * (200 * (1 / 10 ^ 6))) / (54 * e) * (5 / 10) \<and>
      res_LEIR_extractedIonPerBunch r
        = (20 * (1 / 10 ^ 6) * (200 * (1 / 10 ^ 6))) / (54 * e) * (5 / 10) * (8 / 10) \<and>
      res_LEIR_extractedIonPerBunch r \<le> res_LEIR_maxIntensity r \<and>
      res_LEIR_extractedIonPerBunch r \<le> res_LEIR_space_charge_limit r)"
proof -
  let ?c = "example_chain example_args"
  have a: "arg_ion_type example_args = ''Pb''" "arg_ion_data example_args = example_ion_data"
    "arg_ion_type_ref example_args = ''Pb''" "\<not> arg_use_gammas_ref example_args"
    and k: "arg_nPulsesLEIR example_args = 1" "arg_LEIR_bunches example_args = 1"
      "arg_PS_splitting example_args = 1" "arg_consider_PS_space_charge_limit example_args"
    and fd: "arg_LEIR_PS_strip example_args = False"
    and ns: "\<not> arg_LEIR_PS_strip example_args"
    and ac: "arg_account_for_SPS_transmission example_args = True"
    by (simp_all add: example_args_def)
  have w: "reachable ?c" "ion_well_formed ?c" "counts_well_formed ?c"
    using example_chain_well_formed [OF a] by (simp_all add: example_args_def)
  note st = InjectorChain_init_settings [OF example_chain_init [OF a]]
  note inv = reachable_inv [OF w(1)]
  note ru = chain_inv_rules [OF inv]
  have acc: "account_for_SPS_transmission (cfg ?c)" unfolding st(4) ac ..
  with inv have t: "SPS_transmission (ion ?c) = 62 / 100"
    by (auto simp: chain_inv_def transmission_rules_def)
  from delivered_intensity_within_limits [OF w] obtain r s sl sp ss where
    calc: "calculate_LHC_bunch_intensity ?c = Inr (r, s)"
    and e: "linearIntensityLimit ?c (mass_GeV (ion ?c))
           (if use_gammas_ref (cfg ?c) then LEIR_gamma_extr_ref (ion ?c)
            else (mass_GeV (ion ?c) + E_kin_per_A_LEIR_extr (ref ?c) * A (ion ?c)) / mass_GeV (ion ?c))
           (Nb0_LEIR_extr (ref ?c)) (Q0_LEIR (ref ?c)) (m0_GeV (ref ?c))
           (gamma0_LEIR_extr (ref ?c)) False = Inr sl"
      "linearIntensityLimit ?c (mass_GeV (ion ?c))
           (if use_gammas_ref (cfg ?c) then PS_gamma_inj_ref (ion ?c)
            else (mass_GeV (ion ?c) + E_kin_per_A_PS_inj (ref ?c) * A (ion ?c)) / mass_GeV (ion ?c))
           (Nb0_PS_extr (ref ?c)) (Q0_PS (ref ?c)) (m0_GeV (ref ?c))
           (gamma0_PS_inj (ref ?c)) (LEIR_PS_strip (cfg ?c)) = Inr sp"
      "res_Linac3_ionsPerPulse r =
           (linac3_current (ion ?c) * linac3_pulseLength (ion ?c)) / (Q (ion ?c) * e)"
      "res_LEIR_numberofPulses r =
           (if nPulsesLEIR (cfg ?c) = 0
            then min 7 \<lceil>sl / (res_Linac3_ionsPerPulse r * LEIR_injection_efficiency (ion ?c))\<rceil>
            else nPulsesLEIR (cfg ?c))"
      "res_LEIR_maxIntensity r =
           res_Linac3_ionsPerPulse r * of_int (res_LEIR_numberofPulses r)
             * LEIR_injection_efficiency (ion ?c)"
      "res_LEIR_extractedIonPerBunch r =
           LEIR_transmission (ion ?c) * min (res_LEIR_maxIntensity r) sl
             / of_int (LEIR_bunches (cfg ?c))"
      "res_PS_ionsExtractedPerBunch r =
           res_LEIR_extractedIonPerBunch r
             * (if LEIR_PS_strip (cfg ?c) then LEIR_PS_stripping_efficiency (ion ?c) else 1)
             * PS_transmission (ion ?c) / of_int (PS_splitting (cfg ?c))"
      "res_SPS_maxIntensityPerBunch r =
           (if consider_PS_space_charge_limit (cfg ?c)
            then min sp (res_PS_ionsExtractedPerBunch r)
            else res_PS_ionsExtractedPerBunch r)
             * (if Z (ion ?c) = Q (ion ?c) \<or> LEIR_PS_strip (cfg ?c)
                then PS_SPS_transmission_efficiency (ion ?c)
                else PS_SPS_stripping_efficiency (ion ?c))"
    and l3: "linearIntensityLimit ?c (mass_GeV (ion ?c))
           (if use_gammas_ref (cfg ?c) then SPS_gamma_inj_ref (ion ?c)
            else if use_Roderiks_gamma (cfg ?c)
            then sqrt (1 + (((if LEIR_PS_strip (cfg ?c) then Z (ion ?c) else Q (ion ?c)) / 54)
                               / (mass_GeV (ion ?c) / m0_GeV (ref ?c))) ^ 2
                            * ((gamma0_SPS_inj (ref ?c)) ^ 2 - 1))
            else (mass_GeV (ion ?c) + E_kin_per_A_SPS_inj (ref ?c) * A (ion ?c)) / mass_GeV (ion ?c))
           (Nb0_SPS_extr (ref ?c)) (Q0_SPS (ref ?c)) (m0_GeV (ref ?c))
           (gamma0_SPS_inj (ref ?c)) True = Inr ss"
    and f: "res_LEIR_space_charge_limit r = sl" "res_SPS_spaceChargeLimit r = ss"
    and lhc: "res_LHC_ionsPerBunch r =
           min ss (res_SPS_maxIntensityPerBunch r)
             * SPS_transmission (ion ?c) * SPS_slipstacking_transmission (ion ?c)"
    and b: "res_LHC_ionsPerBunch r \<le> ss"
      "res_LHC_ionsPerBunch r \<le> res_SPS_maxIntensityPerBunch r"
      "res_LEIR_extractedIonPerBunch r \<le> res_LEIR_maxIntensity r"
      "res_LEIR_extractedIonPerBunch r \<le> sl"
    by blast
  note v = example_chain_fields [OF a k e]
  from l3 have ss: "ss = 221 * 10 ^ 6 / (62 / 100)"
    unfolding example_chain_limit_SPS [OF a ns] ac by simp
  have inj: "res_SPS_maxIntensityPerBunch r = res_PS_ionsExtractedPerBunch r * (9 / 10)"
    unfolding v(8) v(7) fd by simp
  have l: "res_LHC_ionsPerBunch r = res_PS_ionsExtractedPerBunch r * (9 / 10) * (62 / 100) * 1"
    unfolding lhc ss inj v(9) t ru(7) ..
  have "res_SPS_spaceChargeLimit r = 221 * 10 ^ 6 / (62 / 100)" unfolding f ss ..
  moreover have "res_SPS_maxIntensityPerBunch r
        = (20 * (1 / 10 ^ 6) * (200 * (1 / 10 ^ 6))) / (54 * e) * (5 / 10) * (8 / 10) * (9 / 10) * (9 / 10)"
    unfolding inj v(7) ..
  moreover have "res_LHC_ionsPerBunch r
        = (20 * (1 / 10 ^ 6) * (200 * (1 / 10 ^ 6))) / (54 * e) * (5 / 10) * (8 / 10) * (9 / 10) * (9 / 10)
            * (62 / 100) * 1"
    unfolding l v(7) ..
  moreover have "res_LHC_ionsPerBunch r \<le> res_SPS_spaceChargeLimit r" unfolding f by (rule b(1))
  moreover have "res_LEIR_space_charge_limit r = 10 * 10 ^ 10 / 54" unfolding f by (rule v(1))
  moreover have "res_LEIR_extractedIonPerBunch r \<le> res_LEIR_space_charge_limit r"
    unfolding f by (rule b(4))
  ultimately show ?thesis using w calc b(2) b(3) v(5) v(6) by blast
qed

text \<open>
  C7. \<open>ion0_referenceValues\<close> of an object whose \<open>SPS_transmission\<close> is not 0 (\<open>init_ion\<close>
  assigns 0.62, and the only division of the method is by it) raises an error exactly
  when \<open>ion_type_ref\<close> is not \<open>'Pb'\<close>, and the error is the \<open>ValueError\<close>. With \<open>'Pb'\<close> it
  returns; called after \<open>init_ion\<close>, as the constructor does, the object it returns has
  every reference constant assigned. A constructor call with another reference returns
  no object, and every object in use has the reference \<open>'Pb'\<close> and its constants.
\<close>

theorem reference_values_need_lead:
  assumes "SPS_transmission (ion self) \<noteq> 0"
  shows "((\<exists>err. ion0_referenceValues self = Inl err) \<longleftrightarrow> ion_type_ref (cfg self) \<noteq> ''Pb'') \<and>
         (ion_type_ref (cfg self) \<noteq> ''Pb'' \<longrightarrow> ion0_referenceValues self = Inl ValueError) \<and>
         (ion_type_ref (cfg self) = ''Pb'' \<longrightarrow>
            (\<exists>self'. ion0_referenceValues self = Inr self' \<and> cfg self' = cfg self \<and>
               (SPS_transmission (ion self) = 62 / 100 \<longrightarrow> reference_is_Pb self'))) \<and>
         (\<forall>read_csv self0 args. arg_ion_type_ref args \<noteq> ''Pb'' \<longrightarrow>
            (\<exists>err. InjectorChain_init read_csv self0 args = Inl err)) \<and>
         (\<forall>s. reachable s \<longrightarrow> ion_type_ref (cfg s) = ''Pb'' \<and> reference_is_Pb s)"
proof (intro conjI allI impI)
  show "(\<exists>err. ion0_referenceValues self = Inl err) \<longleftrightarrow> ion_type_ref (cfg self) \<noteq> ''Pb''"
    using assms by (simp add: ion0_referenceValues_def Let_def)
next
  assume "ion_type_ref (cfg self) \<noteq> ''Pb''"
  then show "ion0_referenceValues self = Inl ValueError"
    by (simp add: ion0_referenceValues_def Let_def)
next
  assume pb: "ion_type_ref (cfg self) = ''Pb''"
  have "\<exists>self'. ion0_referenceValues self = Inr self'"
    using assms pb by (simp add: ion0_referenceValues_def Let_def)
  then obtain self' where r: "ion0_referenceValues self = Inr self'" by blast
  have "cfg self' = cfg self" by (rule ion0_referenceValues_frame(1) [OF r])
  moreover have "SPS_transmission (ion self) = 62 / 100 \<longrightarrow> reference_is_Pb self'"
    using ion0_referenceValues_ref [OF r] by blast
  ultimately show "\<exists>self'. ion0_referenceValues self = Inr self' \<and> cfg self' = cfg self \<and>
      (SPS_transmission (ion self) = 62 / 100 \<longrightarrow> reference_is_Pb self')"
    using r by blast
next
  fix read_csv self0 and args :: init_args
  assume n: "arg_ion_type_ref args \<noteq> ''Pb''"
  show "\<exists>err. InjectorChain_init read_csv self0 args = Inl err"
  proof (cases "InjectorChain_init read_csv self0 args")
    case (Inl err)
    then show ?thesis by blast
  next
    case (Inr s)
    from InjectorChain_init_settings(11) [OF Inr] n show ?thesis by simp
  qed
next
  fix s assume "reachable s"
  then have "chain_inv s" by (rule reachable_inv)
  then show "ion_type_ref (cfg s) = ''Pb''" and "reference_is_Pb s"
    by (simp_all add: chain_inv_def)
qed

theorem reference_values_need_lead_witness:
  "SPS_transmission (ion (example_chain example_args)) = 62 / 100 \<and>
   (\<exists>self'. ion0_referenceValues (example_chain example_args) = Inr self' \<and>
      reference_is_Pb self') \<and>
   ion0_referenceValues
     ((example_chain example_args)\<lparr>cfg := (cfg (example_chain example_args))\<lparr>ion_type_ref := ''Ar''\<rparr>\<rparr>)
     = Inl ValueError \<and>
   (\<exists>err. InjectorChain_init example_read_csv fresh_object (example_args\<lparr>arg_ion_type_ref := ''Ar''\<rparr>)
      = Inl err)"
proof -
  let ?c = "example_chain example_args"
  have a: "arg_ion_type example_args = ''Pb''" "arg_ion_data example_args = example_ion_data"
    "arg_ion_type_ref example_args = ''Pb''" "\<not> arg_use_gammas_ref example_args"
    by (simp_all add: example_args_def)
  note init = example_chain_init [OF a]
  note st = InjectorChain_init_settings [OF init]
  have acc: "account_for_SPS_transmission (cfg ?c)"
    unfolding st(4) by (simp add: example_args_def)
  have pb: "ion_type_ref (cfg ?c) = ''Pb''" unfolding st(9) by (rule a(3))
  have "chain_inv ?c" by (rule reachable_inv [OF reach_init [OF init]])
  with acc have t: "SPS_transmission (ion ?c) = 62 / 100"
    by (auto simp: chain_inv_def transmission_rules_def)
  then have nz: "SPS_transmission (ion ?c) \<noteq> 0" by simp
  have nz': "SPS_transmission (ion (?c\<lparr>cfg := (cfg ?c)\<lparr>ion_type_ref := ''Ar''\<rparr>\<rparr>)) \<noteq> 0"
    using nz by simp
  from reference_values_need_lead [OF nz] pb t
  have 1: "\<exists>self'. ion0_referenceValues ?c = Inr self' \<and> reference_is_Pb self'" by blast
  from reference_values_need_lead [OF nz']
  have 2: "ion0_referenceValues (?c\<lparr>cfg := (cfg ?c)\<lparr>ion_type_ref := ''Ar''\<rparr>\<rparr>) = Inl ValueError"
    by simp
  from reference_values_need_lead [OF nz]
  have 3: "\<exists>err. InjectorChain_init example_read_csv fresh_object (example_args\<lparr>arg_ion_type_ref := ''Ar''\<rparr>)
      = Inl err"
    by (simp add: example_args_def)
  from t 1 2 3 show ?thesis by blast
qed


section \<open>All ion species of the table\<close>

lemma filter_label_nth:
  assumes "distinct (map fst tbl)" and "i < length tbl"
  shows "filter (\<lambda>p. fst p = fst (tbl ! i)) tbl = [tbl ! i]"
  using assms
proof (induction tbl arbitrary: i)
  case Nil
  then show ?case by simp
next
  case (Cons a tbl)
  from Cons.prems(1) have na: "fst a \<notin> fst ` set tbl" and d: "distinct (map fst tbl)" by simp_all
  show ?case
  proof (cases i)
    case 0
    have "\<And>p. p \<in> set tbl \<Longrightarrow> fst p \<noteq> fst a"
    proof
      fix p assume "p \<in> set tbl" and "fst p = fst a"
      then have "fst a \<in> fst ` set tbl" by (metis imageI)
      with na show False by contradiction
    qed
    then have "filter (\<lambda>p. fst p = fst a) tbl = []" by (simp add: filter_empty_conv)
    then show ?thesis unfolding 0 by simp
  next
    case (Suc j)
    with Cons.prems(2) have j: "j < length tbl" by simp
    then have "tbl ! j \<in> set tbl" by simp
    then have "fst (tbl ! j) \<in> fst ` set tbl" by (rule imageI)
    with na have ne: "fst a \<noteq> fst (tbl ! j)" by metis
    have "filter (\<lambda>p. fst p = fst (tbl ! j)) (a # tbl) = filter (\<lambda>p. fst p = fst (tbl ! j)) tbl"
      using ne by simp
    also have "\<dots> = [tbl ! j]" by (rule Cons.IH [OF d j])
    finally show ?thesis unfolding Suc by simp
  qed
qed


lemma select_label_distinct:
  assumes "distinct (map fst tbl)" and "i < length tbl"
  shows "select_label tbl (fst (tbl ! i)) = Inr (snd (tbl ! i))"
  unfolding select_label_def filter_label_nth [OF assms] by simp

lemma select_label_nth:
  assumes "select_label tbl (fst (tbl ! i)) = Inr c" and "i < length tbl"
  shows "c = snd (tbl ! i)"
proof (cases "filter (\<lambda>p. fst p = fst (tbl ! i)) tbl")
  case Nil
  with assms(1) show ?thesis by (simp add: select_label_def)
next
  case (Cons p ps)
  show ?thesis
  proof (cases ps)
    case Nil
    from assms(2) have "tbl ! i \<in> set (filter (\<lambda>p. fst p = fst (tbl ! i)) tbl)" by simp
    then have "tbl ! i = p" unfolding Cons Nil by simp
    moreover from assms(1) have "c = snd p" unfolding select_label_def Cons Nil by simp
    ultimately show ?thesis by simp
  next
    case (Cons q qs)
    with assms(1) \<open>filter (\<lambda>p. fst p = fst (tbl ! i)) tbl = p # ps\<close> show ?thesis
      by (simp add: select_label_def)
  qed
qed


end
